theory Spec2Isabelle
  imports Complex_Main "HOL-Library.Multiset" "HOL-Library.Product_Lexorder"
begin

section \<open>Cost simulation of electricity tariffs (src/simulacion/costes.py)\<close>

text \<open>
  The module works on pandas tables. A table is modelled as the list of its rows, in index
  order, and a column as the list of its values. Every exception the module can raise is a
  value of \<open>py_error\<close>, returned as \<^const>\<open>Inl\<close>.

  The module is modelled twice. In the model of the two pipelines as a whole, Python floats
  are \<^typ>\<open>real\<close>: sums, products and quotients are exact, comparisons are the usual order,
  and there is no NaN or infinity; what the library reports as NaN (a label not yet
  assigned, the median of an empty column) is \<^const>\<open>None\<close>. The properties that depend on how
  a cost is rounded, or on a NaN among the costs, are stated on a second model, of the
  loops over the tariffs and of the percentage helper, on doubles.
\<close>

subsection \<open>Errors and input tables\<close>

datatype py_error = ValueError | KeyError | TypeError | ZeroDivisionError | IndexingError

text \<open>The part of a pandas timestamp the module reads: \<open>dt.year\<close>, \<open>dt.month\<close>, \<open>dt.hour\<close>.\<close>

record datetime =
  year :: int
  month :: nat
  day :: nat
  hour :: nat
  minute :: nat

text \<open>A row of \<open>consumo_df\<close>.\<close>

record consumo =
  timestamp :: datetime
  kwh :: real
  es_fin_semana :: bool

text \<open>A row of \<open>tarifas_df\<close>.\<close>

record tarifa_row =
  comercializadora :: string
  tarifa :: string
  punta_LV :: real
  llano_LV :: real
  valle_LV :: real
  valle_SD :: real
  potencia_mes_valle :: real
  potencia_mes_punta_llano :: real

subsection \<open>Series operations used by the classifier\<close>

definition isna :: "'a option \<Rightarrow> bool" where
  "isna x = (x = None)"

text \<open>\<open>s.loc[msk] = v\<close>: the entries selected by the boolean mask take the value \<open>v\<close>.\<close>

definition loc_set :: "'a option list \<Rightarrow> bool list \<Rightarrow> 'a \<Rightarrow> 'a option list" where
  "loc_set s msk v = map2 (\<lambda>x m. if m then Some v else x) s msk"

definition mask_and :: "bool list \<Rightarrow> bool list \<Rightarrow> bool list" where
  "mask_and a b = map2 (\<and>) a b"

definition mask_or :: "bool list \<Rightarrow> bool list \<Rightarrow> bool list" where
  "mask_or a b = map2 (\<or>) a b"

definition mask_not :: "bool list \<Rightarrow> bool list" where
  "mask_not a = map Not a"

subsection \<open>\<open>_clasificar_periodo\<close>\<close>

text \<open>
  Lines 29 to 44: the series \<open>periodo\<close> starts with no label anywhere and is filled by four
  masked assignments, in the order of the source.
\<close>

definition periodo_series :: "datetime list \<Rightarrow> bool list \<Rightarrow> string option list" where
  "periodo_series timestamp_col es_fin_semana_col =
     (let horas = map hour timestamp_col;
          periodo = replicate (length timestamp_col) None;
          periodo = loc_set periodo es_fin_semana_col ''valle_SD'';
          mask_lv = mask_not es_fin_semana_col;
          periodo = loc_set periodo (mask_and mask_lv (map (\<lambda>h. h < 8) horas)) ''valle_LV'';
          mask_punta = mask_and mask_lv
            (mask_or (mask_and (map (\<lambda>h. 10 \<le> h) horas) (map (\<lambda>h. h < 14) horas))
                     (mask_and (map (\<lambda>h. 18 \<le> h) horas) (map (\<lambda>h. h < 22) horas)));
          periodo = loc_set periodo mask_punta ''punta_LV'';
          periodo = loc_set periodo (mask_and mask_lv (map isna periodo)) ''llano_LV''
      in periodo)"

text \<open>
  Lines 46 to 49: a label still missing raises \<open>ValueError\<close>. A boolean mask whose index
  does not match the series cannot be used as an indexer: pandas raises \<open>IndexingError\<close>.
\<close>

definition clasificar_periodo :: "datetime list \<Rightarrow> bool list \<Rightarrow> py_error + string list" where
  "clasificar_periodo timestamp_col es_fin_semana_col =
     (if length timestamp_col \<noteq> length es_fin_semana_col then Inl IndexingError
      else
        let periodo = periodo_series timestamp_col es_fin_semana_col
        in if list_ex isna periodo then Inl ValueError else Inr (map the periodo))"

text \<open>
  The rule of the specification (section 4.1) for one record, \<open>classify(timestamp,
  is_weekend)\<close>: weekend first, then off-peak, peak and mid weekday hours. The labels are
  \<open>valle_SD\<close> for OffPeak_Weekend, \<open>valle_LV\<close> for OffPeak_Weekday, \<open>punta_LV\<close> for
  Peak_Weekday and \<open>llano_LV\<close> for Mid_Weekday.
\<close>

definition classify :: "datetime \<Rightarrow> bool \<Rightarrow> string" where
  "classify ts is_weekend =
     (if is_weekend then ''valle_SD''
      else if hour ts < 8 then ''valle_LV''
      else if (10 \<le> hour ts \<and> hour ts < 14) \<or> (18 \<le> hour ts \<and> hour ts < 22) then ''punta_LV''
      else ''llano_LV'')"

definition periodo_registro :: "consumo \<Rightarrow> string" where
  "periodo_registro c = classify (timestamp c) (es_fin_semana c)"

subsection \<open>Arithmetic helpers\<close>

text \<open>Python's \<open>/\<close> on floats raises \<open>ZeroDivisionError\<close> on a zero divisor.\<close>

definition truediv :: "real \<Rightarrow> real \<Rightarrow> py_error + real" where
  "truediv a b = (if b = 0 then Inl ZeroDivisionError else Inr (a / b))"

definition safe_pct :: "real \<Rightarrow> real \<Rightarrow> py_error + real" where
  "safe_pct parte total' =
     (if total' = 0 then Inr 0
      else case truediv parte total' of Inl e \<Rightarrow> Inl e | Inr q \<Rightarrow> Inr (q * 100))"

text \<open>A loop (or a row-wise \<open>apply\<close>) whose body may raise: the first error ends it.\<close>

fun map_err :: "('a \<Rightarrow> 'e + 'b) \<Rightarrow> 'a list \<Rightarrow> 'e + 'b list" where
  "map_err f [] = Inr []"
| "map_err f (x # xs) =
     (case f x of
        Inl e \<Rightarrow> Inl e
      | Inr y \<Rightarrow> (case map_err f xs of Inl e \<Rightarrow> Inl e | Inr ys \<Rightarrow> Inr (y # ys)))"

text \<open>\<open>Series.median()\<close> and \<open>Series.max()\<close>; both are NaN on an empty column.\<close>

definition median :: "real list \<Rightarrow> real option" where
  "median xs =
     (let s = sort xs; n = length s
      in if n = 0 then None
         else if n mod 2 = 1 then Some (s ! (n div 2))
         else Some ((s ! (n div 2 - 1) + s ! (n div 2)) / 2))"

fun maximo :: "real list \<Rightarrow> real option" where
  "maximo [] = None"
| "maximo (x # xs) = Some (fold max xs x)"

text \<open>\<open>df.groupby(key)[col].sum().to_dict()\<close> and \<open>dict.get(k, default)\<close>.\<close>

definition groupby_sum :: "('k \<times> real) list \<Rightarrow> ('k \<rightharpoonup> real)" where
  "groupby_sum rows =
     fold (\<lambda>(k, v) m. m(k \<mapsto> (case m k of None \<Rightarrow> v | Some s \<Rightarrow> s + v))) rows Map.empty"

definition dict_get :: "('k \<rightharpoonup> 'v) \<Rightarrow> 'k \<Rightarrow> 'v \<Rightarrow> 'v" where
  "dict_get m k d = (case m k of None \<Rightarrow> d | Some v \<Rightarrow> v)"

subsection \<open>KPI columns\<close>

text \<open>
  A helper that adds columns to a table returns each row paired with the record of the
  new columns. The column names the source passes as strings are passed as the selector
  functions of those columns; the suffix only names the new columns.
\<close>

record kpis_ahorro =
  ref_mediana_coste_total :: real
  ref_peor_coste_total :: real
  ahorro_vs_mediana_eur :: real
  ahorro_vs_peor_eur :: real
  ahorro_vs_mediana_pct :: real
  ahorro_vs_peor_pct :: real

text \<open>
  \<open>_anadir_kpis_ahorro\<close>. On a table without rows the two references are NaN and no row
  receives them: the result is the empty table.
\<close>

definition anadir_kpis_ahorro ::
  "'r list \<Rightarrow> ('r \<Rightarrow> real) \<Rightarrow> py_error + ('r \<times> kpis_ahorro) list" where
  "anadir_kpis_ahorro df col_coste =
     (case median (map col_coste df) of
        None \<Rightarrow> Inr []
      | Some mediana \<Rightarrow>
     (case maximo (map col_coste df) of
        None \<Rightarrow> Inr []
      | Some peor \<Rightarrow>
     (case map_err (\<lambda>r. safe_pct (mediana - col_coste r) mediana) df of
        Inl e \<Rightarrow> Inl e
      | Inr pct_mediana \<Rightarrow>
     (case map_err (\<lambda>r. safe_pct (peor - col_coste r) peor) df of
        Inl e \<Rightarrow> Inl e
      | Inr pct_peor \<Rightarrow>
        Inr (map2 (\<lambda>r (pm, pp).
               (r, \<lparr>ref_mediana_coste_total = mediana,
                    ref_peor_coste_total = peor,
                    ahorro_vs_mediana_eur = mediana - col_coste r,
                    ahorro_vs_peor_eur = peor - col_coste r,
                    ahorro_vs_mediana_pct = pm,
                    ahorro_vs_peor_pct = pp\<rparr>))
             df (zip pct_mediana pct_peor))))))"

record pct_coste =
  pct_coste_energia :: real
  pct_coste_potencia :: real

text \<open>\<open>_anadir_pct_energia_potencia\<close>.\<close>

definition anadir_pct_energia_potencia ::
  "'r list \<Rightarrow> ('r \<Rightarrow> real) \<Rightarrow> ('r \<Rightarrow> real) \<Rightarrow> ('r \<Rightarrow> real) \<Rightarrow> py_error + ('r \<times> pct_coste) list" where
  "anadir_pct_energia_potencia df col_energia col_potencia col_total =
     (case map_err (\<lambda>r. safe_pct (col_energia r) (col_total r)) df of
        Inl e \<Rightarrow> Inl e
      | Inr pct_e \<Rightarrow>
     (case map_err (\<lambda>r. safe_pct (col_potencia r) (col_total r)) df of
        Inl e \<Rightarrow> Inl e
      | Inr pct_p \<Rightarrow>
        Inr (map2 (\<lambda>r (pe, pp). (r, \<lparr>pct_coste_energia = pe, pct_coste_potencia = pp\<rparr>))
             df (zip pct_e pct_p))))"

record distribucion =
  kwh_punta_LV :: real
  kwh_llano_LV :: real
  kwh_valle_LV :: real
  kwh_valle_SD :: real
  pct_kwh_punta_LV :: real
  pct_kwh_llano_LV :: real
  pct_kwh_valle_LV :: real
  pct_kwh_valle_SD :: real

text \<open>
  The eight values of the period distribution, as both pipelines compute them (lines 133
  to 141 and lines 332 to 341).
\<close>

definition distribucion_consumo ::
  "real \<Rightarrow> real \<Rightarrow> real \<Rightarrow> real \<Rightarrow> real \<Rightarrow> py_error + distribucion" where
  "distribucion_consumo kwh_punta kwh_llano kwh_valle_lv kwh_valle_sd total_kwh =
     (case safe_pct kwh_punta total_kwh of Inl e \<Rightarrow> Inl e | Inr p1 \<Rightarrow>
     (case safe_pct kwh_llano total_kwh of Inl e \<Rightarrow> Inl e | Inr p2 \<Rightarrow>
     (case safe_pct kwh_valle_lv total_kwh of Inl e \<Rightarrow> Inl e | Inr p3 \<Rightarrow>
     (case safe_pct kwh_valle_sd total_kwh of Inl e \<Rightarrow> Inl e | Inr p4 \<Rightarrow>
        Inr \<lparr>kwh_punta_LV = kwh_punta, kwh_llano_LV = kwh_llano,
             kwh_valle_LV = kwh_valle_lv, kwh_valle_SD = kwh_valle_sd,
             pct_kwh_punta_LV = p1, pct_kwh_llano_LV = p2,
             pct_kwh_valle_LV = p3, pct_kwh_valle_SD = p4\<rparr>))))"

text \<open>\<open>_anadir_distribucion_consumo\<close>: the same eight values on every row.\<close>

definition anadir_distribucion_consumo ::
  "'r list \<Rightarrow> real \<Rightarrow> real \<Rightarrow> real \<Rightarrow> real \<Rightarrow> real \<Rightarrow> py_error + ('r \<times> distribucion) list" where
  "anadir_distribucion_consumo df kwh_punta kwh_llano kwh_valle_lv kwh_valle_sd total_kwh =
     (case distribucion_consumo kwh_punta kwh_llano kwh_valle_lv kwh_valle_sd total_kwh of
        Inl e \<Rightarrow> Inl e
      | Inr d \<Rightarrow> Inr (map (\<lambda>r. (r, d)) df))"

subsection \<open>Annual ranking: \<open>calcular_costes_anuales_por_tarifa\<close>\<close>

text \<open>The dictionary appended to \<open>resultados\<close> for one tariff (lines 188 to 196).\<close>

record fila_anual =
  comercializadora :: string
  tarifa :: string
  kwh_anuales :: real
  coste_energia_anual :: real
  coste_potencia_anual :: real
  coste_total_anual :: real
  coste_medio_eur_kwh :: real

type_synonym fila_ranking = "((fila_anual \<times> kpis_ahorro) \<times> pct_coste) \<times> distribucion"

text \<open>The body of the loop over the tariffs (lines 171 to 196).\<close>

definition fila_anual_tarifa ::
  "real \<Rightarrow> real \<Rightarrow> real \<Rightarrow> real \<Rightarrow> real \<Rightarrow> real \<Rightarrow> real \<Rightarrow> tarifa_row \<Rightarrow> py_error + fila_anual" where
  "fila_anual_tarifa kwh_punta kwh_llano kwh_valle_lv kwh_valle_sd total_kwh
       potencia_kw_valle potencia_kw_punta_llano t =
     (let coste_energia =
            kwh_punta * punta_LV t
            + kwh_llano * llano_LV t
            + kwh_valle_lv * valle_LV t
            + kwh_valle_sd * valle_SD t;
          coste_potencia =
            potencia_mes_valle t * potencia_kw_valle * 12
            + potencia_mes_punta_llano t * potencia_kw_punta_llano * 12;
          total' = coste_energia + coste_potencia
      in case (if total_kwh > 0 then truediv total' total_kwh else Inr 0) of
           Inl e \<Rightarrow> Inl e
         | Inr coste_medio \<Rightarrow>
             Inr \<lparr>comercializadora = tarifa_row.comercializadora t,
                  tarifa = tarifa_row.tarifa t,
                  kwh_anuales = total_kwh,
                  coste_energia_anual = coste_energia,
                  coste_potencia_anual = coste_potencia,
                  coste_total_anual = total',
                  coste_medio_eur_kwh = coste_medio\<rparr>)"

text \<open>
  Line 198 sorts with \<open>sort_values("coste_total_anual")\<close> and no \<open>kind\<close>: pandas then uses
  its default, quicksort, which the library documents as not stable. The sorting routine
  is therefore a parameter \<open>srt\<close> of the model, and \<open>sort_values_ok\<close> states what the library
  guarantees of it: the rows are permuted and the column is ascending. A table built from
  an empty list has no columns, and sorting it by a column raises \<open>KeyError\<close>.
\<close>

definition sort_values_ok :: "(('a \<Rightarrow> real) \<Rightarrow> 'a list \<Rightarrow> 'a list) \<Rightarrow> bool" where
  "sort_values_ok srt \<longleftrightarrow>
     (\<forall>col df. mset (srt col df) = mset df \<and> sorted (map col (srt col df)))"

definition calcular_costes_anuales_por_tarifa ::
  "((fila_anual \<Rightarrow> real) \<Rightarrow> fila_anual list \<Rightarrow> fila_anual list) \<Rightarrow>
   consumo list \<Rightarrow> tarifa_row list \<Rightarrow> real \<Rightarrow> real \<Rightarrow> py_error + fila_ranking list" where
  "calcular_costes_anuales_por_tarifa srt consumo_df tarifas_df
       potencia_kw_valle potencia_kw_punta_llano =
     (case clasificar_periodo (map timestamp consumo_df) (map es_fin_semana consumo_df) of
        Inl e \<Rightarrow> Inl e
      | Inr periodo \<Rightarrow>
        let kwh_periodo = groupby_sum (zip periodo (map kwh consumo_df));
            kwh_punta = dict_get kwh_periodo ''punta_LV'' 0;
            kwh_llano = dict_get kwh_periodo ''llano_LV'' 0;
            kwh_valle_lv = dict_get kwh_periodo ''valle_LV'' 0;
            kwh_valle_sd = dict_get kwh_periodo ''valle_SD'' 0;
            total_kwh = kwh_punta + kwh_llano + kwh_valle_lv + kwh_valle_sd
        in
        (case map_err (fila_anual_tarifa kwh_punta kwh_llano kwh_valle_lv kwh_valle_sd
                         total_kwh potencia_kw_valle potencia_kw_punta_llano) tarifas_df of
           Inl e \<Rightarrow> Inl e
         | Inr resultados \<Rightarrow>
           if resultados = [] then Inl KeyError
           else
           (case anadir_kpis_ahorro (srt coste_total_anual resultados) coste_total_anual of
              Inl e \<Rightarrow> Inl e
            | Inr res1 \<Rightarrow>
           (case anadir_pct_energia_potencia res1
                   (\<lambda>r. coste_energia_anual (fst r))
                   (\<lambda>r. coste_potencia_anual (fst r))
                   (\<lambda>r. coste_total_anual (fst r)) of
              Inl e \<Rightarrow> Inl e
            | Inr res2 \<Rightarrow>
              anadir_distribucion_consumo res2
                kwh_punta kwh_llano kwh_valle_lv kwh_valle_sd total_kwh))))"

subsection \<open>Best tariff per month: \<open>calcular_mejor_tarifa_por_mes\<close>\<close>

text \<open>The dictionary \<open>mejor\<close> (lines 273 to 282).\<close>

record fila_mes =
  anio :: int
  mes :: nat
  comercializadora :: string
  tarifa :: string
  kwh_mes :: real
  coste_energia_mes :: real
  coste_potencia_mes :: real
  coste_total_mes :: real

type_synonym fila_mejor_mes = "((fila_mes \<times> kpis_ahorro) \<times> pct_coste) \<times> distribucion"

text \<open>
  One turn of the loop over the tariffs (lines 255 to 282). The state of the loop is the
  pair of \<open>mejor\<close> (\<open>None\<close> before the first tariff) and the list \<open>costes_mes\<close>.
\<close>

definition paso_tarifa_mes ::
  "int \<Rightarrow> nat \<Rightarrow> real \<Rightarrow> real \<Rightarrow> real \<Rightarrow> real \<Rightarrow> real \<Rightarrow> real \<Rightarrow> real \<Rightarrow>
   tarifa_row \<Rightarrow> fila_mes option \<times> real list \<Rightarrow> fila_mes option \<times> real list" where
  "paso_tarifa_mes anio' mes' kwh_punta kwh_llano kwh_valle_lv kwh_valle_sd total_kwh_mes
       potencia_kw_valle potencia_kw_punta_llano t st =
     (let mejor = fst st;
          costes_mes = snd st;
          coste_energia =
            kwh_punta * punta_LV t
            + kwh_llano * llano_LV t
            + kwh_valle_lv * valle_LV t
            + kwh_valle_sd * valle_SD t;
          coste_potencia =
            potencia_mes_valle t * potencia_kw_valle
            + potencia_mes_punta_llano t * potencia_kw_punta_llano;
          total' = coste_energia + coste_potencia;
          costes_mes = costes_mes @ [total']
      in if (case mejor of None \<Rightarrow> True | Some m \<Rightarrow> total' < coste_total_mes m)
         then (Some \<lparr>anio = anio', mes = mes',
                     comercializadora = tarifa_row.comercializadora t,
                     tarifa = tarifa_row.tarifa t,
                     kwh_mes = total_kwh_mes,
                     coste_energia_mes = coste_energia,
                     coste_potencia_mes = coste_potencia,
                     coste_total_mes = total'\<rparr>, costes_mes)
         else (mejor, costes_mes))"

text \<open>
  The four sums of a group of rows, each row carrying its period label (lines 244 to 250,
  and again lines 324 to 330).
\<close>

definition kwh_grupo :: "(consumo \<times> string) list \<Rightarrow> real \<times> real \<times> real \<times> real \<times> real" where
  "kwh_grupo g =
     (let kwh_map = groupby_sum (map (\<lambda>(c, p). (p, kwh c)) g);
          kwh_punta = dict_get kwh_map ''punta_LV'' 0;
          kwh_llano = dict_get kwh_map ''llano_LV'' 0;
          kwh_valle_lv = dict_get kwh_map ''valle_LV'' 0;
          kwh_valle_sd = dict_get kwh_map ''valle_SD'' 0
      in (kwh_punta, kwh_llano, kwh_valle_lv, kwh_valle_sd,
          kwh_punta + kwh_llano + kwh_valle_lv + kwh_valle_sd))"

text \<open>
  The body of the loop over the (year, month) groups (lines 244 to 302). With an empty
  catalog \<open>mejor\<close> is still \<open>None\<close> when line 290 subscripts it, which raises \<open>TypeError\<close>;
  the two references are NaN exactly in that case.
\<close>

definition mejor_tarifa_grupo ::
  "tarifa_row list \<Rightarrow> real \<Rightarrow> real \<Rightarrow> int \<times> nat \<Rightarrow> (consumo \<times> string) list \<Rightarrow>
   py_error + (fila_mes \<times> kpis_ahorro)" where
  "mejor_tarifa_grupo tarifas_df potencia_kw_valle potencia_kw_punta_llano am g =
     (case kwh_grupo g of
        (kwh_punta, kwh_llano, kwh_valle_lv, kwh_valle_sd, total_kwh_mes) \<Rightarrow>
        (case fold (paso_tarifa_mes (fst am) (snd am) kwh_punta kwh_llano kwh_valle_lv
                      kwh_valle_sd total_kwh_mes potencia_kw_valle potencia_kw_punta_llano)
                tarifas_df (None, []) of
           (mejor, costes_mes) \<Rightarrow>
           (case median costes_mes of None \<Rightarrow> Inl TypeError | Some ref_mediana \<Rightarrow>
           (case maximo costes_mes of None \<Rightarrow> Inl TypeError | Some ref_peor \<Rightarrow>
           (case mejor of None \<Rightarrow> Inl TypeError | Some m \<Rightarrow>
              let ahorro_vs_mediana = ref_mediana - coste_total_mes m;
                  ahorro_vs_peor = ref_peor - coste_total_mes m
              in
              (case safe_pct ahorro_vs_mediana ref_mediana of Inl e \<Rightarrow> Inl e | Inr pm \<Rightarrow>
              (case safe_pct ahorro_vs_peor ref_peor of Inl e \<Rightarrow> Inl e | Inr pp \<Rightarrow>
                 Inr (m, \<lparr>ref_mediana_coste_total = ref_mediana,
                          ref_peor_coste_total = ref_peor,
                          ahorro_vs_mediana_eur = ahorro_vs_mediana,
                          ahorro_vs_peor_eur = ahorro_vs_peor,
                          ahorro_vs_mediana_pct = pm,
                          ahorro_vs_peor_pct = pp\<rparr>))))))))"

text \<open>
  \<open>groupby(["anio", "mes"])\<close> yields the groups in ascending order of the key, each with its
  rows in table order. \<open>sort_values\<close> on two columns is a stable lexicographic sort.
\<close>

definition anio_mes :: "consumo \<Rightarrow> int \<times> nat" where
  "anio_mes c = (year (timestamp c), month (timestamp c))"

definition grupos_anio_mes :: "(consumo \<times> string) list \<Rightarrow> ((int \<times> nat) \<times> (consumo \<times> string) list) list" where
  "grupos_anio_mes df =
     map (\<lambda>am. (am, filter (\<lambda>r. anio_mes (fst r) = am) df))
         (sort (remdups (map (\<lambda>r. anio_mes (fst r)) df)))"

text \<open>The second loop (lines 320 to 342): the period distribution of the row's month.\<close>

definition extra_mes ::
  "(consumo \<times> string) list \<Rightarrow> (fila_mes \<times> kpis_ahorro) \<times> pct_coste \<Rightarrow> py_error + distribucion" where
  "extra_mes df row =
     (let anio' = anio (fst (fst row));
          mes' = mes (fst (fst row));
          sub = filter (\<lambda>r. year (timestamp (fst r)) = anio' \<and> month (timestamp (fst r)) = mes') df
      in case kwh_grupo sub of
           (kwh_punta, kwh_llano, kwh_valle_lv, kwh_valle_sd, total_kwh_mes) \<Rightarrow>
             distribucion_consumo kwh_punta kwh_llano kwh_valle_lv kwh_valle_sd total_kwh_mes)"

definition calcular_mejor_tarifa_por_mes ::
  "consumo list \<Rightarrow> tarifa_row list \<Rightarrow> real \<Rightarrow> real \<Rightarrow> py_error + fila_mejor_mes list" where
  "calcular_mejor_tarifa_por_mes consumo_df tarifas_df potencia_kw_valle potencia_kw_punta_llano =
     (case clasificar_periodo (map timestamp consumo_df) (map es_fin_semana consumo_df) of
        Inl e \<Rightarrow> Inl e
      | Inr periodo \<Rightarrow>
        let df = zip consumo_df periodo in
        (case map_err (\<lambda>(am, g). mejor_tarifa_grupo tarifas_df potencia_kw_valle
                                    potencia_kw_punta_llano am g)
                (grupos_anio_mes df) of
           Inl e \<Rightarrow> Inl e
         | Inr resultados \<Rightarrow>
           if resultados = [] then Inl KeyError
           else
           (case anadir_pct_energia_potencia
                   (sort_key (\<lambda>r. (anio (fst r), mes (fst r))) resultados)
                   (\<lambda>r. coste_energia_mes (fst r))
                   (\<lambda>r. coste_potencia_mes (fst r))
                   (\<lambda>r. coste_total_mes (fst r)) of
              Inl e \<Rightarrow> Inl e
            | Inr res \<Rightarrow>
              (case map_err (extra_mes df) res of
                 Inl e \<Rightarrow> Inl e
               | Inr filas \<Rightarrow> Inr (zip res filas)))))"

subsection \<open>The cost aggregator of the specification\<close>

text \<open>
  Section 4.2 of the specification, in its own words: the kWh of a window by period, the
  unit price of a tariff for a period, the energy cost as the sum over the four periods,
  and the power cost with its multiplier.
\<close>

definition kwh_by_period :: "consumo list \<Rightarrow> string \<Rightarrow> real" where
  "kwh_by_period window p = sum_list (map kwh (filter (\<lambda>c. periodo_registro c = p) window))"

definition unit_price :: "tarifa_row \<Rightarrow> string \<Rightarrow> real" where
  "unit_price t p =
     (if p = ''punta_LV'' then punta_LV t
      else if p = ''llano_LV'' then llano_LV t
      else if p = ''valle_LV'' then valle_LV t
      else valle_SD t)"

definition periodos :: "string list" where
  "periodos = [''punta_LV'', ''llano_LV'', ''valle_LV'', ''valle_SD'']"

definition energy_cost :: "consumo list \<Rightarrow> tarifa_row \<Rightarrow> real" where
  "energy_cost window t = sum_list (map (\<lambda>p. kwh_by_period window p * unit_price t p) periodos)"

definition power_cost :: "tarifa_row \<Rightarrow> real \<Rightarrow> real \<Rightarrow> real \<Rightarrow> real" where
  "power_cost t contracted_power_offpeak_kw contracted_power_peakmid_kw power_charge_multiplier =
     (potencia_mes_valle t * contracted_power_offpeak_kw
      + potencia_mes_punta_llano t * contracted_power_peakmid_kw) * power_charge_multiplier"

text \<open>The records of a table that fall in a given (year, month).\<close>

definition registros_mes :: "consumo list \<Rightarrow> int \<times> nat \<Rightarrow> consumo list" where
  "registros_mes consumo_df am = filter (\<lambda>c. anio_mes c = am) consumo_df"

text \<open>Notation for the values that the helpers attach to a row.\<close>

abbreviation pct :: "real \<Rightarrow> real \<Rightarrow> real" where
  "pct x t \<equiv> (if t = 0 then 0 else x / t * 100)"

abbreviation kpis_val :: "real list \<Rightarrow> real \<Rightarrow> kpis_ahorro" where
  "kpis_val col x \<equiv>
     \<lparr>ref_mediana_coste_total = the (median col),
      ref_peor_coste_total = Max (set col),
      ahorro_vs_mediana_eur = the (median col) - x,
      ahorro_vs_peor_eur = Max (set col) - x,
      ahorro_vs_mediana_pct = pct (the (median col) - x) (the (median col)),
      ahorro_vs_peor_pct = pct (Max (set col) - x) (Max (set col))\<rparr>"

abbreviation pct_val :: "real \<Rightarrow> real \<Rightarrow> real \<Rightarrow> pct_coste" where
  "pct_val e p t \<equiv> \<lparr>pct_coste_energia = pct e t, pct_coste_potencia = pct p t\<rparr>"

abbreviation dist_val :: "real \<Rightarrow> real \<Rightarrow> real \<Rightarrow> real \<Rightarrow> distribucion" where
  "dist_val k1 k2 k3 k4 \<equiv>
     \<lparr>kwh_punta_LV = k1, kwh_llano_LV = k2, kwh_valle_LV = k3, kwh_valle_SD = k4,
      pct_kwh_punta_LV = pct k1 (k1 + k2 + k3 + k4),
      pct_kwh_llano_LV = pct k2 (k1 + k2 + k3 + k4),
      pct_kwh_valle_LV = pct k3 (k1 + k2 + k3 + k4),
      pct_kwh_valle_SD = pct k4 (k1 + k2 + k3 + k4)\<rparr>"

abbreviation fila_anual_val :: "consumo list \<Rightarrow> real \<Rightarrow> real \<Rightarrow> tarifa_row \<Rightarrow> fila_anual" where
  "fila_anual_val df pv pp t \<equiv>
     \<lparr>fila_anual.comercializadora = tarifa_row.comercializadora t,
      fila_anual.tarifa = tarifa_row.tarifa t,
      kwh_anuales = sum_list (map kwh df),
      coste_energia_anual = energy_cost df t,
      coste_potencia_anual = power_cost t pv pp 12,
      coste_total_anual = energy_cost df t + power_cost t pv pp 12,
      coste_medio_eur_kwh =
        (if sum_list (map kwh df) > 0
         then (energy_cost df t + power_cost t pv pp 12) / sum_list (map kwh df) else 0)\<rparr>"

abbreviation fila_mes_val :: "consumo list \<Rightarrow> real \<Rightarrow> real \<Rightarrow> int \<times> nat \<Rightarrow> tarifa_row \<Rightarrow> fila_mes" where
  "fila_mes_val g pv pp am t \<equiv>
     \<lparr>anio = fst am, mes = snd am,
      fila_mes.comercializadora = tarifa_row.comercializadora t,
      fila_mes.tarifa = tarifa_row.tarifa t,
      kwh_mes = sum_list (map kwh g),
      coste_energia_mes = energy_cost g t,
      coste_potencia_mes = power_cost t pv pp 1,
      coste_total_mes = energy_cost g t + power_cost t pv pp 1\<rparr>"

text \<open>The four groups of columns of a row of an output table.\<close>

abbreviation fila_base :: "(('a \<times> kpis_ahorro) \<times> pct_coste) \<times> distribucion \<Rightarrow> 'a" where
  "fila_base row \<equiv> fst (fst (fst row))"

abbreviation fila_kpis :: "(('a \<times> kpis_ahorro) \<times> pct_coste) \<times> distribucion \<Rightarrow> kpis_ahorro" where
  "fila_kpis row \<equiv> snd (fst (fst row))"

abbreviation fila_pct :: "(('a \<times> kpis_ahorro) \<times> pct_coste) \<times> distribucion \<Rightarrow> pct_coste" where
  "fila_pct row \<equiv> snd (fst row)"

abbreviation fila_dist :: "(('a \<times> kpis_ahorro) \<times> pct_coste) \<times> distribucion \<Rightarrow> distribucion" where
  "fila_dist row \<equiv> snd row"

subsection \<open>Example tables\<close>

definition consumo_ej :: "consumo list" where
  "consumo_ej =
     [\<lparr>timestamp = \<lparr>year = 2025, month = 1, day = 7, hour = 12, minute = 0\<rparr>,
       kwh = 100, es_fin_semana = False\<rparr>,
      \<lparr>timestamp = \<lparr>year = 2025, month = 1, day = 11, hour = 3, minute = 0\<rparr>,
       kwh = 50, es_fin_semana = True\<rparr>,
      \<lparr>timestamp = \<lparr>year = 2025, month = 2, day = 3, hour = 7, minute = 0\<rparr>,
       kwh = 30, es_fin_semana = False\<rparr>]"

definition tarifa_a :: tarifa_row where
  "tarifa_a =
     \<lparr>tarifa_row.comercializadora = ''A'', tarifa_row.tarifa = ''uno'',
      punta_LV = 0.20, llano_LV = 0.15, valle_LV = 0.10, valle_SD = 0.08,
      potencia_mes_valle = 1, potencia_mes_punta_llano = 2\<rparr>"

definition tarifa_b :: tarifa_row where
  "tarifa_b =
     \<lparr>tarifa_row.comercializadora = ''B'', tarifa_row.tarifa = ''dos'',
      punta_LV = 0.10, llano_LV = 0.15, valle_LV = 0.10, valle_SD = 0.18,
      potencia_mes_valle = 1, potencia_mes_punta_llano = 2\<rparr>"

text \<open>The first two records of \<open>consumo_ej\<close>: a table that lies in one calendar month.\<close>

definition consumo_enero :: "consumo list" where
  "consumo_enero = take 2 consumo_ej"

text \<open>
  The tables that the two pipelines return on the examples, with contracted powers of
  3 kW and 4 kW.
\<close>

definition ranking_ej :: "fila_ranking list" where
  "ranking_ej =
     [(((\<lparr>fila_anual.comercializadora = ''B'', fila_anual.tarifa = ''dos'',
           kwh_anuales = 180, coste_energia_anual = 22,
           coste_potencia_anual = 132, coste_total_anual = 154,
           coste_medio_eur_kwh = 77 / 90\<rparr>,
         \<lparr>ref_mediana_coste_total = 313 / 2, ref_peor_coste_total = 159,
           ahorro_vs_mediana_eur = 5 / 2, ahorro_vs_peor_eur = 5,
           ahorro_vs_mediana_pct = 500 / 313, ahorro_vs_peor_pct = 500 / 159\<rparr>),
        \<lparr>pct_coste_energia = 100 / 7, pct_coste_potencia = 600 / 7\<rparr>),
       \<lparr>kwh_punta_LV = 100, kwh_llano_LV = 0, kwh_valle_LV = 30, kwh_valle_SD = 50,
         pct_kwh_punta_LV = 500 / 9, pct_kwh_llano_LV = 0,
         pct_kwh_valle_LV = 50 / 3, pct_kwh_valle_SD = 250 / 9\<rparr>),
      (((\<lparr>fila_anual.comercializadora = ''A'', fila_anual.tarifa = ''uno'',
           kwh_anuales = 180, coste_energia_anual = 27,
           coste_potencia_anual = 132, coste_total_anual = 159,
           coste_medio_eur_kwh = 53 / 60\<rparr>,
         \<lparr>ref_mediana_coste_total = 313 / 2, ref_peor_coste_total = 159,
           ahorro_vs_mediana_eur = - (5 / 2), ahorro_vs_peor_eur = 0,
           ahorro_vs_mediana_pct = - (500 / 313), ahorro_vs_peor_pct = 0\<rparr>),
        \<lparr>pct_coste_energia = 900 / 53, pct_coste_potencia = 4400 / 53\<rparr>),
       \<lparr>kwh_punta_LV = 100, kwh_llano_LV = 0, kwh_valle_LV = 30, kwh_valle_SD = 50,
         pct_kwh_punta_LV = 500 / 9, pct_kwh_llano_LV = 0,
         pct_kwh_valle_LV = 50 / 3, pct_kwh_valle_SD = 250 / 9\<rparr>)]"

definition mejor_mes_ej :: "fila_mejor_mes list" where
  "mejor_mes_ej =
     [(((\<lparr>anio = 2025, mes = 1,
           fila_mes.comercializadora = ''B'', fila_mes.tarifa = ''dos'',
           kwh_mes = 150, coste_energia_mes = 19, coste_potencia_mes = 11,
           coste_total_mes = 30\<rparr>,
         \<lparr>ref_mediana_coste_total = 65 / 2, ref_peor_coste_total = 35,
           ahorro_vs_mediana_eur = 5 / 2, ahorro_vs_peor_eur = 5,
           ahorro_vs_mediana_pct = 100 / 13, ahorro_vs_peor_pct = 100 / 7\<rparr>),
        \<lparr>pct_coste_energia = 190 / 3, pct_coste_potencia = 110 / 3\<rparr>),
       \<lparr>kwh_punta_LV = 100, kwh_llano_LV = 0, kwh_valle_LV = 0, kwh_valle_SD = 50,
         pct_kwh_punta_LV = 200 / 3, pct_kwh_llano_LV = 0,
         pct_kwh_valle_LV = 0, pct_kwh_valle_SD = 100 / 3\<rparr>),
      (((\<lparr>anio = 2025, mes = 2,
           fila_mes.comercializadora = ''A'', fila_mes.tarifa = ''uno'',
           kwh_mes = 30, coste_energia_mes = 3, coste_potencia_mes = 11,
           coste_total_mes = 14\<rparr>,
         \<lparr>ref_mediana_coste_total = 14, ref_peor_coste_total = 14,
           ahorro_vs_mediana_eur = 0, ahorro_vs_peor_eur = 0,
           ahorro_vs_mediana_pct = 0, ahorro_vs_peor_pct = 0\<rparr>),
        \<lparr>pct_coste_energia = 150 / 7, pct_coste_potencia = 550 / 7\<rparr>),
       \<lparr>kwh_punta_LV = 0, kwh_llano_LV = 0, kwh_valle_LV = 30, kwh_valle_SD = 0,
         pct_kwh_punta_LV = 0, pct_kwh_llano_LV = 0,
         pct_kwh_valle_LV = 100, pct_kwh_valle_SD = 0\<rparr>)]"

subsection \<open>Python floats\<close>

text \<open>
  The loops over the tariffs and \<open>_safe_pct\<close> compute on Python floats, which are IEEE
  doubles. Where a claim depends on how a result is rounded or compared, a float is a real
  number or NaN, and an arithmetic operation returns the double nearest to the exact
  result: 53 significant bits, ties to even. The exponent is not bounded here, so overflow
  to infinity and the subnormal numbers are left out. A comparison with NaN is false, and
  \<open>/\<close> raises \<open>ZeroDivisionError\<close> on a divisor equal to 0.
\<close>

datatype pyfloat = Val real | NaN

definition round_even :: "real \<Rightarrow> int" where
  "round_even q =
     (let f = \<lfloor>q\<rfloor>; r = q - of_int f
      in if r < 1 / 2 then f else if 1 / 2 < r then f + 1 else if even f then f else f + 1)"

definition rnd :: "real \<Rightarrow> real" where
  "rnd x =
     (if x = 0 then 0
      else let e = \<lfloor>log 2 \<bar>x\<bar>\<rfloor>
           in of_int (round_even (x / 2 powr (of_int e - 52))) * 2 powr (of_int e - 52))"

fun fadd :: "pyfloat \<Rightarrow> pyfloat \<Rightarrow> pyfloat" where
  "fadd (Val x) (Val y) = Val (rnd (x + y))"
| "fadd _ _ = NaN"

fun fmul :: "pyfloat \<Rightarrow> pyfloat \<Rightarrow> pyfloat" where
  "fmul (Val x) (Val y) = Val (rnd (x * y))"
| "fmul _ _ = NaN"

fun fdiv :: "pyfloat \<Rightarrow> pyfloat \<Rightarrow> py_error + pyfloat" where
  "fdiv (Val x) (Val y) = (if y = 0 then Inl ZeroDivisionError else Inr (Val (rnd (x / y))))"
| "fdiv NaN (Val y) = (if y = 0 then Inl ZeroDivisionError else Inr NaN)"
| "fdiv _ NaN = Inr NaN"

fun flt :: "pyfloat \<Rightarrow> pyfloat \<Rightarrow> bool" where
  "flt (Val x) (Val y) = (x < y)"
| "flt _ _ = False"



subsection \<open>The loops and the percentage helper on floats\<close>

text \<open>A row of \<open>tarifas_df\<close> with its six numeric cells as floats.\<close>

record tarifa_row_f =
  comercializadora_f :: string
  tarifa_f :: string
  punta_LV_f :: pyfloat
  llano_LV_f :: pyfloat
  valle_LV_f :: pyfloat
  valle_SD_f :: pyfloat
  potencia_mes_valle_f :: pyfloat
  potencia_mes_punta_llano_f :: pyfloat

text \<open>
  The three cost expressions of the loop bodies: the energy cost (lines 172 to 177 and
  256 to 261), the annual power cost (lines 180 to 183) and the monthly power cost (lines
  264 to 267). Python evaluates \<open>*\<close> before \<open>+\<close> and each of them from left to right.
\<close>

definition calc_energia_f ::
  "pyfloat \<Rightarrow> pyfloat \<Rightarrow> pyfloat \<Rightarrow> pyfloat \<Rightarrow> tarifa_row_f \<Rightarrow> pyfloat" where
  "calc_energia_f kwh_punta kwh_llano kwh_valle_lv kwh_valle_sd t =
     fadd (fadd (fadd (fmul kwh_punta (punta_LV_f t))
                      (fmul kwh_llano (llano_LV_f t)))
                (fmul kwh_valle_lv (valle_LV_f t)))
          (fmul kwh_valle_sd (valle_SD_f t))"

definition calc_potencia_anual_f :: "pyfloat \<Rightarrow> pyfloat \<Rightarrow> tarifa_row_f \<Rightarrow> pyfloat" where
  "calc_potencia_anual_f potencia_kw_valle potencia_kw_punta_llano t =
     fadd (fmul (fmul (potencia_mes_valle_f t) potencia_kw_valle) (Val 12))
          (fmul (fmul (potencia_mes_punta_llano_f t) potencia_kw_punta_llano) (Val 12))"

definition calc_potencia_mes_f :: "pyfloat \<Rightarrow> pyfloat \<Rightarrow> tarifa_row_f \<Rightarrow> pyfloat" where
  "calc_potencia_mes_f potencia_kw_valle potencia_kw_punta_llano t =
     fadd (fmul (potencia_mes_valle_f t) potencia_kw_valle)
          (fmul (potencia_mes_punta_llano_f t) potencia_kw_punta_llano)"

text \<open>The body of the annual loop over the tariffs (lines 171 to 196) on floats.\<close>

record fila_anual_f =
  comercializadora_f :: string
  tarifa_f :: string
  kwh_anuales_f :: pyfloat
  coste_energia_anual_f :: pyfloat
  coste_potencia_anual_f :: pyfloat
  coste_total_anual_f :: pyfloat
  coste_medio_eur_kwh_f :: pyfloat

definition fila_anual_tarifa_f ::
  "pyfloat \<Rightarrow> pyfloat \<Rightarrow> pyfloat \<Rightarrow> pyfloat \<Rightarrow> pyfloat \<Rightarrow> pyfloat \<Rightarrow> pyfloat \<Rightarrow>
   tarifa_row_f \<Rightarrow> py_error + fila_anual_f" where
  "fila_anual_tarifa_f kwh_punta kwh_llano kwh_valle_lv kwh_valle_sd total_kwh
       potencia_kw_valle potencia_kw_punta_llano t =
     (let coste_energia = calc_energia_f kwh_punta kwh_llano kwh_valle_lv kwh_valle_sd t;
          coste_potencia = calc_potencia_anual_f potencia_kw_valle potencia_kw_punta_llano t;
          total' = fadd coste_energia coste_potencia
      in case (if flt (Val 0) total_kwh then fdiv total' total_kwh else Inr (Val 0)) of
           Inl e \<Rightarrow> Inl e
         | Inr coste_medio \<Rightarrow>
             Inr \<lparr>comercializadora_f = tarifa_row_f.comercializadora_f t,
                  tarifa_f = tarifa_row_f.tarifa_f t,
                  kwh_anuales_f = total_kwh,
                  coste_energia_anual_f = coste_energia,
                  coste_potencia_anual_f = coste_potencia,
                  coste_total_anual_f = total',
                  coste_medio_eur_kwh_f = coste_medio\<rparr>)"

text \<open>
  One turn of the monthly loop over the tariffs (lines 255 to 282) on floats, with the
  state \<open>(mejor, costes_mes)\<close>, and the whole loop from \<open>mejor = None\<close> and an empty list.
  The dictionary that the loop leaves in \<open>mejor\<close> is the row of the month: the rest of the
  function only adds keys and columns to it.
\<close>

record fila_mes_f =
  anio_f :: int
  mes_f :: nat
  comercializadora_f :: string
  tarifa_f :: string
  kwh_mes_f :: pyfloat
  coste_energia_mes_f :: pyfloat
  coste_potencia_mes_f :: pyfloat
  coste_total_mes_f :: pyfloat

definition paso_tarifa_mes_f ::
  "int \<Rightarrow> nat \<Rightarrow> pyfloat \<Rightarrow> pyfloat \<Rightarrow> pyfloat \<Rightarrow> pyfloat \<Rightarrow> pyfloat \<Rightarrow> pyfloat \<Rightarrow> pyfloat \<Rightarrow>
   tarifa_row_f \<Rightarrow> fila_mes_f option \<times> pyfloat list \<Rightarrow> fila_mes_f option \<times> pyfloat list" where
  "paso_tarifa_mes_f anio' mes' kwh_punta kwh_llano kwh_valle_lv kwh_valle_sd total_kwh_mes
       potencia_kw_valle potencia_kw_punta_llano t st =
     (let mejor = fst st;
          costes_mes = snd st;
          coste_energia = calc_energia_f kwh_punta kwh_llano kwh_valle_lv kwh_valle_sd t;
          coste_potencia = calc_potencia_mes_f potencia_kw_valle potencia_kw_punta_llano t;
          total' = fadd coste_energia coste_potencia;
          costes_mes = costes_mes @ [total']
      in if (case mejor of None \<Rightarrow> True | Some m \<Rightarrow> flt total' (coste_total_mes_f m))
         then (Some \<lparr>anio_f = anio', mes_f = mes',
                     comercializadora_f = tarifa_row_f.comercializadora_f t,
                     tarifa_f = tarifa_row_f.tarifa_f t,
                     kwh_mes_f = total_kwh_mes,
                     coste_energia_mes_f = coste_energia,
                     coste_potencia_mes_f = coste_potencia,
                     coste_total_mes_f = total'\<rparr>, costes_mes)
         else (mejor, costes_mes))"

definition bucle_tarifas_mes_f ::
  "int \<Rightarrow> nat \<Rightarrow> pyfloat \<Rightarrow> pyfloat \<Rightarrow> pyfloat \<Rightarrow> pyfloat \<Rightarrow> pyfloat \<Rightarrow> pyfloat \<Rightarrow> pyfloat \<Rightarrow>
   tarifa_row_f list \<Rightarrow> fila_mes_f option \<times> pyfloat list" where
  "bucle_tarifas_mes_f anio' mes' kwh_punta kwh_llano kwh_valle_lv kwh_valle_sd total_kwh_mes
       potencia_kw_valle potencia_kw_punta_llano tarifas_df =
     fold (paso_tarifa_mes_f anio' mes' kwh_punta kwh_llano kwh_valle_lv kwh_valle_sd
             total_kwh_mes potencia_kw_valle potencia_kw_punta_llano)
          tarifas_df (None, [])"

text \<open>\<open>_safe_pct\<close> and \<open>_anadir_pct_energia_potencia\<close> on floats.\<close>

definition safe_pct_f :: "pyfloat \<Rightarrow> pyfloat \<Rightarrow> py_error + pyfloat" where
  "safe_pct_f parte total' =
     (if total' = Val 0 then Inr (Val 0)
      else case fdiv parte total' of Inl e \<Rightarrow> Inl e | Inr q \<Rightarrow> Inr (fmul q (Val 100)))"

record pct_coste_f =
  pct_coste_energia_f :: pyfloat
  pct_coste_potencia_f :: pyfloat

definition anadir_pct_energia_potencia_f ::
  "'r list \<Rightarrow> ('r \<Rightarrow> pyfloat) \<Rightarrow> ('r \<Rightarrow> pyfloat) \<Rightarrow> ('r \<Rightarrow> pyfloat) \<Rightarrow>
   py_error + ('r \<times> pct_coste_f) list" where
  "anadir_pct_energia_potencia_f df col_energia col_potencia col_total =
     (case map_err (\<lambda>r. safe_pct_f (col_energia r) (col_total r)) df of
        Inl e \<Rightarrow> Inl e
      | Inr pct_e \<Rightarrow>
     (case map_err (\<lambda>r. safe_pct_f (col_potencia r) (col_total r)) df of
        Inl e \<Rightarrow> Inl e
      | Inr pct_p \<Rightarrow>
        Inr (map2 (\<lambda>r (pe, pp). (r, \<lparr>pct_coste_energia_f = pe, pct_coste_potencia_f = pp\<rparr>))
             df (zip pct_e pct_p))))"

text \<open>
  The total that a turn of the monthly loop computes for a tariff (line 269), and the
  dictionary it stores in \<open>mejor\<close> for that tariff (lines 273 to 282).
\<close>

definition calc_total_mes_f ::
  "pyfloat \<Rightarrow> pyfloat \<Rightarrow> pyfloat \<Rightarrow> pyfloat \<Rightarrow> pyfloat \<Rightarrow> pyfloat \<Rightarrow> tarifa_row_f \<Rightarrow> pyfloat" where
  "calc_total_mes_f kwh_punta kwh_llano kwh_valle_lv kwh_valle_sd
       potencia_kw_valle potencia_kw_punta_llano t =
     fadd (calc_energia_f kwh_punta kwh_llano kwh_valle_lv kwh_valle_sd t)
          (calc_potencia_mes_f potencia_kw_valle potencia_kw_punta_llano t)"

definition fila_mes_f_val ::
  "int \<Rightarrow> nat \<Rightarrow> pyfloat \<Rightarrow> pyfloat \<Rightarrow> pyfloat \<Rightarrow> pyfloat \<Rightarrow> pyfloat \<Rightarrow> pyfloat \<Rightarrow> pyfloat \<Rightarrow>
   tarifa_row_f \<Rightarrow> fila_mes_f" where
  "fila_mes_f_val anio' mes' kwh_punta kwh_llano kwh_valle_lv kwh_valle_sd total_kwh_mes
       potencia_kw_valle potencia_kw_punta_llano t =
     \<lparr>anio_f = anio', mes_f = mes',
      comercializadora_f = tarifa_row_f.comercializadora_f t,
      tarifa_f = tarifa_row_f.tarifa_f t,
      kwh_mes_f = total_kwh_mes,
      coste_energia_mes_f = calc_energia_f kwh_punta kwh_llano kwh_valle_lv kwh_valle_sd t,
      coste_potencia_mes_f = calc_potencia_mes_f potencia_kw_valle potencia_kw_punta_llano t,
      coste_total_mes_f =
        calc_total_mes_f kwh_punta kwh_llano kwh_valle_lv kwh_valle_sd
          potencia_kw_valle potencia_kw_punta_llano t\<rparr>"


text \<open>A float that is a number and not negative, and a tariff whose six numeric cells are.\<close>

definition no_negativo :: "pyfloat \<Rightarrow> bool" where
  "no_negativo c = (case c of Val x \<Rightarrow> 0 \<le> x | NaN \<Rightarrow> False)"

definition tarifa_no_negativa :: "tarifa_row_f \<Rightarrow> bool" where
  "tarifa_no_negativa t \<longleftrightarrow>
     no_negativo (punta_LV_f t) \<and> no_negativo (llano_LV_f t) \<and>
     no_negativo (valle_LV_f t) \<and> no_negativo (valle_SD_f t) \<and>
     no_negativo (potencia_mes_valle_f t) \<and> no_negativo (potencia_mes_punta_llano_f t)"

text \<open>
  The four sums of a table by period and their total (lines 158 to 166 and 245 to 250). The
  library's sum of the \<open>kwh\<close> column by period, read from its dictionary with default 0.0,
  is a function \<open>suma\<close> of the rows of the table and of a label: how it rounds is left open.
\<close>

definition sumas_f ::
  "((consumo \<times> string) list \<Rightarrow> string \<Rightarrow> pyfloat) \<Rightarrow> (consumo \<times> string) list \<Rightarrow>
   pyfloat \<times> pyfloat \<times> pyfloat \<times> pyfloat \<times> pyfloat" where
  "sumas_f suma g =
     (let kwh_punta = suma g ''punta_LV'';
          kwh_llano = suma g ''llano_LV'';
          kwh_valle_lv = suma g ''valle_LV'';
          kwh_valle_sd = suma g ''valle_SD''
      in (kwh_punta, kwh_llano, kwh_valle_lv, kwh_valle_sd,
          fadd (fadd (fadd kwh_punta kwh_llano) kwh_valle_lv) kwh_valle_sd))"

text \<open>
  The sum of a group without rounding: what the library computes on a table whose kWh
  and partial sums are doubles, as are the whole numbers of the examples.
\<close>

definition suma_exacta :: "(consumo \<times> string) list \<Rightarrow> string \<Rightarrow> pyfloat" where
  "suma_exacta g p = Val (dict_get (groupby_sum (map (\<lambda>(c, p). (p, kwh c)) g)) p 0)"

subsection \<open>Example catalogs with decimal prices\<close>




text \<open>
  Tariff \<open>decimos\<close> charges 0.25 per kWh at peak hours and 0.1 per kW and month for each of
  the two contracted powers. Tariff \<open>tercios\<close> charges 1 per kWh at peak hours and 1 per kW
  and month for the off-peak power; \<open>fila_tercios\<close> is the row that the monthly loop stores
  for it with 1 kWh at peak hours and 2 kW of off-peak power.
\<close>

definition tarifa_decimos :: tarifa_row_f where
  "tarifa_decimos = \<lparr>tarifa_row_f.comercializadora_f = ''D'', tarifa_row_f.tarifa_f = ''decimos'',
     punta_LV_f = Val (1 / 4), llano_LV_f = Val 0,
     valle_LV_f = Val 0, valle_SD_f = Val 0,
     potencia_mes_valle_f = Val (rnd (1 / 10)),
     potencia_mes_punta_llano_f = Val (rnd (1 / 10))\<rparr>"

definition tarifa_tercios :: tarifa_row_f where
  "tarifa_tercios = \<lparr>tarifa_row_f.comercializadora_f = ''T'', tarifa_row_f.tarifa_f = ''tercios'',
     punta_LV_f = Val 1, llano_LV_f = Val 0,
     valle_LV_f = Val 0, valle_SD_f = Val 0,
     potencia_mes_valle_f = Val 1, potencia_mes_punta_llano_f = Val 0\<rparr>"

definition fila_tercios :: fila_mes_f where
  "fila_tercios = \<lparr>anio_f = 2025, mes_f = 1,
     fila_mes_f.comercializadora_f = ''T'', fila_mes_f.tarifa_f = ''tercios'',
     kwh_mes_f = Val 1, coste_energia_mes_f = Val 1,
     coste_potencia_mes_f = Val 2, coste_total_mes_f = Val 3\<rparr>"

section \<open>Properties of the helpers\<close>

subsection \<open>The classifier\<close>

lemma periodo_series_eq:
  "length ts = length wk \<Longrightarrow>
   periodo_series ts wk = map2 (\<lambda>t w. Some (classify t w)) ts wk"
proof (induction ts wk rule: list_induct2)
  case Nil
  then show ?case
    by (simp add: periodo_series_def loc_set_def mask_and_def mask_or_def mask_not_def)
next
  case (Cons t ts w wk)
  then show ?case
    by (simp add: periodo_series_def loc_set_def mask_and_def mask_or_def mask_not_def Let_def
        classify_def isna_def)
qed

lemma clasificar_periodo_map2:
  assumes "length ts = length wk"
  shows "clasificar_periodo ts wk = Inr (map2 classify ts wk)"
proof -
  have a: "\<not> list_ex isna (map2 (\<lambda>t w. Some (classify t w)) ts wk)"
    by (auto simp: list_ex_iff isna_def)
  have b: "map the (map2 (\<lambda>t w. Some (classify t w)) ts wk) = map2 classify ts wk"
    by (simp add: comp_def case_prod_unfold)
  show ?thesis
    using assms a b by (simp add: clasificar_periodo_def periodo_series_eq)
qed

lemma clasificar_periodo_df:
  "clasificar_periodo (map timestamp df) (map es_fin_semana df) = Inr (map periodo_registro df)"
proof -
  have "map2 classify (map timestamp df) (map es_fin_semana df) = map periodo_registro df"
    by (induction df) (simp_all add: periodo_registro_def)
  then show ?thesis by (simp add: clasificar_periodo_map2)
qed

lemma classify_labels:
  "classify t w \<in> {''punta_LV'', ''llano_LV'', ''valle_LV'', ''valle_SD''}"
  by (simp add: classify_def)

lemma truediv_Inr: "b \<noteq> 0 \<Longrightarrow> truediv a b = Inr (a / b)"
  by (simp add: truediv_def)

lemma safe_pct_Inr: "safe_pct p t = Inr (if t = 0 then 0 else p / t * 100)"
  by (simp add: safe_pct_def truediv_def)

lemma map_err_Inr:
  "(\<And>x. x \<in> set xs \<Longrightarrow> f x = Inr (g x)) \<Longrightarrow> map_err f xs = Inr (map g xs)"
  by (induction xs) simp_all

lemma median_None_iff: "median xs = None \<longleftrightarrow> xs = []"
proof (cases "xs = []")
  case True
  then show ?thesis by (simp add: median_def)
next
  case False
  then have "length (sort xs) \<noteq> 0" by simp
  then have "median xs \<noteq> None" unfolding median_def Let_def
    by (simp only: if_False split: if_split) blast
  with False show ?thesis by simp
qed

lemma maximo_None_iff: "maximo xs = None \<longleftrightarrow> xs = []"
  by (cases xs) simp_all

lemma maximo_Some: "maximo xs = (if xs = [] then None else Some (Max (set xs)))"
proof (cases xs)
  case Nil
  then show ?thesis by simp
next
  case (Cons a list)
  then show ?thesis using Max.set_eq_fold [of a list] by simp
qed

subsection \<open>Grouping and KPI columns\<close>

lemma fold_groupby_get:
  fixes step :: "'k \<times> real \<Rightarrow> ('k \<rightharpoonup> real) \<Rightarrow> ('k \<rightharpoonup> real)"
  assumes step: "\<And>k v m. step (k, v) m = m(k \<mapsto> (case m k of None \<Rightarrow> v | Some s \<Rightarrow> s + v))"
  shows "dict_get (fold step rows m) p 0 =
         dict_get m p 0 + sum_list (map snd (filter (\<lambda>r. fst r = p) rows))"
proof (induction rows arbitrary: m)
  case Nil
  then show ?case by simp
next
  case (Cons r rows)
  obtain k v where r: "r = (k, v)" by (cases r)
  have one: "dict_get (step (k, v) m) p 0 = dict_get m p 0 + (if k = p then v else 0)"
    by (simp add: step dict_get_def split: option.splits)
  have "dict_get (fold step (r # rows) m) p 0 =
        dict_get (step (k, v) m) p 0 + sum_list (map snd (filter (\<lambda>r. fst r = p) rows))"
    by (simp add: r Cons.IH)
  then show ?case by (simp add: one r)
qed

lemma groupby_sum_get:
  "dict_get (groupby_sum rows) p 0 = sum_list (map snd (filter (\<lambda>r. fst r = p) rows))"
proof -
  have "dict_get (groupby_sum rows) p 0 =
        dict_get Map.empty p 0 + sum_list (map snd (filter (\<lambda>r. fst r = p) rows))"
    unfolding groupby_sum_def by (rule fold_groupby_get) simp
  then show ?thesis by (simp add: dict_get_def)
qed

lemma filter_zip_map_fst:
  "map snd (filter (\<lambda>r. fst r = p) (zip (map f xs) (map g xs))) = map g (filter (\<lambda>x. f x = p) xs)"
  by (induction xs) simp_all

lemma filter_map_pair:
  "map snd (filter (\<lambda>r. fst r = p) (map (\<lambda>x. (f x, g x)) xs)) = map g (filter (\<lambda>x. f x = p) xs)"
  by (induction xs) simp_all

lemma zip_map_map_same: "zip (map f xs) (map g xs) = map (\<lambda>x. (f x, g x)) xs"
  by (induction xs) simp_all

lemma map2_map_same: "map2 h xs (map g xs) = map (\<lambda>x. h x (g x)) xs"
  by (induction xs) simp_all

lemma anadir_pct_energia_potencia_eq:
  "anadir_pct_energia_potencia df ce cp ct =
   Inr (map (\<lambda>r. (r, \<lparr>pct_coste_energia = pct (ce r) (ct r),
                       pct_coste_potencia = pct (cp r) (ct r)\<rparr>)) df)"
proof -
  have a: "map_err (\<lambda>r. safe_pct (ce r) (ct r)) df = Inr (map (\<lambda>r. pct (ce r) (ct r)) df)"
    by (rule map_err_Inr) (simp add: safe_pct_Inr)
  have b: "map_err (\<lambda>r. safe_pct (cp r) (ct r)) df = Inr (map (\<lambda>r. pct (cp r) (ct r)) df)"
    by (rule map_err_Inr) (simp add: safe_pct_Inr)
  show ?thesis
    by (simp add: anadir_pct_energia_potencia_def a b zip_map_map_same map2_map_same)
qed

lemma anadir_kpis_ahorro_eq:
  "anadir_kpis_ahorro df c =
   Inr (map (\<lambda>r. (r, \<lparr>ref_mediana_coste_total = the (median (map c df)),
                       ref_peor_coste_total = Max (set (map c df)),
                       ahorro_vs_mediana_eur = the (median (map c df)) - c r,
                       ahorro_vs_peor_eur = Max (set (map c df)) - c r,
                       ahorro_vs_mediana_pct = pct (the (median (map c df)) - c r) (the (median (map c df))),
                       ahorro_vs_peor_pct = pct (Max (set (map c df)) - c r) (Max (set (map c df)))\<rparr>)) df)"
proof (cases "df = []")
  case True
  then show ?thesis by (simp add: anadir_kpis_ahorro_def median_def)
next
  case False
  then obtain md where md: "median (map c df) = Some md"
    using median_None_iff [of "map c df"] by auto
  have mx: "maximo (map c df) = Some (Max (set (map c df)))"
    using False by (simp add: maximo_Some)
  have a: "map_err (\<lambda>r. safe_pct (md - c r) md) df = Inr (map (\<lambda>r. pct (md - c r) md) df)" for md
    by (rule map_err_Inr) (simp add: safe_pct_Inr)
  show ?thesis
    unfolding anadir_kpis_ahorro_def md mx
    by (simp add: a zip_map_map_same map2_map_same)
qed

lemma distribucion_consumo_eq:
  "distribucion_consumo k1 k2 k3 k4 tk =
   Inr \<lparr>kwh_punta_LV = k1, kwh_llano_LV = k2, kwh_valle_LV = k3, kwh_valle_SD = k4,
        pct_kwh_punta_LV = pct k1 tk, pct_kwh_llano_LV = pct k2 tk,
        pct_kwh_valle_LV = pct k3 tk, pct_kwh_valle_SD = pct k4 tk\<rparr>"
  by (simp add: distribucion_consumo_def safe_pct_Inr)

lemma anadir_distribucion_consumo_eq:
  "anadir_distribucion_consumo df k1 k2 k3 k4 tk =
   Inr (map (\<lambda>r. (r, \<lparr>kwh_punta_LV = k1, kwh_llano_LV = k2, kwh_valle_LV = k3, kwh_valle_SD = k4,
        pct_kwh_punta_LV = pct k1 tk, pct_kwh_llano_LV = pct k2 tk,
        pct_kwh_valle_LV = pct k3 tk, pct_kwh_valle_SD = pct k4 tk\<rparr>)) df)"
  by (simp add: anadir_distribucion_consumo_def distribucion_consumo_eq)

subsection \<open>The annual table in closed form\<close>

lemma kwh_by_period_get:
  "dict_get (groupby_sum (zip (map periodo_registro df) (map kwh df))) p 0 = kwh_by_period df p"
  by (simp add: groupby_sum_get filter_zip_map_fst kwh_by_period_def)

lemma periodo_registro_labels:
  "periodo_registro c \<in> {''punta_LV'', ''llano_LV'', ''valle_LV'', ''valle_SD''}"
  using classify_labels [of "timestamp c" "es_fin_semana c"] by (simp add: periodo_registro_def)

lemma kwh_by_period_total:
  "kwh_by_period df ''punta_LV'' + kwh_by_period df ''llano_LV''
   + kwh_by_period df ''valle_LV'' + kwh_by_period df ''valle_SD'' = sum_list (map kwh df)"
proof (induction df)
  case Nil
  then show ?case by (simp add: kwh_by_period_def)
next
  case (Cons c df)
  have "periodo_registro c \<in> {''punta_LV'', ''llano_LV'', ''valle_LV'', ''valle_SD''}"
    by (rule periodo_registro_labels)
  then consider "periodo_registro c = ''punta_LV''" | "periodo_registro c = ''llano_LV''"
    | "periodo_registro c = ''valle_LV''" | "periodo_registro c = ''valle_SD''"
    by auto
  then show ?case
    using Cons.IH by cases (simp_all add: kwh_by_period_def)
qed

lemma energy_cost_eq:
  "energy_cost df t =
   kwh_by_period df ''punta_LV'' * punta_LV t + kwh_by_period df ''llano_LV'' * llano_LV t
   + kwh_by_period df ''valle_LV'' * valle_LV t + kwh_by_period df ''valle_SD'' * valle_SD t"
  by (simp add: energy_cost_def periodos_def unit_price_def)

lemma fila_anual_tarifa_eq:
  "fila_anual_tarifa (kwh_by_period df ''punta_LV'') (kwh_by_period df ''llano_LV'')
     (kwh_by_period df ''valle_LV'') (kwh_by_period df ''valle_SD'')
     (kwh_by_period df ''punta_LV'' + kwh_by_period df ''llano_LV''
       + kwh_by_period df ''valle_LV'' + kwh_by_period df ''valle_SD'') pv pp t =
   Inr (fila_anual_val df pv pp t)"
  unfolding fila_anual_tarifa_def Let_def kwh_by_period_total
  by (simp add: truediv_def energy_cost_eq power_cost_def algebra_simps)

lemma annual_eq:
  fixes srt df tarifas pv pp
  defines "res \<equiv> srt coste_total_anual (map (fila_anual_val df pv pp) tarifas)"
  shows "calcular_costes_anuales_por_tarifa srt df tarifas pv pp =
    (if tarifas = [] then Inl KeyError
     else Inr (map (\<lambda>r. (((r, kpis_val (map coste_total_anual res) (coste_total_anual r)),
                          pct_val (coste_energia_anual r) (coste_potencia_anual r) (coste_total_anual r)),
                         dist_val (kwh_by_period df ''punta_LV'') (kwh_by_period df ''llano_LV'')
                                  (kwh_by_period df ''valle_LV'') (kwh_by_period df ''valle_SD''))) res))"
proof -
  have rows: "map_err (fila_anual_tarifa (kwh_by_period df ''punta_LV'') (kwh_by_period df ''llano_LV'')
     (kwh_by_period df ''valle_LV'') (kwh_by_period df ''valle_SD'')
     (kwh_by_period df ''punta_LV'' + kwh_by_period df ''llano_LV''
       + kwh_by_period df ''valle_LV'' + kwh_by_period df ''valle_SD'') pv pp) tarifas
     = Inr (map (fila_anual_val df pv pp) tarifas)"
    by (rule map_err_Inr) (rule fila_anual_tarifa_eq)
  show ?thesis
    unfolding calcular_costes_anuales_por_tarifa_def clasificar_periodo_df
    by (simp add: Let_def kwh_by_period_get rows anadir_kpis_ahorro_eq
        anadir_pct_energia_potencia_eq anadir_distribucion_consumo_eq res_def comp_def)
qed

subsection \<open>The monthly table in closed form\<close>

lemma kwh_grupo_eq:
  "kwh_grupo (map (\<lambda>c. (c, periodo_registro c)) rs) =
   (kwh_by_period rs ''punta_LV'', kwh_by_period rs ''llano_LV'',
    kwh_by_period rs ''valle_LV'', kwh_by_period rs ''valle_SD'',
    kwh_by_period rs ''punta_LV'' + kwh_by_period rs ''llano_LV''
      + kwh_by_period rs ''valle_LV'' + kwh_by_period rs ''valle_SD'')"
proof -
  have "dict_get (groupby_sum (map (\<lambda>c. (periodo_registro c, kwh c)) rs)) p 0 = kwh_by_period rs p" for p
    by (simp add: groupby_sum_get filter_map_pair kwh_by_period_def)
  then show ?thesis
    by (simp add: kwh_grupo_def Let_def comp_def)
qed

lemma paso_tarifa_mes_eq:
  "paso_tarifa_mes a m (kwh_by_period rs ''punta_LV'') (kwh_by_period rs ''llano_LV'')
     (kwh_by_period rs ''valle_LV'') (kwh_by_period rs ''valle_SD'')
     (kwh_by_period rs ''punta_LV'' + kwh_by_period rs ''llano_LV''
       + kwh_by_period rs ''valle_LV'' + kwh_by_period rs ''valle_SD'') pv pp t (mejor, cs) =
   ((if (case mejor of None \<Rightarrow> True
         | Some b \<Rightarrow> energy_cost rs t + power_cost t pv pp 1 < coste_total_mes b)
     then Some (fila_mes_val rs pv pp (a, m) t) else mejor),
    cs @ [energy_cost rs t + power_cost t pv pp 1])"
  by (cases mejor)
     (simp_all add: paso_tarifa_mes_def Let_def kwh_by_period_total energy_cost_eq power_cost_def)

lemma arg_min_list_step:
  fixes f :: "'a \<Rightarrow> real"
  shows "arg_min_list f (b # t # ts) = arg_min_list f ((if f t < f b then t else b) # ts)"
proof (cases ts)
  case Nil
  then show ?thesis by auto
next
  case (Cons u us)
  then show ?thesis by (auto simp: Let_def)
qed

lemma fold_paso_Some:
  fixes step :: "tarifa_row \<Rightarrow> fila_mes option \<times> real list \<Rightarrow> fila_mes option \<times> real list"
  assumes step: "\<And>t mejor cs. step t (mejor, cs) =
     ((if (case mejor of None \<Rightarrow> True | Some b \<Rightarrow> tot t < coste_total_mes b)
       then Some (row t) else mejor), cs @ [tot t])"
    and row: "\<And>t. coste_total_mes (row t) = tot t"
  shows "fold step ts (Some (row b), cs) = (Some (row (arg_min_list tot (b # ts))), cs @ map tot ts)"
proof (induction ts arbitrary: b cs)
  case Nil
  then show ?case by simp
next
  case (Cons t ts)
  have "step t (Some (row b), cs) = (Some (row (if tot t < tot b then t else b)), cs @ [tot t])"
    by (simp add: step row)
  then have "fold step (t # ts) (Some (row b), cs) =
      (Some (row (arg_min_list tot ((if tot t < tot b then t else b) # ts))), (cs @ [tot t]) @ map tot ts)"
    using Cons.IH [of "if tot t < tot b then t else b" "cs @ [tot t]"] by simp
  then show ?case by (simp only: arg_min_list_step [of tot b t ts]) simp
qed

lemma fold_paso_None:
  fixes step :: "tarifa_row \<Rightarrow> fila_mes option \<times> real list \<Rightarrow> fila_mes option \<times> real list"
  assumes step: "\<And>t mejor cs. step t (mejor, cs) =
     ((if (case mejor of None \<Rightarrow> True | Some b \<Rightarrow> tot t < coste_total_mes b)
       then Some (row t) else mejor), cs @ [tot t])"
    and row: "\<And>t. coste_total_mes (row t) = tot t"
  shows "fold step ts (None, []) =
    (if ts = [] then (None, []) else (Some (row (arg_min_list tot ts)), map tot ts))"
proof (cases ts)
  case Nil
  then show ?thesis by simp
next
  case (Cons t ts')
  have "step t (None, []) = (Some (row t), [tot t])" by (simp add: step)
  then show ?thesis
    using fold_paso_Some [of step tot row ts' t "[tot t]", OF step row] Cons by simp
qed

lemma mejor_tarifa_grupo_eq:
  fixes rs tarifas pv pp am
  defines "tot \<equiv> (\<lambda>t. energy_cost rs t + power_cost t pv pp 1)"
  shows "mejor_tarifa_grupo tarifas pv pp am (map (\<lambda>c. (c, periodo_registro c)) rs) =
    (if tarifas = [] then Inl TypeError
     else Inr (fila_mes_val rs pv pp am (arg_min_list tot tarifas),
               kpis_val (map tot tarifas) (tot (arg_min_list tot tarifas))))"
proof -
  have loop: "fold (paso_tarifa_mes (fst am) (snd am) (kwh_by_period rs ''punta_LV'')
        (kwh_by_period rs ''llano_LV'') (kwh_by_period rs ''valle_LV'') (kwh_by_period rs ''valle_SD'')
        (kwh_by_period rs ''punta_LV'' + kwh_by_period rs ''llano_LV''
          + kwh_by_period rs ''valle_LV'' + kwh_by_period rs ''valle_SD'') pv pp) tarifas (None, [])
     = (if tarifas = [] then (None, [])
        else (Some (fila_mes_val rs pv pp am (arg_min_list tot tarifas)), map tot tarifas))"
    unfolding tot_def
    by (rule fold_paso_None [where row = "fila_mes_val rs pv pp am"])
       (simp_all add: paso_tarifa_mes_eq)
  show ?thesis
  proof (cases "tarifas = []")
    case True
    then show ?thesis
      unfolding mejor_tarifa_grupo_def kwh_grupo_eq by (simp add: median_def)
  next
    case False
    then obtain md where md: "median (map tot tarifas) = Some md"
      using median_None_iff [of "map tot tarifas"] by auto
    have mx: "maximo (map tot tarifas) = Some (Max (set (map tot tarifas)))"
      using False by (simp add: maximo_Some)
    have tot_app: "tot t = energy_cost rs t + power_cost t pv pp 1" for t
      by (simp add: tot_def)
    show ?thesis
      unfolding mejor_tarifa_grupo_def kwh_grupo_eq
      using False by (simp add: loop md mx safe_pct_Inr Let_def tot_app)
  qed
qed

lemma zip_map_same: "zip xs (map f xs) = map (\<lambda>x. (x, f x)) xs"
  by (induction xs) simp_all

lemma map_err_map: "map_err f (map g xs) = map_err (\<lambda>x. f (g x)) xs"
  by (induction xs) (simp_all cong: sum.case_cong)

lemma map_err_Inl_all:
  "xs \<noteq> [] \<Longrightarrow> (\<And>x. f x = Inl e) \<Longrightarrow> map_err f xs = Inl e"
  by (cases xs) simp_all

lemma filter_anio_mes:
  "filter (\<lambda>r. year (timestamp (fst r)) = fst am \<and> month (timestamp (fst r)) = snd am)
     (map (\<lambda>c. (c, periodo_registro c)) df) =
   map (\<lambda>c. (c, periodo_registro c)) (registros_mes df am)"
  by (induction df) (auto simp: registros_mes_def anio_mes_def)

lemma grupos_anio_mes_eq:
  "grupos_anio_mes (map (\<lambda>c. (c, periodo_registro c)) df) =
   map (\<lambda>am. (am, map (\<lambda>c. (c, periodo_registro c)) (registros_mes df am)))
       (sort (remdups (map anio_mes df)))"
  by (simp add: grupos_anio_mes_def comp_def filter_map registros_mes_def)

lemma extra_mes_eq:
  assumes "anio (fst (fst row)) = fst am" and "mes (fst (fst row)) = snd am"
  shows "extra_mes (map (\<lambda>c. (c, periodo_registro c)) df) row =
    Inr (dist_val (kwh_by_period (registros_mes df am) ''punta_LV'')
                  (kwh_by_period (registros_mes df am) ''llano_LV'')
                  (kwh_by_period (registros_mes df am) ''valle_LV'')
                  (kwh_by_period (registros_mes df am) ''valle_SD''))"
  unfolding extra_mes_def Let_def assms filter_anio_mes kwh_grupo_eq
  by (simp add: distribucion_consumo_eq)

lemma monthly_eq:
  fixes df tarifas pv pp
  defines "tot \<equiv> (\<lambda>am t. energy_cost (registros_mes df am) t + power_cost t pv pp 1)"
  defines "best \<equiv> (\<lambda>am. arg_min_list (tot am) tarifas)"
  shows "calcular_mejor_tarifa_por_mes df tarifas pv pp =
    (if df = [] then Inl KeyError
     else if tarifas = [] then Inl TypeError
     else Inr (map (\<lambda>am.
        (((fila_mes_val (registros_mes df am) pv pp am (best am),
           kpis_val (map (tot am) tarifas) (tot am (best am))),
          pct_val (energy_cost (registros_mes df am) (best am)) (power_cost (best am) pv pp 1)
                  (tot am (best am))),
         dist_val (kwh_by_period (registros_mes df am) ''punta_LV'')
                  (kwh_by_period (registros_mes df am) ''llano_LV'')
                  (kwh_by_period (registros_mes df am) ''valle_LV'')
                  (kwh_by_period (registros_mes df am) ''valle_SD'')))
        (sort (remdups (map anio_mes df)))))"
proof -
  define keys where "keys = sort (remdups (map anio_mes df))"
  define R where "R = (\<lambda>am. (fila_mes_val (registros_mes df am) pv pp am (best am),
           kpis_val (map (tot am) tarifas) (tot am (best am))))"
  have "length keys = 0 \<longleftrightarrow> df = []"
    unfolding keys_def length_sort by simp
  then have keys_Nil: "keys = [] \<longleftrightarrow> df = []"
    by simp
  have tot_app: "tot am t = energy_cost (registros_mes df am) t + power_cost t pv pp 1" for am t
    by (simp add: tot_def)
  have grp: "mejor_tarifa_grupo tarifas pv pp am (map (\<lambda>c. (c, periodo_registro c)) (registros_mes df am)) =
      (if tarifas = [] then Inl TypeError else Inr (R am))" for am
    unfolding mejor_tarifa_grupo_eq R_def best_def tot_def by simp
  have loop: "map_err (\<lambda>(am, g). mejor_tarifa_grupo tarifas pv pp am g)
        (grupos_anio_mes (map (\<lambda>c. (c, periodo_registro c)) df)) =
      (if keys = [] then Inr [] else if tarifas = [] then Inl TypeError else Inr (map R keys))"
  proof (cases "tarifas = []")
    case True
    show ?thesis
    proof (cases "keys = []")
      case True
      then show ?thesis by (simp add: grupos_anio_mes_eq keys_def [symmetric])
    next
      case False
      have "map_err (\<lambda>am. mejor_tarifa_grupo tarifas pv pp am
              (map (\<lambda>c. (c, periodo_registro c)) (registros_mes df am))) keys = Inl TypeError"
        using False by (rule map_err_Inl_all) (use grp True in simp)
      then show ?thesis
        using False \<open>tarifas = []\<close>
        by (simp add: grupos_anio_mes_eq keys_def [symmetric] map_err_map)
    qed
  next
    case False
    have "map_err (\<lambda>am. mejor_tarifa_grupo tarifas pv pp am
              (map (\<lambda>c. (c, periodo_registro c)) (registros_mes df am))) keys = Inr (map R keys)"
      by (rule map_err_Inr) (use grp False in simp)
    then show ?thesis
      using False by (simp add: grupos_anio_mes_eq keys_def [symmetric] map_err_map)
  qed
  have srt: "sort_key (\<lambda>r. (anio (fst r), mes (fst r))) (map R keys) = map R keys"
  proof (rule sort_key_id_if_sorted)
    have "map (\<lambda>r. (anio (fst r), mes (fst r))) (map R keys) = keys"
      by (simp add: R_def comp_def)
    then show "sorted (map (\<lambda>r. (anio (fst r), mes (fst r))) (map R keys))"
      by (simp add: keys_def)
  qed
  have extra: "map_err (extra_mes (map (\<lambda>c. (c, periodo_registro c)) df))
      (map (\<lambda>am. (R am, pct_val (energy_cost (registros_mes df am) (best am))
                      (power_cost (best am) pv pp 1) (tot am (best am)))) keys) =
     Inr (map (\<lambda>am. dist_val (kwh_by_period (registros_mes df am) ''punta_LV'')
                  (kwh_by_period (registros_mes df am) ''llano_LV'')
                  (kwh_by_period (registros_mes df am) ''valle_LV'')
                  (kwh_by_period (registros_mes df am) ''valle_SD'')) keys)"
    unfolding map_err_map
    by (rule map_err_Inr) (rule extra_mes_eq, simp_all add: R_def)
  have pctv: "anadir_pct_energia_potencia (map R keys)
               (\<lambda>r. coste_energia_mes (fst r)) (\<lambda>r. coste_potencia_mes (fst r))
               (\<lambda>r. coste_total_mes (fst r)) =
      Inr (map (\<lambda>am. (R am, pct_val (energy_cost (registros_mes df am) (best am))
                  (power_cost (best am) pv pp 1) (tot am (best am)))) keys)"
    unfolding anadir_pct_energia_potencia_eq by (simp add: R_def comp_def tot_app)
  have "calcular_mejor_tarifa_por_mes df tarifas pv pp =
    (if keys = [] then Inl KeyError
     else if tarifas = [] then Inl TypeError
     else Inr (zip (map (\<lambda>am. (R am, pct_val (energy_cost (registros_mes df am) (best am))
                  (power_cost (best am) pv pp 1) (tot am (best am)))) keys)
                   (map (\<lambda>am. dist_val (kwh_by_period (registros_mes df am) ''punta_LV'')
                  (kwh_by_period (registros_mes df am) ''llano_LV'')
                  (kwh_by_period (registros_mes df am) ''valle_LV'')
                  (kwh_by_period (registros_mes df am) ''valle_SD'')) keys)))"
    by (simp add: calcular_mejor_tarifa_por_mes_def clasificar_periodo_df zip_map_same Let_def
        loop srt pctv extra)
  then show ?thesis
    by (simp add: keys_Nil zip_map_map_same R_def) (simp add: keys_def)
qed

subsection \<open>Sorting routines and the example tables\<close>

lemma sort_key_ok: "sort_values_ok sort_key"
  by (simp add: sort_values_ok_def)

lemma kwh_ej:
  "kwh_by_period consumo_ej ''punta_LV'' = 100" "kwh_by_period consumo_ej ''llano_LV'' = 0"
  "kwh_by_period consumo_ej ''valle_LV'' = 30" "kwh_by_period consumo_ej ''valle_SD'' = 50"
  by (simp_all add: kwh_by_period_def consumo_ej_def periodo_registro_def classify_def)

subsection \<open>Rows of the two tables\<close>

lemma annual_Inr:
  assumes "calcular_costes_anuales_por_tarifa srt df tarifas pv pp = Inr tabla"
  shows "tarifas \<noteq> []"
    and "map fila_base tabla = srt coste_total_anual (map (fila_anual_val df pv pp) tarifas)"
    and "row \<in> set tabla \<Longrightarrow>
         fila_kpis row = kpis_val (map (\<lambda>r. coste_total_anual (fila_base r)) tabla)
                           (coste_total_anual (fila_base row)) \<and>
         fila_pct row = pct_val (coste_energia_anual (fila_base row))
                          (coste_potencia_anual (fila_base row))
                          (coste_total_anual (fila_base row)) \<and>
         fila_dist row = dist_val (kwh_by_period df ''punta_LV'') (kwh_by_period df ''llano_LV'')
                           (kwh_by_period df ''valle_LV'') (kwh_by_period df ''valle_SD'')"
proof -
  show ne: "tarifas \<noteq> []"
    using assms by (auto simp: annual_eq)
  define res where "res = srt coste_total_anual (map (fila_anual_val df pv pp) tarifas)"
  have tabla: "tabla = map (\<lambda>r. (((r, kpis_val (map coste_total_anual res) (coste_total_anual r)),
                          pct_val (coste_energia_anual r) (coste_potencia_anual r) (coste_total_anual r)),
                         dist_val (kwh_by_period df ''punta_LV'') (kwh_by_period df ''llano_LV'')
                                  (kwh_by_period df ''valle_LV'') (kwh_by_period df ''valle_SD''))) res"
    using assms ne unfolding annual_eq res_def by simp
  show base: "map fila_base tabla = srt coste_total_anual (map (fila_anual_val df pv pp) tarifas)"
    unfolding tabla res_def by (simp add: comp_def)
  have col: "map (\<lambda>r. coste_total_anual (fila_base r)) tabla = map coste_total_anual res"
    unfolding tabla by (simp add: comp_def)
  show "fila_kpis row = kpis_val (map (\<lambda>r. coste_total_anual (fila_base r)) tabla)
                           (coste_total_anual (fila_base row)) \<and>
         fila_pct row = pct_val (coste_energia_anual (fila_base row))
                          (coste_potencia_anual (fila_base row))
                          (coste_total_anual (fila_base row)) \<and>
         fila_dist row = dist_val (kwh_by_period df ''punta_LV'') (kwh_by_period df ''llano_LV'')
                           (kwh_by_period df ''valle_LV'') (kwh_by_period df ''valle_SD'')"
    if "row \<in> set tabla"
    using that unfolding col unfolding tabla by auto
qed

lemma annual_base_in:
  assumes "sort_values_ok srt"
    and "calcular_costes_anuales_por_tarifa srt df tarifas pv pp = Inr tabla"
  shows "mset (map fila_base tabla) = mset (map (fila_anual_val df pv pp) tarifas)"
    and "row \<in> set tabla \<Longrightarrow> \<exists>t \<in> set tarifas. fila_base row = fila_anual_val df pv pp t"
    and "t \<in> set tarifas \<Longrightarrow> \<exists>row \<in> set tabla. fila_base row = fila_anual_val df pv pp t"
    and "sorted (map (\<lambda>r. coste_total_anual (fila_base r)) tabla)"
proof -
  have base: "map fila_base tabla = srt coste_total_anual (map (fila_anual_val df pv pp) tarifas)"
    using assms(2) by (rule annual_Inr(2))
  show m: "mset (map fila_base tabla) = mset (map (fila_anual_val df pv pp) tarifas)"
    using assms(1) by (simp add: base sort_values_ok_def)
  then have s: "set (map fila_base tabla) = set (map (fila_anual_val df pv pp) tarifas)"
    by (rule mset_eq_setD)
  show "\<exists>t \<in> set tarifas. fila_base row = fila_anual_val df pv pp t" if "row \<in> set tabla"
  proof -
    have "fila_base row \<in> set (map fila_base tabla)" using that by simp
    then have "fila_base row \<in> set (map (fila_anual_val df pv pp) tarifas)" by (simp only: s)
    then show ?thesis by auto
  qed
  show "\<exists>row \<in> set tabla. fila_base row = fila_anual_val df pv pp t" if "t \<in> set tarifas"
  proof -
    have "fila_anual_val df pv pp t \<in> set (map (fila_anual_val df pv pp) tarifas)"
      using that by simp
    then have "fila_anual_val df pv pp t \<in> set (map fila_base tabla)" by (simp only: s)
    then have "\<exists>row\<in>set tabla. fila_anual_val df pv pp t = fila_base row"
      unfolding set_map image_iff .
    then obtain row where a: "row \<in> set tabla" and b: "fila_anual_val df pv pp t = fila_base row"
      by blast
    from b [symmetric] a show ?thesis by (rule bexI)
  qed
  have "sorted (map coste_total_anual (map fila_base tabla))"
    using assms(1) by (simp add: base sort_values_ok_def)
  then show "sorted (map (\<lambda>r. coste_total_anual (fila_base r)) tabla)"
    by (simp add: comp_def)
qed

lemma annual_success:
  "tarifas \<noteq> [] \<Longrightarrow> \<exists>tabla. calcular_costes_anuales_por_tarifa srt df tarifas pv pp = Inr tabla"
  by (simp add: annual_eq)

lemma monthly_Inr:
  assumes "calcular_mejor_tarifa_por_mes df tarifas pv pp = Inr tabla"
  shows "df \<noteq> []" and "tarifas \<noteq> []"
    and "map (\<lambda>row. (anio (fila_base row), mes (fila_base row))) tabla = sort (remdups (map anio_mes df))"
    and "row \<in> set tabla \<Longrightarrow>
      (anio (fila_base row), mes (fila_base row)) \<in> set (map anio_mes df) \<and>
      (let am = (anio (fila_base row), mes (fila_base row));
           g = registros_mes df am;
           tot = (\<lambda>t. energy_cost g t + power_cost t pv pp 1);
           best = arg_min_list tot tarifas
       in fila_base row = fila_mes_val g pv pp am best \<and>
          fila_kpis row = kpis_val (map tot tarifas) (tot best) \<and>
          fila_pct row = pct_val (energy_cost g best) (power_cost best pv pp 1) (tot best) \<and>
          fila_dist row = dist_val (kwh_by_period g ''punta_LV'') (kwh_by_period g ''llano_LV'')
                           (kwh_by_period g ''valle_LV'') (kwh_by_period g ''valle_SD''))"
proof -
  show df: "df \<noteq> []" using assms by (auto simp: monthly_eq)
  show ta: "tarifas \<noteq> []" using assms df by (auto simp: monthly_eq)
  define R where "R = (\<lambda>am.
        (((fila_mes_val (registros_mes df am) pv pp am
             (arg_min_list (\<lambda>t. energy_cost (registros_mes df am) t + power_cost t pv pp 1) tarifas),
           kpis_val (map (\<lambda>t. energy_cost (registros_mes df am) t + power_cost t pv pp 1) tarifas)
             (energy_cost (registros_mes df am)
                (arg_min_list (\<lambda>t. energy_cost (registros_mes df am) t + power_cost t pv pp 1) tarifas)
              + power_cost (arg_min_list (\<lambda>t. energy_cost (registros_mes df am) t + power_cost t pv pp 1) tarifas) pv pp 1)),
          pct_val (energy_cost (registros_mes df am)
                     (arg_min_list (\<lambda>t. energy_cost (registros_mes df am) t + power_cost t pv pp 1) tarifas))
                  (power_cost (arg_min_list (\<lambda>t. energy_cost (registros_mes df am) t + power_cost t pv pp 1) tarifas) pv pp 1)
                  (energy_cost (registros_mes df am)
                     (arg_min_list (\<lambda>t. energy_cost (registros_mes df am) t + power_cost t pv pp 1) tarifas)
                   + power_cost (arg_min_list (\<lambda>t. energy_cost (registros_mes df am) t + power_cost t pv pp 1) tarifas) pv pp 1)),
         dist_val (kwh_by_period (registros_mes df am) ''punta_LV'')
                  (kwh_by_period (registros_mes df am) ''llano_LV'')
                  (kwh_by_period (registros_mes df am) ''valle_LV'')
                  (kwh_by_period (registros_mes df am) ''valle_SD'')))"
  have tabla: "tabla = map R (sort (remdups (map anio_mes df)))"
    using assms df ta unfolding monthly_eq R_def by simp
  have key: "(anio (fila_base (R am)), mes (fila_base (R am))) = am" for am
    by (simp add: R_def)
  show "map (\<lambda>row. (anio (fila_base row), mes (fila_base row))) tabla = sort (remdups (map anio_mes df))"
    unfolding tabla by (simp add: comp_def key)
  show "(anio (fila_base row), mes (fila_base row)) \<in> set (map anio_mes df) \<and>
      (let am = (anio (fila_base row), mes (fila_base row));
           g = registros_mes df am;
           tot = (\<lambda>t. energy_cost g t + power_cost t pv pp 1);
           best = arg_min_list tot tarifas
       in fila_base row = fila_mes_val g pv pp am best \<and>
          fila_kpis row = kpis_val (map tot tarifas) (tot best) \<and>
          fila_pct row = pct_val (energy_cost g best) (power_cost best pv pp 1) (tot best) \<and>
          fila_dist row = dist_val (kwh_by_period g ''punta_LV'') (kwh_by_period g ''llano_LV'')
                           (kwh_by_period g ''valle_LV'') (kwh_by_period g ''valle_SD''))"
    if "row \<in> set tabla"
  proof -
    from that obtain am where am: "am \<in> set (map anio_mes df)" and row: "row = R am"
      unfolding tabla by auto
    have k: "(anio (fila_base row), mes (fila_base row)) = am" by (simp add: row key)
    show ?thesis
      unfolding k Let_def using am by (simp add: row R_def)
  qed
qed

lemma monthly_success:
  "df \<noteq> [] \<Longrightarrow> tarifas \<noteq> [] \<Longrightarrow> \<exists>tabla. calcular_mejor_tarifa_por_mes df tarifas pv pp = Inr tabla"
  by (simp add: monthly_eq)

subsection \<open>The example tables, evaluated\<close>

lemma median_ev2: "median [a, b] = Some ((min a b + max a b) / 2)"
  by (simp add: median_def Let_def insort_key.simps min_def max_def)

lemma energy_ej:
  "energy_cost consumo_ej tarifa_a = 27" "energy_cost consumo_ej tarifa_b = 22"
  by (simp_all add: energy_cost_eq kwh_ej tarifa_a_def tarifa_b_def)

lemma ranking_ej_eq:
  "calcular_costes_anuales_por_tarifa sort_key consumo_ej [tarifa_a, tarifa_b] 3 4 = Inr ranking_ej"
proof -
  have s: "sum_list (map kwh consumo_ej) = 180" by (simp add: consumo_ej_def)
  have p: "power_cost tarifa_a 3 4 12 = 132" "power_cost tarifa_b 3 4 12 = 132"
    by (simp_all add: power_cost_def tarifa_a_def tarifa_b_def)
  have n: "tarifa_row.comercializadora tarifa_a = ''A''" "tarifa_row.tarifa tarifa_a = ''uno''"
    "tarifa_row.comercializadora tarifa_b = ''B''" "tarifa_row.tarifa tarifa_b = ''dos''"
    by (simp_all add: tarifa_a_def tarifa_b_def)
  show ?thesis
    by (simp add: annual_eq energy_ej kwh_ej s p n median_ev2 ranking_ej_def)
qed

lemma keys_ej: "sort (remdups (map anio_mes consumo_ej)) = [(2025, 1), (2025, 2)]"
  by (simp add: consumo_ej_def anio_mes_def)

lemma reg_ej:
  "registros_mes consumo_ej (2025, Suc 0) = consumo_enero"
  "registros_mes consumo_ej (2025, 2) = drop 2 consumo_ej"
  by (simp_all add: registros_mes_def consumo_ej_def consumo_enero_def anio_mes_def)

lemma kwh_enero:
  "kwh_by_period consumo_enero ''punta_LV'' = 100" "kwh_by_period consumo_enero ''llano_LV'' = 0"
  "kwh_by_period consumo_enero ''valle_LV'' = 0" "kwh_by_period consumo_enero ''valle_SD'' = 50"
  "sum_list (map kwh consumo_enero) = 150"
  by (simp_all add: kwh_by_period_def consumo_enero_def consumo_ej_def periodo_registro_def classify_def)

lemma kwh_febrero:
  "kwh_by_period (drop 2 consumo_ej) ''punta_LV'' = 0" "kwh_by_period (drop 2 consumo_ej) ''llano_LV'' = 0"
  "kwh_by_period (drop 2 consumo_ej) ''valle_LV'' = 30" "kwh_by_period (drop 2 consumo_ej) ''valle_SD'' = 0"
  "sum_list (map kwh (drop 2 consumo_ej)) = 30"
  by (simp_all add: kwh_by_period_def consumo_ej_def periodo_registro_def classify_def)

lemma costes_ej:
  "energy_cost consumo_enero tarifa_a = 24" "energy_cost consumo_enero tarifa_b = 19"
  "energy_cost (drop 2 consumo_ej) tarifa_a = 3" "energy_cost (drop 2 consumo_ej) tarifa_b = 3"
  "power_cost tarifa_a 3 4 1 = 11" "power_cost tarifa_b 3 4 1 = 11"
  "power_cost tarifa_a 3 4 12 = 132" "power_cost tarifa_b 3 4 12 = 132"
  by (simp_all add: energy_cost_eq kwh_enero kwh_febrero power_cost_def tarifa_a_def tarifa_b_def)

lemma nombres_ej:
  "tarifa_row.comercializadora tarifa_a = ''A''" "tarifa_row.tarifa tarifa_a = ''uno''"
  "tarifa_row.comercializadora tarifa_b = ''B''" "tarifa_row.tarifa tarifa_b = ''dos''"
  by (simp_all add: tarifa_a_def tarifa_b_def)

lemma mejor_mes_ej_eq:
  "calcular_mejor_tarifa_por_mes consumo_ej [tarifa_a, tarifa_b] 3 4 = Inr mejor_mes_ej"
proof -
  have ne: "consumo_ej \<noteq> []" by (simp add: consumo_ej_def)
  show ?thesis
    by (simp add: monthly_eq ne keys_ej reg_ej costes_ej kwh_enero kwh_febrero nombres_ej
        median_ev2 mejor_mes_ej_def)
qed

subsection \<open>Further facts used by the claims\<close>

lemma sort_values_ok_single:
  assumes "sort_values_ok srt"
  shows "srt col [x] = [x]"
proof -
  have "mset (srt col [x]) = {#x#}"
    using assms by (simp add: sort_values_ok_def)
  then show ?thesis by simp
qed


lemma remdups_const:
  "xs \<noteq> [] \<Longrightarrow> set xs \<subseteq> {a} \<Longrightarrow> remdups xs = [a]"
proof (induction xs)
  case Nil
  then show ?case by simp
next
  case (Cons x xs)
  from Cons.prems(2) have x: "x = a" and sub: "set xs \<subseteq> {a}" by simp_all
  show ?case
  proof (cases "xs = []")
    case True
    then show ?thesis by (simp add: x)
  next
    case False
    then have ih: "remdups xs = [a]" using Cons.IH sub by blast
    from False sub have "a \<in> set xs" by (cases xs) simp_all
    then show ?thesis by (simp add: x ih)
  qed
qed

lemma single_month:
  assumes "df \<noteq> []" and "\<forall>c \<in> set df. anio_mes c = am"
  shows "sort (remdups (map anio_mes df)) = [am]" and "registros_mes df am = df"
proof -
  have "set (map anio_mes df) \<subseteq> {am}"
    using assms(2) by (simp add: image_subset_iff)
  then have "remdups (map anio_mes df) = [am]"
    using assms(1) by (intro remdups_const) simp_all
  then show "sort (remdups (map anio_mes df)) = [am]" by simp
  show "registros_mes df am = df"
    using assms(2) by (simp add: registros_mes_def)
qed

section \<open>Properties of the computation on floats\<close>

subsection \<open>Rounding\<close>

lemma round_even_error: "\<bar>of_int (round_even q) - q\<bar> \<le> 1 / 2"
proof -
  have "of_int \<lfloor>q\<rfloor> \<le> q" "q < of_int \<lfloor>q\<rfloor> + 1" by linarith+
  then show ?thesis
    by (auto simp: round_even_def Let_def)
qed

lemma rnd_exponent:
  assumes "x \<noteq> 0" and "2 powr of_int k \<le> \<bar>x\<bar>" and "\<bar>x\<bar> < 2 powr (of_int k + 1)"
  shows "rnd x = of_int (round_even (x / 2 powr (of_int k - 52))) * 2 powr (of_int k - 52)"
proof -
  have "\<lfloor>log 2 \<bar>x\<bar>\<rfloor> = k"
    using assms by (subst floor_log_eq_powr_iff) auto
  then show ?thesis using assms(1) by (simp add: rnd_def)
qed

text \<open>
  When the absolute value of \<open>x\<close>, times \<open>2 ^ n\<close>, lies between \<open>2 ^ 52\<close> and \<open>2 ^ 53\<close>, the
  double nearest to \<open>x\<close> is the nearest integer to \<open>x * 2 ^ n\<close>, over \<open>2 ^ n\<close>. This
  evaluates \<open>rnd\<close> at a rational number.
\<close>

lemma rnd_eval_down:
  fixes n :: nat
  assumes "2 ^ 52 \<le> \<bar>x\<bar> * 2 ^ n" and "\<bar>x\<bar> * 2 ^ n < 2 ^ 53"
  shows "rnd x = of_int (round_even (x * 2 ^ n)) / 2 ^ n"
proof -
  have x: "x \<noteq> 0" using assms(1) by auto
  define k :: int where "k = 52 - int n"
  have p: "2 powr (of_int k) = (2::real) ^ 52 / 2 ^ n"
    unfolding k_def by (simp add: powr_diff powr_realpow)
  have p1: "2 powr (of_int k + 1) = (2::real) ^ 53 / 2 ^ n"
    unfolding k_def by (simp add: powr_diff powr_add powr_realpow)
  have s: "2 powr (of_int k - 52) = 1 / (2::real) ^ n"
    unfolding k_def by (simp add: powr_minus powr_realpow divide_inverse)
  have a: "2 powr of_int k \<le> \<bar>x\<bar>"
    unfolding p using assms(1) by (simp add: field_simps)
  have b: "\<bar>x\<bar> < 2 powr (of_int k + 1)"
    unfolding p1 using assms(2) by (simp add: field_simps)
  show ?thesis
    unfolding rnd_exponent [OF x a b] s by simp
qed

lemma rnd_error: "\<bar>rnd x - x\<bar> \<le> \<bar>x\<bar> / 2 ^ 53"
proof (cases "x = 0")
  case True
  then show ?thesis by (simp add: rnd_def)
next
  case False
  define e where "e = \<lfloor>log 2 \<bar>x\<bar>\<rfloor>"
  define s :: real where "s = 2 powr (of_int e - 52)"
  define q where "q = x / s"
  have s0: "0 < s" by (simp add: s_def)
  have xs: "x = q * s" using s0 by (simp add: q_def)
  have "of_int e \<le> log 2 \<bar>x\<bar>" unfolding e_def by linarith
  then have "2 powr (of_int e) \<le> 2 powr (log 2 \<bar>x\<bar>)" by (simp only: powr_le_cancel_iff) 
  then have le: "2 powr (of_int e) \<le> \<bar>x\<bar>" using False by simp
  have se: "s = 2 powr (of_int e) / 2 ^ 52"
    unfolding s_def by (simp add: powr_diff powr_realpow [symmetric])
  have r: "rnd x = of_int (round_even q) * s"
    using False by (simp add: rnd_def e_def s_def q_def Let_def)
  have "\<bar>rnd x - x\<bar> = \<bar>of_int (round_even q) - q\<bar> * s"
    unfolding r using s0 by (subst xs) (simp add: abs_mult left_diff_distrib [symmetric])
  also have "\<dots> \<le> 1 / 2 * s"
    using round_even_error [of q] s0 by (intro mult_right_mono) auto
  also have "\<dots> = 2 powr (of_int e) / 2 ^ 53" unfolding se by simp
  also have "\<dots> \<le> \<bar>x\<bar> / 2 ^ 53" using le by (simp add: divide_right_mono)
  finally show ?thesis .
qed

lemma rnd_zero_iff: "rnd x = 0 \<longleftrightarrow> x = 0"
proof
  assume "rnd x = 0"
  then have "\<bar>x\<bar> \<le> \<bar>x\<bar> / 2 ^ 53" using rnd_error [of x] by simp
  then show "x = 0" by (simp add: field_simps)
next
  assume "x = 0" then show "rnd x = 0" by (simp add: rnd_def)
qed

lemma rnd_bounds:
  assumes "0 \<le> x"
  shows "x * (1 - 1 / 2 ^ 53) \<le> rnd x" and "rnd x \<le> x * (1 + 1 / 2 ^ 53)"
proof -
  have "\<bar>rnd x - x\<bar> \<le> x / 2 ^ 53" using rnd_error [of x] assms by simp
  then have "x - x / 2 ^ 53 \<le> rnd x" "rnd x \<le> x + x / 2 ^ 53" by linarith+
  then show "x * (1 - 1 / 2 ^ 53) \<le> rnd x" and "rnd x \<le> x * (1 + 1 / 2 ^ 53)"
    by (simp_all add: algebra_simps)
qed

lemma rnd_nonneg: "0 \<le> x \<Longrightarrow> 0 \<le> rnd x"
proof -
  assume x: "0 \<le> x"
  have "0 \<le> x * (1 - 1 / 2 ^ 53)" using x by (intro mult_nonneg_nonneg) simp_all
  then show ?thesis using rnd_bounds(1) [OF x] by linarith
qed

lemma rnd_pos: "0 < x \<Longrightarrow> 0 < rnd x"
  using rnd_nonneg [of x] rnd_zero_iff [of x] by (simp add: less_le)

lemma two_roundings:
  fixes s m a c u :: real
  assumes u: "0 \<le> u" "u \<le> 1 / 5" and c: "0 \<le> c" and s: "0 \<le> s"
    and m: "s * (1 - u) \<le> m" "m \<le> s * (1 + u)"
    and a: "c * s * (1 - u)\<^sup>2 \<le> a" "a \<le> c * s * (1 + u)\<^sup>2"
  shows "\<bar>a - c * m\<bar> \<le> c * m * (4 * u)"
proof -
  have m0: "0 \<le> m"
  proof -
    have "0 \<le> s * (1 - u)" using s u by (intro mult_nonneg_nonneg) simp_all
    then show ?thesis using m(1) by linarith
  qed
  have cm: "0 \<le> c * m" using c m0 by simp
  have q1: "(1 + u)\<^sup>2 \<le> (1 + 4 * u) * (1 - u)"
  proof -
    have "0 \<le> u * (1 - 5 * u)" using u by (intro mult_nonneg_nonneg) simp_all
    then show ?thesis by (simp add: power2_eq_square algebra_simps)
  qed
  have q2: "(1 - 4 * u) * (1 + u) \<le> (1 - u)\<^sup>2"
  proof -
    have "0 \<le> u * (1 + 5 * u)" using u by (intro mult_nonneg_nonneg) simp_all
    then show ?thesis by (simp add: power2_eq_square algebra_simps)
  qed
  have up: "a \<le> c * m * (1 + 4 * u)"
  proof -
    have "a * (1 - u) \<le> c * s * (1 + u)\<^sup>2 * (1 - u)"
      using a(2) u by (intro mult_right_mono) simp_all
    also have "\<dots> = c * (1 + u)\<^sup>2 * (s * (1 - u))" by simp
    also have "\<dots> \<le> c * (1 + u)\<^sup>2 * m"
      using m(1) c by (intro mult_left_mono) simp_all
    also have "\<dots> = c * m * (1 + u)\<^sup>2" by simp
    also have "\<dots> \<le> c * m * ((1 + 4 * u) * (1 - u))"
      using q1 cm by (intro mult_left_mono)
    finally have "a * (1 - u) \<le> (c * m * (1 + 4 * u)) * (1 - u)" by (simp add: mult.assoc)
    moreover have "0 < 1 - u" using u by simp
    ultimately show ?thesis by (simp only: mult_le_cancel_right_pos)
  qed
  have lo: "c * m * (1 - 4 * u) \<le> a"
  proof -
    have "(c * m * (1 - 4 * u)) * (1 + u) = c * m * ((1 - 4 * u) * (1 + u))"
      by (simp add: mult.assoc)
    also have "\<dots> \<le> c * m * (1 - u)\<^sup>2"
      using q2 cm by (intro mult_left_mono)
    also have "\<dots> = c * (1 - u)\<^sup>2 * m" by simp
    also have "\<dots> \<le> c * (1 - u)\<^sup>2 * (s * (1 + u))"
      using m(2) c by (intro mult_left_mono) simp_all
    also have "\<dots> = c * s * (1 - u)\<^sup>2 * (1 + u)" by simp
    also have "\<dots> \<le> a * (1 + u)"
      using a(1) u by (intro mult_right_mono) simp_all
    finally have "(c * m * (1 - 4 * u)) * (1 + u) \<le> a * (1 + u)" .
    moreover have "0 < 1 + u" using u by simp
    ultimately show ?thesis by (simp only: mult_le_cancel_right_pos)
  qed
  show ?thesis using up lo by (simp add: abs_le_iff algebra_simps)
qed

subsection \<open>The monthly loop on floats\<close>





lemma paso_tarifa_mes_f_eq:
  "paso_tarifa_mes_f a ms k1 k2 k3 k4 tk pv pp t (mejor, cs) =
     ((if (case mejor of None \<Rightarrow> True
           | Some m \<Rightarrow> flt (calc_total_mes_f k1 k2 k3 k4 pv pp t) (coste_total_mes_f m))
       then Some (fila_mes_f_val a ms k1 k2 k3 k4 tk pv pp t) else mejor),
      cs @ [calc_total_mes_f k1 k2 k3 k4 pv pp t])"
  by (cases mejor) (simp_all add: paso_tarifa_mes_f_def fila_mes_f_val_def calc_total_mes_f_def Let_def)

lemma fila_mes_f_val_total:
  "coste_total_mes_f (fila_mes_f_val a ms k1 k2 k3 k4 tk pv pp t) = calc_total_mes_f k1 k2 k3 k4 pv pp t"
  by (simp add: fila_mes_f_val_def)






subsection \<open>Costs that are not negative\<close>

lemma no_negativo_Val: "no_negativo c \<longleftrightarrow> (\<exists>x. c = Val x \<and> 0 \<le> x)"
  by (cases c) (simp_all add: no_negativo_def)

lemma fmul_no_negativo: "no_negativo a \<Longrightarrow> no_negativo b \<Longrightarrow> no_negativo (fmul a b)"
  by (auto simp: no_negativo_Val intro!: rnd_nonneg mult_nonneg_nonneg)

lemma fadd_no_negativo: "no_negativo a \<Longrightarrow> no_negativo b \<Longrightarrow> no_negativo (fadd a b)"
  by (auto simp: no_negativo_Val intro!: rnd_nonneg add_nonneg_nonneg)

lemma calc_energia_f_no_negativo:
  assumes "no_negativo k1" "no_negativo k2" "no_negativo k3" "no_negativo k4"
    and "tarifa_no_negativa t"
  shows "no_negativo (calc_energia_f k1 k2 k3 k4 t)"
  using assms unfolding calc_energia_f_def tarifa_no_negativa_def
  by (intro fadd_no_negativo fmul_no_negativo) simp_all

lemma calc_potencia_mes_f_no_negativo:
  assumes "no_negativo pv" "no_negativo pp" and "tarifa_no_negativa t"
  shows "no_negativo (calc_potencia_mes_f pv pp t)"
  using assms unfolding calc_potencia_mes_f_def tarifa_no_negativa_def
  by (intro fadd_no_negativo fmul_no_negativo) simp_all

lemma calc_potencia_anual_f_no_negativo:
  assumes "no_negativo pv" "no_negativo pp" and "tarifa_no_negativa t"
  shows "no_negativo (calc_potencia_anual_f pv pp t)"
proof -
  have "no_negativo (Val 12)" by (simp add: no_negativo_def)
  then show ?thesis
    using assms unfolding calc_potencia_anual_f_def tarifa_no_negativa_def
    by (intro fadd_no_negativo fmul_no_negativo) simp_all
qed

subsection \<open>The annual row on floats\<close>

lemma suma_exacta_eq:
  "suma_exacta (map (\<lambda>c. (c, periodo_registro c)) rs) p = Val (kwh_by_period rs p)"
proof -
  have "map (\<lambda>(c, p). (p, kwh c)) (map (\<lambda>c. (c, periodo_registro c)) rs)
      = map (\<lambda>c. (periodo_registro c, kwh c)) rs" by simp
  then show ?thesis
    unfolding suma_exacta_def by (simp add: groupby_sum_get filter_map_pair kwh_by_period_def comp_def)
qed

lemma fila_anual_tarifa_f_Inr:
  "\<exists>cm. fila_anual_tarifa_f k1 k2 k3 k4 tk pv pp t =
     Inr \<lparr>fila_anual_f.comercializadora_f = tarifa_row_f.comercializadora_f t,
          fila_anual_f.tarifa_f = tarifa_row_f.tarifa_f t,
          kwh_anuales_f = tk,
          coste_energia_anual_f = calc_energia_f k1 k2 k3 k4 t,
          coste_potencia_anual_f = calc_potencia_anual_f pv pp t,
          coste_total_anual_f =
            fadd (calc_energia_f k1 k2 k3 k4 t) (calc_potencia_anual_f pv pp t),
          coste_medio_eur_kwh_f = cm\<rparr>"
proof (cases "flt (Val 0) tk")
  case False
  then show ?thesis by (simp add: fila_anual_tarifa_f_def Let_def)
next
  case True
  then obtain y where tk: "tk = Val y" and y: "0 < y" by (cases tk) simp_all
  obtain q where "fdiv (fadd (calc_energia_f k1 k2 k3 k4 t) (calc_potencia_anual_f pv pp t)) tk
      = Inr q"
    unfolding tk using y
    by (cases "fadd (calc_energia_f k1 k2 k3 k4 t) (calc_potencia_anual_f pv pp t)") simp_all
  then show ?thesis using True by (simp add: fila_anual_tarifa_f_def Let_def)
qed

subsection \<open>Annual against monthly power cost on floats\<close>

lemma rnd_twice_bounds:
  assumes "0 \<le> z" and "c * z * (1 - 1 / 2 ^ 53) \<le> w" and "w \<le> c * z * (1 + 1 / 2 ^ 53)"
    and "0 \<le> c"
  shows "c * z * (1 - 1 / 2 ^ 53)\<^sup>2 \<le> rnd w" and "rnd w \<le> c * z * (1 + 1 / 2 ^ 53)\<^sup>2"
proof -
  have cz: "0 \<le> c * z" using assms by simp
  have "0 \<le> (c * z) * (1 - 1 / 2 ^ 53)" using cz by (intro mult_nonneg_nonneg [of "c * z"]) simp_all
  then have w: "0 \<le> w" using assms(2) by linarith
  have "c * z * (1 - 1 / 2 ^ 53)\<^sup>2 = (c * z * (1 - 1 / 2 ^ 53)) * (1 - 1 / 2 ^ 53)"
    by (simp add: power2_eq_square)
  also have "\<dots> \<le> w * (1 - 1 / 2 ^ 53)"
    using assms(2) by (intro mult_right_mono) simp_all
  also have "\<dots> \<le> rnd w" by (rule rnd_bounds(1) [OF w])
  finally show "c * z * (1 - 1 / 2 ^ 53)\<^sup>2 \<le> rnd w" .
  have "rnd w \<le> w * (1 + 1 / 2 ^ 53)" by (rule rnd_bounds(2) [OF w])
  also have "\<dots> \<le> (c * z * (1 + 1 / 2 ^ 53)) * (1 + 1 / 2 ^ 53)"
    using assms(3) by (intro mult_right_mono) simp_all
  also have "\<dots> = c * z * (1 + 1 / 2 ^ 53)\<^sup>2" by (simp add: power2_eq_square)
  finally show "rnd w \<le> c * z * (1 + 1 / 2 ^ 53)\<^sup>2" .
qed

lemma potencia_anual_mes_bound:
  assumes x0: "0 \<le> x0" and y0: "0 \<le> y0"
  shows "\<bar>rnd (rnd (x0 * 12) + rnd (y0 * 12)) - 12 * rnd (x0 + y0)\<bar>
         \<le> 12 * rnd (x0 + y0) / 2 ^ 51"
proof -
  define u :: real where "u = 1 / 2 ^ 53"
  have u: "0 \<le> u" "u \<le> 1 / 5" by (simp_all add: u_def)
  define s where "s = x0 + y0"
  have s: "0 \<le> s" using x0 y0 by (simp add: s_def)
  have m: "s * (1 - u) \<le> rnd s" "rnd s \<le> s * (1 + u)"
    unfolding u_def by (rule rnd_bounds [OF s])+
  have x12: "0 \<le> x0 * 12" and y12: "0 \<le> y0 * 12" using x0 y0 by simp_all
  have lo: "12 * s * (1 - u) \<le> rnd (x0 * 12) + rnd (y0 * 12)"
    using rnd_bounds(1) [OF x12] rnd_bounds(1) [OF y12]
    by (simp add: s_def u_def algebra_simps)
  have hi: "rnd (x0 * 12) + rnd (y0 * 12) \<le> 12 * s * (1 + u)"
    using rnd_bounds(2) [OF x12] rnd_bounds(2) [OF y12]
    by (simp add: s_def u_def algebra_simps)
  have a: "12 * s * (1 - u)\<^sup>2 \<le> rnd (rnd (x0 * 12) + rnd (y0 * 12))"
    "rnd (rnd (x0 * 12) + rnd (y0 * 12)) \<le> 12 * s * (1 + u)\<^sup>2"
    unfolding u_def by (rule rnd_twice_bounds [OF s lo [unfolded u_def] hi [unfolded u_def]], simp)+
  have "\<bar>rnd (rnd (x0 * 12) + rnd (y0 * 12)) - 12 * rnd s\<bar> \<le> 12 * rnd s * (4 * u)"
    by (rule two_roundings [OF u _ s m a]) simp
  then show ?thesis by (simp add: s_def u_def)
qed

lemma calc_potencia_f_bound:
  assumes pv: "no_negativo pv" and pp: "no_negativo pp"
    and t: "no_negativo (potencia_mes_valle_f t)" "no_negativo (potencia_mes_punta_llano_f t)"
  shows "\<exists>A M. calc_potencia_anual_f pv pp t = Val A \<and> calc_potencia_mes_f pv pp t = Val M \<and>
           0 \<le> M \<and> \<bar>A - 12 * M\<bar> \<le> 12 * M / 2 ^ 51"
proof -
  obtain x where x: "pv = Val x" "0 \<le> x" using pv by (auto simp: no_negativo_Val)
  obtain y where y: "pp = Val y" "0 \<le> y" using pp by (auto simp: no_negativo_Val)
  obtain a where a: "potencia_mes_valle_f t = Val a" "0 \<le> a"
    using t(1) by (auto simp: no_negativo_Val)
  obtain b where b: "potencia_mes_punta_llano_f t = Val b" "0 \<le> b"
    using t(2) by (auto simp: no_negativo_Val)
  have x0: "0 \<le> rnd (a * x)" using a x by (intro rnd_nonneg) simp
  have y0: "0 \<le> rnd (b * y)" using b y by (intro rnd_nonneg) simp
  have an: "calc_potencia_anual_f pv pp t = Val (rnd (rnd (rnd (a * x) * 12) + rnd (rnd (b * y) * 12)))"
    by (simp add: calc_potencia_anual_f_def x y a b)
  have me: "calc_potencia_mes_f pv pp t = Val (rnd (rnd (a * x) + rnd (b * y)))"
    by (simp add: calc_potencia_mes_f_def x y a b)
  have m0: "0 \<le> rnd (rnd (a * x) + rnd (b * y))" using x0 y0 by (intro rnd_nonneg) simp
  show ?thesis
    unfolding an me using m0 potencia_anual_mes_bound [OF x0 y0] by blast
qed

subsection \<open>The shares of a total on floats\<close>

lemma safe_pct_f_zero: "safe_pct_f parte (Val 0) = Inr (Val 0)"
  by (simp add: safe_pct_f_def)

lemma safe_pct_f_Val:
  "tot \<noteq> 0 \<Longrightarrow> safe_pct_f (Val e) (Val tot) = Inr (Val (rnd (rnd (e / tot) * 100)))"
  by (simp add: safe_pct_f_def)

lemma safe_pct_f_Inr: "\<exists>v. safe_pct_f parte tot = Inr v"
proof (cases tot)
  case NaN
  then show ?thesis by (cases parte) (simp_all add: safe_pct_f_def)
next
  case (Val y)
  then show ?thesis by (cases parte; cases "y = 0") (simp_all add: safe_pct_f_def)
qed

lemma map_err_total:
  assumes "\<And>x. \<exists>v. f x = Inr v"
  shows "map_err f xs = Inr (map (\<lambda>x. projr (f x)) xs)"
proof (induction xs)
  case Nil
  then show ?case by simp
next
  case (Cons x xs)
  obtain v where "f x = Inr v" using assms by blast
  then show ?case using Cons.IH by simp
qed

lemma anadir_pct_energia_potencia_f_eq:
  "anadir_pct_energia_potencia_f df ce cp ct =
     Inr (map (\<lambda>r. (r, \<lparr>pct_coste_energia_f = projr (safe_pct_f (ce r) (ct r)),
                         pct_coste_potencia_f = projr (safe_pct_f (cp r) (ct r))\<rparr>)) df)"
proof -
  have e: "map_err (\<lambda>r. safe_pct_f (ce r) (ct r)) df
      = Inr (map (\<lambda>r. projr (safe_pct_f (ce r) (ct r))) df)"
    by (rule map_err_total) (rule safe_pct_f_Inr)
  have p: "map_err (\<lambda>r. safe_pct_f (cp r) (ct r)) df
      = Inr (map (\<lambda>r. projr (safe_pct_f (cp r) (ct r))) df)"
    by (rule map_err_total) (rule safe_pct_f_Inr)
  have z: "map2 (\<lambda>r (pe, pp). (r, \<lparr>pct_coste_energia_f = pe, pct_coste_potencia_f = pp\<rparr>)) xs
             (zip (map f xs) (map g xs))
      = map (\<lambda>r. (r, \<lparr>pct_coste_energia_f = f r, pct_coste_potencia_f = g r\<rparr>)) xs"
    for f g :: "'a \<Rightarrow> pyfloat" and xs
    by (induction xs) simp_all
  show ?thesis
    unfolding anadir_pct_energia_potencia_f_def e p by (simp add: z)
qed

lemma pct_sum_bound:
  assumes e: "0 \<le> e" and p: "0 \<le> p" and t: "rnd (e + p) \<noteq> 0"
  shows "\<bar>rnd (rnd (e / rnd (e + p)) * 100) + rnd (rnd (p / rnd (e + p)) * 100) - 100\<bar>
         \<le> 100 / 2 ^ 51"
proof -
  define u :: real where "u = 1 / 2 ^ 53"
  have u: "0 \<le> u" "u \<le> 1 / 5" by (simp_all add: u_def)
  define s where "s = e + p"
  define T where "T = rnd s"
  have s0: "0 \<le> s" using e p by (simp add: s_def)
  have "s \<noteq> 0" using t by (simp add: s_def rnd_zero_iff)
  then have T0: "0 < T" unfolding T_def using s0 by (intro rnd_pos) simp
  have m: "s * (1 - u) \<le> T" "T \<le> s * (1 + u)"
    unfolding u_def T_def by (rule rnd_bounds [OF s0])+
  have share: "100 * (z / T) * (1 - u)\<^sup>2 \<le> rnd (rnd (z / T) * 100) \<and>
      rnd (rnd (z / T) * 100) \<le> 100 * (z / T) * (1 + u)\<^sup>2" if z: "0 \<le> z" for z
  proof -
    have q: "0 \<le> z / T" using z T0 by simp
    have lo: "100 * (z / T) * (1 - 1 / 2 ^ 53) \<le> rnd (z / T) * 100"
      using rnd_bounds(1) [OF q] by simp
    have hi: "rnd (z / T) * 100 \<le> 100 * (z / T) * (1 + 1 / 2 ^ 53)"
      using rnd_bounds(2) [OF q] by simp
    show ?thesis
      unfolding u_def using rnd_twice_bounds [OF q lo hi] by simp
  qed
  define S where "S = rnd (rnd (e / T) * 100) + rnd (rnd (p / T) * 100)"
  have sT: "e / T + p / T = s / T" by (simp add: s_def add_divide_distrib)
  have lo: "100 * (s / T) * (1 - u)\<^sup>2 \<le> S"
    using share [OF e] share [OF p] unfolding S_def sT [symmetric] by (simp add: algebra_simps)
  have hi: "S \<le> 100 * (s / T) * (1 + u)\<^sup>2"
    using share [OF e] share [OF p] unfolding S_def sT [symmetric] by (simp add: algebra_simps)
  have a1: "100 * s * (1 - u)\<^sup>2 \<le> S * T"
  proof -
    have "100 * s * (1 - u)\<^sup>2 = (100 * (s / T) * (1 - u)\<^sup>2) * T" using T0 by simp
    also have "\<dots> \<le> S * T" using lo T0 by (intro mult_right_mono) simp_all
    finally show ?thesis .
  qed
  have a2: "S * T \<le> 100 * s * (1 + u)\<^sup>2"
  proof -
    have "S * T \<le> (100 * (s / T) * (1 + u)\<^sup>2) * T" using hi T0 by (intro mult_right_mono) simp_all
    also have "\<dots> = 100 * s * (1 + u)\<^sup>2" using T0 by simp
    finally show ?thesis .
  qed
  have "\<bar>S * T - 100 * T\<bar> \<le> 100 * T * (4 * u)"
    by (rule two_roundings [OF u _ s0 m a1 a2]) simp
  moreover have "\<bar>S * T - 100 * T\<bar> = \<bar>S - 100\<bar> * T"
    using T0 by (simp add: left_diff_distrib [symmetric] abs_mult)
  moreover have "100 * T * (4 * u) = (100 * (4 * u)) * T" by simp
  ultimately have "\<bar>S - 100\<bar> * T \<le> (100 * (4 * u)) * T" by (simp only:)
  then have "\<bar>S - 100\<bar> \<le> 100 * (4 * u)" using T0 by (simp only: mult_le_cancel_right_pos)
  then show ?thesis unfolding S_def T_def s_def u_def by simp
qed

lemma shares_of_total_f:
  assumes e: "no_negativo e" and p: "no_negativo p"
  shows "\<exists>a b. safe_pct_f e (fadd e p) = Inr (Val a) \<and> safe_pct_f p (fadd e p) = Inr (Val b) \<and>
           (fadd e p = Val 0 \<longrightarrow> a = 0 \<and> b = 0) \<and>
           (fadd e p \<noteq> Val 0 \<longrightarrow> \<bar>a + b - 100\<bar> \<le> 100 / 2 ^ 51)"
proof -
  obtain x where x: "e = Val x" "0 \<le> x" using e by (auto simp: no_negativo_Val)
  obtain y where y: "p = Val y" "0 \<le> y" using p by (auto simp: no_negativo_Val)
  show ?thesis
  proof (cases "rnd (x + y) = 0")
    case True
    then show ?thesis by (simp add: x y safe_pct_f_def)
  next
    case False
    then show ?thesis
      using pct_sum_bound [OF x(2) y(2) False] by (simp add: x y safe_pct_f_def)
  qed
qed

subsection \<open>The doubles of the examples\<close>

lemma rnd_ejemplos:
  "rnd (1 / 10) = 3602879701896397 / 36028797018963968"
  "rnd (1 / 5) = 3602879701896397 / 18014398509481984"
  "rnd (3 / 10) = 5404319552844595 / 18014398509481984"
  "rnd (3602879701896397 / 36028797018963968) = 3602879701896397 / 36028797018963968"
  "rnd (3602879701896397 / 18014398509481984) = 3602879701896397 / 18014398509481984"
  "rnd (10808639105689191 / 36028797018963968) = 1351079888211149 / 4503599627370496"
  "rnd (1351079888211149 / 4503599627370496) = 1351079888211149 / 4503599627370496"
  "rnd (5404319552844595 / 18014398509481984) = 5404319552844595 / 18014398509481984"
  "rnd (1 / 4) = 1 / 4"
  "rnd 1 = 1"
  "rnd (10808639105689191 / 9007199254740992) = 1351079888211149 / 1125899906842624"
  "rnd (3602879701896397 / 9007199254740992) = 3602879701896397 / 9007199254740992"
  "rnd (10808639105689191 / 2251799813685248) = 1351079888211149 / 281474976710656"
  "rnd (6755399441055745 / 1125899906842624) = 6755399441055745 / 1125899906842624"
  "rnd (18014398509481985 / 36028797018963968) = 1 / 2"
  "rnd (7881299347898369 / 1125899906842624) = 7881299347898369 / 1125899906842624"
  "rnd (3 / 2) = 3 / 2"
  "rnd (7881299347898369 / 4503599627370496) = 7881299347898369 / 4503599627370496"
  "rnd 6 = 6"
  "rnd 100 = 100"
  "rnd 150 = 150"
  "rnd 25 = 25"
  "rnd (34902897112121345 / 1125899906842624) = 31"
  "rnd (51 / 2) = 51 / 2"
  "rnd (31 / 150) = 1861487845979805 / 9007199254740992"
  "rnd 2 = 2"
  "rnd 3 = 3"
  "rnd (1 / 3) = 6004799503160661 / 18014398509481984"
  "rnd (150119987579016525 / 4503599627370496) = 2345624805922133 / 70368744177664"
  "rnd (2 / 3) = 6004799503160661 / 9007199254740992"
  "rnd (150119987579016525 / 2251799813685248) = 2345624805922133 / 35184372088832"
  "rnd (7036874417766399 / 70368744177664) = 7036874417766399 / 70368744177664"
proof -
  show "rnd (1 / 10) = 3602879701896397 / 36028797018963968"
    by (subst rnd_eval_down [where n = 56]) (simp_all add: round_even_def Let_def)
  show "rnd (1 / 5) = 3602879701896397 / 18014398509481984"
    by (subst rnd_eval_down [where n = 55]) (simp_all add: round_even_def Let_def)
  show "rnd (3 / 10) = 5404319552844595 / 18014398509481984"
    by (subst rnd_eval_down [where n = 54]) (simp_all add: round_even_def Let_def)
  show "rnd (3602879701896397 / 36028797018963968) = 3602879701896397 / 36028797018963968"
    by (subst rnd_eval_down [where n = 56]) (simp_all add: round_even_def Let_def)
  show "rnd (3602879701896397 / 18014398509481984) = 3602879701896397 / 18014398509481984"
    by (subst rnd_eval_down [where n = 55]) (simp_all add: round_even_def Let_def)
  show "rnd (10808639105689191 / 36028797018963968) = 1351079888211149 / 4503599627370496"
    by (subst rnd_eval_down [where n = 54]) (simp_all add: round_even_def Let_def)
  show "rnd (1351079888211149 / 4503599627370496) = 1351079888211149 / 4503599627370496"
    by (subst rnd_eval_down [where n = 54]) (simp_all add: round_even_def Let_def)
  show "rnd (5404319552844595 / 18014398509481984) = 5404319552844595 / 18014398509481984"
    by (subst rnd_eval_down [where n = 54]) (simp_all add: round_even_def Let_def)
  show "rnd (1 / 4) = 1 / 4"
    by (subst rnd_eval_down [where n = 54]) (simp_all add: round_even_def Let_def)
  show "rnd 1 = 1"
    by (subst rnd_eval_down [where n = 52]) (simp_all add: round_even_def Let_def)
  show "rnd (10808639105689191 / 9007199254740992) = 1351079888211149 / 1125899906842624"
    by (subst rnd_eval_down [where n = 52]) (simp_all add: round_even_def Let_def)
  show "rnd (3602879701896397 / 9007199254740992) = 3602879701896397 / 9007199254740992"
    by (subst rnd_eval_down [where n = 54]) (simp_all add: round_even_def Let_def)
  show "rnd (10808639105689191 / 2251799813685248) = 1351079888211149 / 281474976710656"
    by (subst rnd_eval_down [where n = 50]) (simp_all add: round_even_def Let_def)
  show "rnd (6755399441055745 / 1125899906842624) = 6755399441055745 / 1125899906842624"
    by (subst rnd_eval_down [where n = 50]) (simp_all add: round_even_def Let_def)
  show "rnd (18014398509481985 / 36028797018963968) = 1 / 2"
    by (subst rnd_eval_down [where n = 53]) (simp_all add: round_even_def Let_def)
  show "rnd (7881299347898369 / 1125899906842624) = 7881299347898369 / 1125899906842624"
    by (subst rnd_eval_down [where n = 50]) (simp_all add: round_even_def Let_def)
  show "rnd (3 / 2) = 3 / 2"
    by (subst rnd_eval_down [where n = 52]) (simp_all add: round_even_def Let_def)
  show "rnd (7881299347898369 / 4503599627370496) = 7881299347898369 / 4503599627370496"
    by (subst rnd_eval_down [where n = 52]) (simp_all add: round_even_def Let_def)
  show "rnd 6 = 6"
    by (subst rnd_eval_down [where n = 50]) (simp_all add: round_even_def Let_def)
  show "rnd 100 = 100"
    by (subst rnd_eval_down [where n = 46]) (simp_all add: round_even_def Let_def)
  show "rnd 150 = 150"
    by (subst rnd_eval_down [where n = 45]) (simp_all add: round_even_def Let_def)
  show "rnd 25 = 25"
    by (subst rnd_eval_down [where n = 48]) (simp_all add: round_even_def Let_def)
  show "rnd (34902897112121345 / 1125899906842624) = 31"
    by (subst rnd_eval_down [where n = 48]) (simp_all add: round_even_def Let_def)
  show "rnd (51 / 2) = 51 / 2"
    by (subst rnd_eval_down [where n = 48]) (simp_all add: round_even_def Let_def)
  show "rnd (31 / 150) = 1861487845979805 / 9007199254740992"
    by (subst rnd_eval_down [where n = 55]) (simp_all add: round_even_def Let_def)
  show "rnd 2 = 2"
    by (subst rnd_eval_down [where n = 51]) (simp_all add: round_even_def Let_def)
  show "rnd 3 = 3"
    by (subst rnd_eval_down [where n = 51]) (simp_all add: round_even_def Let_def)
  show "rnd (1 / 3) = 6004799503160661 / 18014398509481984"
    by (subst rnd_eval_down [where n = 54]) (simp_all add: round_even_def Let_def)
  show "rnd (150119987579016525 / 4503599627370496) = 2345624805922133 / 70368744177664"
    by (subst rnd_eval_down [where n = 47]) (simp_all add: round_even_def Let_def)
  show "rnd (2 / 3) = 6004799503160661 / 9007199254740992"
    by (subst rnd_eval_down [where n = 53]) (simp_all add: round_even_def Let_def)
  show "rnd (150119987579016525 / 2251799813685248) = 2345624805922133 / 35184372088832"
    by (subst rnd_eval_down [where n = 46]) (simp_all add: round_even_def Let_def)
  show "rnd (7036874417766399 / 70368744177664) = 7036874417766399 / 70368744177664"
    by (subst rnd_eval_down [where n = 46]) (simp_all add: round_even_def Let_def)
qed

lemma rnd_0: "rnd 0 = 0"
  by (simp add: rnd_def)


section \<open>The claims\<close>

subsection \<open>Period classification\<close>

text \<open>
  Claim C2. With one weekend flag per timestamp, the classifier returns, at every
  position and in the order of the input, the period of the priority rule: \<open>valle_SD\<close> on a
  weekend whatever the hour; otherwise \<open>valle_LV\<close> for an hour before 8; otherwise
  \<open>punta_LV\<close> for an hour in [10, 14) or [18, 22); otherwise \<open>llano_LV\<close>.
\<close>

theorem clasificar_periodo_priority_rule:
  assumes "length ts = length wk"
  shows "clasificar_periodo ts wk = Inr (map2 classify ts wk) \<and>
    (\<exists>ps. clasificar_periodo ts wk = Inr ps \<and> length ps = length ts \<and>
      (\<forall>i < length ts. ps ! i =
         (if wk ! i then ''valle_SD''
          else if hour (ts ! i) < 8 then ''valle_LV''
          else if (10 \<le> hour (ts ! i) \<and> hour (ts ! i) < 14)
                  \<or> (18 \<le> hour (ts ! i) \<and> hour (ts ! i) < 22) then ''punta_LV''
          else ''llano_LV'')))"
proof -
  have eq: "clasificar_periodo ts wk = Inr (map2 classify ts wk)"
    using assms by (rule clasificar_periodo_map2)
  have "map2 classify ts wk ! i =
         (if wk ! i then ''valle_SD''
          else if hour (ts ! i) < 8 then ''valle_LV''
          else if (10 \<le> hour (ts ! i) \<and> hour (ts ! i) < 14)
                  \<or> (18 \<le> hour (ts ! i) \<and> hour (ts ! i) < 22) then ''punta_LV''
          else ''llano_LV'')" if "i < length ts" for i
    using that assms by (simp add: classify_def)
  then show ?thesis using eq assms by simp
qed

theorem clasificar_periodo_priority_rule_witness:
  "length [\<lparr>year = 2025, month = 1, day = 7, hour = 3, minute = 0\<rparr>,
           \<lparr>year = 2025, month = 1, day = 7, hour = 12, minute = 0\<rparr>,
           \<lparr>year = 2025, month = 1, day = 7, hour = 16, minute = 0\<rparr>,
           \<lparr>year = 2025, month = 1, day = 11, hour = 12, minute = 0\<rparr>]
     = length [False, False, False, True] \<and>
   clasificar_periodo
     [\<lparr>year = 2025, month = 1, day = 7, hour = 3, minute = 0\<rparr>,
      \<lparr>year = 2025, month = 1, day = 7, hour = 12, minute = 0\<rparr>,
      \<lparr>year = 2025, month = 1, day = 7, hour = 16, minute = 0\<rparr>,
      \<lparr>year = 2025, month = 1, day = 11, hour = 12, minute = 0\<rparr>]
     [False, False, False, True]
   = Inr [''valle_LV'', ''punta_LV'', ''llano_LV'', ''valle_SD'']"
  using clasificar_periodo_priority_rule
    [of "[\<lparr>year = 2025, month = 1, day = 7, hour = 3, minute = 0\<rparr>,
          \<lparr>year = 2025, month = 1, day = 7, hour = 12, minute = 0\<rparr>,
          \<lparr>year = 2025, month = 1, day = 7, hour = 16, minute = 0\<rparr>,
          \<lparr>year = 2025, month = 1, day = 11, hour = 12, minute = 0\<rparr>]"
        "[False, False, False, True]"]
  by (simp add: classify_def)

text \<open>
  Claim C6. The classifier never raises \<open>ValueError\<close>: the rule gives every pair of an
  hour and a weekend flag one of the four labels, so after the four masked assignments
  no entry of the series is left without a label, and the result is a list of labels, one
  per record.
\<close>

theorem clasificar_periodo_exhaustive:
  "clasificar_periodo ts wk \<noteq> Inl ValueError \<and>
   classify t w \<in> {''punta_LV'', ''llano_LV'', ''valle_LV'', ''valle_SD''} \<and>
   (length ts = length wk \<longrightarrow>
      \<not> list_ex isna (periodo_series ts wk) \<and>
      (\<exists>ps. clasificar_periodo ts wk = Inr ps \<and> length ps = length ts \<and>
            set ps \<subseteq> {''punta_LV'', ''llano_LV'', ''valle_LV'', ''valle_SD''}))"
proof -
  have a: "clasificar_periodo ts wk \<noteq> Inl ValueError"
  proof (cases "length ts = length wk")
    case True
    then show ?thesis by (simp add: clasificar_periodo_map2)
  next
    case False
    then show ?thesis by (simp add: clasificar_periodo_def)
  qed
  have b: "set (map2 classify ts wk) \<subseteq> {''punta_LV'', ''llano_LV'', ''valle_LV'', ''valle_SD''}"
    using classify_labels by (auto simp: in_set_zip)
  have c: "\<not> list_ex isna (periodo_series ts wk)" if "length ts = length wk"
    using that by (auto simp: periodo_series_eq list_ex_iff isna_def)
  show ?thesis
    using a b c classify_labels [of t w] by (simp add: clasificar_periodo_map2)
qed

theorem clasificar_periodo_exhaustive_witness:
  "length [\<lparr>year = 2025, month = 3, day = 4, hour = 9, minute = 0\<rparr>,
           \<lparr>year = 2025, month = 3, day = 8, hour = 23, minute = 0\<rparr>] = length [False, True] \<and>
   \<not> list_ex isna (periodo_series
        [\<lparr>year = 2025, month = 3, day = 4, hour = 9, minute = 0\<rparr>,
         \<lparr>year = 2025, month = 3, day = 8, hour = 23, minute = 0\<rparr>] [False, True]) \<and>
   clasificar_periodo
        [\<lparr>year = 2025, month = 3, day = 4, hour = 9, minute = 0\<rparr>,
         \<lparr>year = 2025, month = 3, day = 8, hour = 23, minute = 0\<rparr>] [False, True]
     = Inr [''llano_LV'', ''valle_SD'']"
  using clasificar_periodo_exhaustive
    [of "[\<lparr>year = 2025, month = 3, day = 4, hour = 9, minute = 0\<rparr>,
          \<lparr>year = 2025, month = 3, day = 8, hour = 23, minute = 0\<rparr>]" "[False, True]"]
  by (simp add: clasificar_periodo_map2 classify_def)

subsection \<open>Zero-safe division\<close>

text \<open>
  Claim C7. \<open>_safe_pct(x, 0)\<close> returns 0 for every \<open>x\<close>, and \<open>100 x / t\<close> when
  \<open>t\<close> is not 0. With a total of 0 kWh the loop body of the annual pipeline returns a row
  whose \<open>coste_medio_eur_kwh\<close> is 0. Neither pipeline ever raises \<open>ZeroDivisionError\<close>,
  and in every row of the annual table with \<open>kwh_anuales\<close> equal to 0 the average unit
  cost is 0.
\<close>

theorem zero_safe_division:
  "safe_pct x 0 = Inr 0 \<and>
   (t \<noteq> 0 \<longrightarrow> safe_pct x t = Inr (100 * x / t)) \<and>
   (\<exists>r. fila_anual_tarifa k1 k2 k3 k4 0 pv pp tf = Inr r \<and> coste_medio_eur_kwh r = 0) \<and>
   calcular_costes_anuales_por_tarifa srt df tarifas pv pp \<noteq> Inl ZeroDivisionError \<and>
   calcular_mejor_tarifa_por_mes df tarifas pv pp \<noteq> Inl ZeroDivisionError \<and>
   (sort_values_ok srt \<longrightarrow>
    calcular_costes_anuales_por_tarifa srt df tarifas pv pp = Inr tabla \<longrightarrow>
    row \<in> set tabla \<longrightarrow>
    kwh_anuales (fila_base row) = 0 \<longrightarrow>
    coste_medio_eur_kwh (fila_base row) = 0)"
proof -
  have a: "safe_pct x 0 = Inr 0" by (simp add: safe_pct_Inr)
  have b: "t \<noteq> 0 \<longrightarrow> safe_pct x t = Inr (100 * x / t)" by (simp add: safe_pct_Inr)
  have c: "\<exists>r. fila_anual_tarifa k1 k2 k3 k4 0 pv pp tf = Inr r \<and> coste_medio_eur_kwh r = 0"
    by (simp add: fila_anual_tarifa_def Let_def)
  have d: "calcular_costes_anuales_por_tarifa srt df tarifas pv pp \<noteq> Inl ZeroDivisionError"
    by (simp add: annual_eq)
  have e: "calcular_mejor_tarifa_por_mes df tarifas pv pp \<noteq> Inl ZeroDivisionError"
    by (simp add: monthly_eq)
  have f: "coste_medio_eur_kwh (fila_base row) = 0"
    if ok: "sort_values_ok srt"
      and eq: "calcular_costes_anuales_por_tarifa srt df tarifas pv pp = Inr tabla"
      and row: "row \<in> set tabla" and z: "kwh_anuales (fila_base row) = 0"
  proof -
    obtain tr where "tr \<in> set tarifas" and r: "fila_base row = fila_anual_val df pv pp tr"
      using annual_base_in(2) [OF ok eq row] by blast
    from z have "sum_list (map kwh df) = 0" by (simp add: r)
    then show ?thesis by (simp add: r)
  qed
  show ?thesis using a b c d e f by blast
qed

theorem zero_safe_division_witness:
  "(4::real) \<noteq> 0 \<and> safe_pct 1 4 = Inr 25 \<and> safe_pct 7 0 = Inr 0 \<and>
   sort_values_ok (sort_key :: (fila_anual \<Rightarrow> real) \<Rightarrow> fila_anual list \<Rightarrow> fila_anual list) \<and>
   (\<exists>row.
     calcular_costes_anuales_por_tarifa sort_key [] [tarifa_a] 3 4 = Inr [row] \<and>
     row \<in> set [row] \<and>
     coste_total_anual (fila_base row) = 132 \<and>
     kwh_anuales (fila_base row) = 0 \<and>
     coste_medio_eur_kwh (fila_base row) = 0)"
proof -
  define row where "row = (((fila_anual_val [] 3 4 tarifa_a,
      kpis_val [132] 132), pct_val 0 132 132), dist_val 0 0 0 0)"
  have ev: "calcular_costes_anuales_por_tarifa sort_key [] [tarifa_a] 3 4 = Inr [row]"
    by (simp add: annual_eq energy_cost_eq kwh_by_period_def power_cost_def tarifa_a_def
        median_def row_def)
  have z: "kwh_anuales (fila_base row) = 0" by (simp add: row_def)
  have tot: "coste_total_anual (fila_base row) = 132"
    by (simp add: row_def energy_cost_eq kwh_by_period_def power_cost_def tarifa_a_def)
  have ok: "sort_values_ok (sort_key :: (fila_anual \<Rightarrow> real) \<Rightarrow> fila_anual list \<Rightarrow> fila_anual list)"
    by (rule sort_key_ok)
  have "coste_medio_eur_kwh (fila_base row) = 0"
    using zero_safe_division [of 1 4 0 0 0 0 3 4 tarifa_a sort_key "[]" "[tarifa_a]" "[row]" row]
      ok ev z by simp
  moreover have "safe_pct 1 4 = Inr 25" "safe_pct 7 0 = Inr 0"
    using zero_safe_division [of 1 4] zero_safe_division [of 7] by simp_all
  ultimately show ?thesis using ev z tot ok by auto
qed

subsection \<open>The scenario of the specification\<close>

text \<open>
  Claim C9. A single record of 100 kWh at hour 12 of a day that is not a weekend is
  classified \<open>punta_LV\<close>. With a single tariff of unit prices 0.20, 0.15, 0.10 and 0.08
  and power charges of 0, the annual table has one row, whose energy cost is 20, power
  cost 0, total cost 20 and energy share 100, whatever the contracted powers.
\<close>

theorem scenario_peak_hour_100_kwh:
  assumes "sort_values_ok srt"
    and "hour ts = 12"
    and "punta_LV t = 0.20" and "llano_LV t = 0.15" and "valle_LV t = 0.10" and "valle_SD t = 0.08"
    and "potencia_mes_valle t = 0" and "potencia_mes_punta_llano t = 0"
  shows "clasificar_periodo [ts] [False] = Inr [''punta_LV''] \<and>
    (\<exists>row. calcular_costes_anuales_por_tarifa srt
              [\<lparr>timestamp = ts, kwh = 100, es_fin_semana = False\<rparr>] [t] pv pp = Inr [row] \<and>
           coste_energia_anual (fila_base row) = 20 \<and>
           coste_potencia_anual (fila_base row) = 0 \<and>
           coste_total_anual (fila_base row) = 20 \<and>
           pct_coste_energia (fila_pct row) = 100)"
proof -
  let ?df = "[\<lparr>timestamp = ts, kwh = 100, es_fin_semana = False\<rparr>]"
  have c: "clasificar_periodo [ts] [False] = Inr [''punta_LV'']"
    using assms(2) by (simp add: clasificar_periodo_map2 classify_def)
  have k: "kwh_by_period ?df ''punta_LV'' = 100" "kwh_by_period ?df ''llano_LV'' = 0"
    "kwh_by_period ?df ''valle_LV'' = 0" "kwh_by_period ?df ''valle_SD'' = 0"
    using assms(2) by (simp_all add: kwh_by_period_def periodo_registro_def classify_def)
  have e: "energy_cost ?df t = 20"
    unfolding energy_cost_eq k using assms(3) by simp
  have p: "power_cost t pv pp 12 = 0"
    using assms(7,8) by (simp add: power_cost_def)
  obtain tabla where eq: "calcular_costes_anuales_por_tarifa srt ?df [t] pv pp = Inr tabla"
    using annual_success [of "[t]" srt ?df pv pp] by auto
  have "map fila_base tabla = srt coste_total_anual (map (fila_anual_val ?df pv pp) [t])"
    using eq by (rule annual_Inr(2))
  also have "\<dots> = [fila_anual_val ?df pv pp t]"
    by (simp only: list.map) (rule sort_values_ok_single [OF assms(1)])
  finally obtain row where tabla: "tabla = [row]"
    and b: "fila_base row = fila_anual_val ?df pv pp t"
    by (auto simp only: map_eq_Cons_conv map_is_Nil_conv)
  have pc: "fila_pct row = pct_val (coste_energia_anual (fila_base row))
      (coste_potencia_anual (fila_base row)) (coste_total_anual (fila_base row))"
    using annual_Inr(3) [OF eq, of row] tabla by simp
  have "coste_energia_anual (fila_base row) = 20" "coste_potencia_anual (fila_base row) = 0"
    "coste_total_anual (fila_base row) = 20"
    by (simp_all add: b e p)
  then show ?thesis
    using c eq tabla pc by simp
qed

theorem scenario_peak_hour_100_kwh_witness:
  "sort_values_ok (sort_key :: (fila_anual \<Rightarrow> real) \<Rightarrow> fila_anual list \<Rightarrow> fila_anual list) \<and>
   hour \<lparr>year = 2025, month = 1, day = 7, hour = 12, minute = 0\<rparr> = 12 \<and>
   clasificar_periodo [\<lparr>year = 2025, month = 1, day = 7, hour = 12, minute = 0\<rparr>] [False]
     = Inr [''punta_LV''] \<and>
   (\<exists>row. calcular_costes_anuales_por_tarifa sort_key
       [\<lparr>timestamp = \<lparr>year = 2025, month = 1, day = 7, hour = 12, minute = 0\<rparr>,
         kwh = 100, es_fin_semana = False\<rparr>]
       [\<lparr>tarifa_row.comercializadora = ''A'', tarifa_row.tarifa = ''uno'',
         punta_LV = 0.20, llano_LV = 0.15, valle_LV = 0.10, valle_SD = 0.08,
         potencia_mes_valle = 0, potencia_mes_punta_llano = 0\<rparr>] 3 4 = Inr [row] \<and>
     coste_energia_anual (fila_base row) = 20 \<and>
     coste_potencia_anual (fila_base row) = 0 \<and>
     coste_total_anual (fila_base row) = 20 \<and>
     pct_coste_energia (fila_pct row) = 100)"
proof -
  have ok: "sort_values_ok (sort_key :: (fila_anual \<Rightarrow> real) \<Rightarrow> fila_anual list \<Rightarrow> fila_anual list)"
    by (rule sort_key_ok)
  show ?thesis
    using ok scenario_peak_hour_100_kwh [OF ok,
      of "\<lparr>year = 2025, month = 1, day = 7, hour = 12, minute = 0\<rparr>"
         "\<lparr>tarifa_row.comercializadora = ''A'', tarifa_row.tarifa = ''uno'',
           punta_LV = 0.20, llano_LV = 0.15, valle_LV = 0.10, valle_SD = 0.08,
           potencia_mes_valle = 0, potencia_mes_punta_llano = 0\<rparr>" 3 4]
    by simp
qed

subsection \<open>Cost shares\<close>

text \<open>
  Claim C10, as stated, fails for a total that is not 0. With 1 kWh at peak hours and 2 kW
  of off-peak power, the monthly loop stores for tariff \<open>tercios\<close> a row with energy cost 1,
  power cost 2 and total cost 3. Its two shares are the doubles 33.33333333333333 and
  66.66666666666666: their sum is the double 99.99999999999999, below 100, and adding them
  as floats gives that same double.
\<close>

theorem cost_shares_sum_counterexample:
  "bucle_tarifas_mes_f 2025 1 (Val 1) (Val 0) (Val 0) (Val 0) (Val 1) (Val 2) (Val 0)
     [tarifa_tercios] = (Some fila_tercios, [Val 3]) \<and>
   coste_total_mes_f fila_tercios
     = fadd (coste_energia_mes_f fila_tercios) (coste_potencia_mes_f fila_tercios) \<and>
   coste_total_mes_f fila_tercios \<noteq> Val 0 \<and>
   anadir_pct_energia_potencia_f [fila_tercios]
       coste_energia_mes_f coste_potencia_mes_f coste_total_mes_f
     = Inr [(fila_tercios,
             \<lparr>pct_coste_energia_f = Val (2345624805922133 / 70368744177664),
              pct_coste_potencia_f = Val (2345624805922133 / 35184372088832)\<rparr>)] \<and>
   fadd (Val (2345624805922133 / 70368744177664)) (Val (2345624805922133 / 35184372088832))
     = Val (7036874417766399 / 70368744177664) \<and>
   (2345624805922133 / 70368744177664 + 2345624805922133 / 35184372088832 :: real)
     = 7036874417766399 / 70368744177664 \<and>
   (7036874417766399 / 70368744177664 :: real) < 100"
proof -
  have b: "bucle_tarifas_mes_f 2025 1 (Val 1) (Val 0) (Val 0) (Val 0) (Val 1) (Val 2) (Val 0)
     [tarifa_tercios] = (Some fila_tercios, [Val 3])"
    by (simp add: bucle_tarifas_mes_f_def paso_tarifa_mes_f_def Let_def calc_energia_f_def
        calc_potencia_mes_f_def tarifa_tercios_def fila_tercios_def rnd_0 rnd_ejemplos)
  have t: "coste_total_mes_f fila_tercios
     = fadd (coste_energia_mes_f fila_tercios) (coste_potencia_mes_f fila_tercios)"
    by (simp add: fila_tercios_def rnd_ejemplos)
  have n: "coste_total_mes_f fila_tercios \<noteq> Val 0" by (simp add: fila_tercios_def)
  have p: "anadir_pct_energia_potencia_f [fila_tercios]
       coste_energia_mes_f coste_potencia_mes_f coste_total_mes_f
     = Inr [(fila_tercios,
             \<lparr>pct_coste_energia_f = Val (2345624805922133 / 70368744177664),
              pct_coste_potencia_f = Val (2345624805922133 / 35184372088832)\<rparr>)]"
    by (simp add: anadir_pct_energia_potencia_f_def safe_pct_f_def fila_tercios_def rnd_ejemplos)
  have s: "fadd (Val (2345624805922133 / 70368744177664)) (Val (2345624805922133 / 35184372088832))
     = Val (7036874417766399 / 70368744177664)"
    by (simp add: rnd_ejemplos)
  have r: "(2345624805922133 / 70368744177664 + 2345624805922133 / 35184372088832 :: real)
     = 7036874417766399 / 70368744177664" by simp
  have l: "(7036874417766399 / 70368744177664 :: real) < 100" by simp
  show ?thesis using b t n p s r l by (intro conjI)
qed

text \<open>
  Claim C10, amended. \<open>_anadir_pct_energia_potencia\<close> always returns, with the rows of its
  table in their order. In a row whose total cost is 0 both shares are 0. In a row whose
  energy and power costs are numbers that are not negative and whose total cost is their
  float sum and is not 0, the two shares are numbers whose sum is within
  \<open>100 / 2 ^ 51\<close> of 100. The rows of both tables are such rows: for kWh sums, contracted
  powers and a tariff that are not negative, the annual loop body and the monthly loop
  compute costs that are not negative, and a total that is their float sum.
\<close>

theorem cost_shares_sum_near_100:
  "(\<exists>out. anadir_pct_energia_potencia_f df ce cp ct = Inr out \<and> map fst out = df \<and>
      (\<forall>(r, pc) \<in> set out.
         (ct r = Val 0 \<longrightarrow> pct_coste_energia_f pc = Val 0 \<and> pct_coste_potencia_f pc = Val 0) \<and>
         (no_negativo (ce r) \<and> no_negativo (cp r) \<and> ct r = fadd (ce r) (cp r) \<and> ct r \<noteq> Val 0 \<longrightarrow>
            (\<exists>a b. pct_coste_energia_f pc = Val a \<and> pct_coste_potencia_f pc = Val b \<and>
               \<bar>a + b - 100\<bar> \<le> 100 / 2 ^ 51)))) \<and>
   (no_negativo k1 \<and> no_negativo k2 \<and> no_negativo k3 \<and> no_negativo k4 \<and>
    no_negativo pv \<and> no_negativo pp \<and> tarifa_no_negativa t \<longrightarrow>
      (\<exists>ra. fila_anual_tarifa_f k1 k2 k3 k4 tk pv pp t = Inr ra \<and>
         no_negativo (coste_energia_anual_f ra) \<and> no_negativo (coste_potencia_anual_f ra) \<and>
         coste_total_anual_f ra = fadd (coste_energia_anual_f ra) (coste_potencia_anual_f ra)) \<and>
      (\<exists>m c. paso_tarifa_mes_f anio' mes' k1 k2 k3 k4 tk pv pp t (None, []) = (Some m, [c]) \<and>
         no_negativo (coste_energia_mes_f m) \<and> no_negativo (coste_potencia_mes_f m) \<and>
         coste_total_mes_f m = fadd (coste_energia_mes_f m) (coste_potencia_mes_f m)))"
proof -
  define out where "out = map (\<lambda>r. (r, \<lparr>pct_coste_energia_f = projr (safe_pct_f (ce r) (ct r)),
                         pct_coste_potencia_f = projr (safe_pct_f (cp r) (ct r))\<rparr>)) df"
  have o: "anadir_pct_energia_potencia_f df ce cp ct = Inr out"
    unfolding out_def by (rule anadir_pct_energia_potencia_f_eq)
  have f: "map fst out = df" by (simp add: out_def comp_def)
  have rows: "\<forall>(r, pc) \<in> set out.
         (ct r = Val 0 \<longrightarrow> pct_coste_energia_f pc = Val 0 \<and> pct_coste_potencia_f pc = Val 0) \<and>
         (no_negativo (ce r) \<and> no_negativo (cp r) \<and> ct r = fadd (ce r) (cp r) \<and> ct r \<noteq> Val 0 \<longrightarrow>
            (\<exists>a b. pct_coste_energia_f pc = Val a \<and> pct_coste_potencia_f pc = Val b \<and>
               \<bar>a + b - 100\<bar> \<le> 100 / 2 ^ 51))"
  proof (intro ballI, clarify, intro conjI impI)
    fix r pc assume "(r, pc) \<in> set out"
    then have pc: "pct_coste_energia_f pc = projr (safe_pct_f (ce r) (ct r))"
      "pct_coste_potencia_f pc = projr (safe_pct_f (cp r) (ct r))"
      by (auto simp: out_def)
    {
      assume "ct r = Val 0"
      then show "pct_coste_energia_f pc = Val 0" "pct_coste_potencia_f pc = Val 0"
        by (simp_all add: pc safe_pct_f_zero)
    }
    assume h: "no_negativo (ce r) \<and> no_negativo (cp r) \<and> ct r = fadd (ce r) (cp r) \<and> ct r \<noteq> Val 0"
    then have e: "no_negativo (ce r)" and p: "no_negativo (cp r)"
      and c: "ct r = fadd (ce r) (cp r)" by blast+
    have n: "fadd (ce r) (cp r) \<noteq> Val 0" using h unfolding c by blast
    obtain a b where "safe_pct_f (ce r) (fadd (ce r) (cp r)) = Inr (Val a)"
      "safe_pct_f (cp r) (fadd (ce r) (cp r)) = Inr (Val b)"
      "\<bar>a + b - 100\<bar> \<le> 100 / 2 ^ 51"
      using shares_of_total_f [OF e p] n by blast
    then show "\<exists>a b. pct_coste_energia_f pc = Val a \<and> pct_coste_potencia_f pc = Val b \<and>
               \<bar>a + b - 100\<bar> \<le> 100 / 2 ^ 51"
      unfolding pc c by (intro exI [of _ a] exI [of _ b]) simp
  qed
  have first: "\<exists>out. anadir_pct_energia_potencia_f df ce cp ct = Inr out \<and> map fst out = df \<and>
      (\<forall>(r, pc) \<in> set out.
         (ct r = Val 0 \<longrightarrow> pct_coste_energia_f pc = Val 0 \<and> pct_coste_potencia_f pc = Val 0) \<and>
         (no_negativo (ce r) \<and> no_negativo (cp r) \<and> ct r = fadd (ce r) (cp r) \<and> ct r \<noteq> Val 0 \<longrightarrow>
            (\<exists>a b. pct_coste_energia_f pc = Val a \<and> pct_coste_potencia_f pc = Val b \<and>
               \<bar>a + b - 100\<bar> \<le> 100 / 2 ^ 51)))"
    using o f rows by (intro exI [of _ out] conjI)
  have second: "(\<exists>ra. fila_anual_tarifa_f k1 k2 k3 k4 tk pv pp t = Inr ra \<and>
         no_negativo (coste_energia_anual_f ra) \<and> no_negativo (coste_potencia_anual_f ra) \<and>
         coste_total_anual_f ra = fadd (coste_energia_anual_f ra) (coste_potencia_anual_f ra)) \<and>
      (\<exists>m c. paso_tarifa_mes_f anio' mes' k1 k2 k3 k4 tk pv pp t (None, []) = (Some m, [c]) \<and>
         no_negativo (coste_energia_mes_f m) \<and> no_negativo (coste_potencia_mes_f m) \<and>
         coste_total_mes_f m = fadd (coste_energia_mes_f m) (coste_potencia_mes_f m))"
    if h: "no_negativo k1 \<and> no_negativo k2 \<and> no_negativo k3 \<and> no_negativo k4 \<and>
      no_negativo pv \<and> no_negativo pp \<and> tarifa_no_negativa t"
  proof -
    have e: "no_negativo (calc_energia_f k1 k2 k3 k4 t)"
      using h by (intro calc_energia_f_no_negativo) simp_all
    have pa: "no_negativo (calc_potencia_anual_f pv pp t)"
      using h by (intro calc_potencia_anual_f_no_negativo) simp_all
    have pm: "no_negativo (calc_potencia_mes_f pv pp t)"
      using h by (intro calc_potencia_mes_f_no_negativo) simp_all
    obtain ra where ra: "fila_anual_tarifa_f k1 k2 k3 k4 tk pv pp t = Inr ra"
      and "coste_energia_anual_f ra = calc_energia_f k1 k2 k3 k4 t"
      and "coste_potencia_anual_f ra = calc_potencia_anual_f pv pp t"
      and "coste_total_anual_f ra
        = fadd (calc_energia_f k1 k2 k3 k4 t) (calc_potencia_anual_f pv pp t)"
      using fila_anual_tarifa_f_Inr [of k1 k2 k3 k4 tk pv pp t] by force
    then have an: "\<exists>ra. fila_anual_tarifa_f k1 k2 k3 k4 tk pv pp t = Inr ra \<and>
         no_negativo (coste_energia_anual_f ra) \<and> no_negativo (coste_potencia_anual_f ra) \<and>
         coste_total_anual_f ra = fadd (coste_energia_anual_f ra) (coste_potencia_anual_f ra)"
      using e pa by (intro exI [of _ ra]) simp
    have st: "paso_tarifa_mes_f anio' mes' k1 k2 k3 k4 tk pv pp t (None, [])
        = (Some (fila_mes_f_val anio' mes' k1 k2 k3 k4 tk pv pp t),
           [calc_total_mes_f k1 k2 k3 k4 pv pp t])"
      by (simp add: paso_tarifa_mes_f_eq)
    have me: "\<exists>m c. paso_tarifa_mes_f anio' mes' k1 k2 k3 k4 tk pv pp t (None, []) = (Some m, [c]) \<and>
         no_negativo (coste_energia_mes_f m) \<and> no_negativo (coste_potencia_mes_f m) \<and>
         coste_total_mes_f m = fadd (coste_energia_mes_f m) (coste_potencia_mes_f m)"
      unfolding st using e pm
      by (intro exI [of _ "fila_mes_f_val anio' mes' k1 k2 k3 k4 tk pv pp t"]
          exI [of _ "calc_total_mes_f k1 k2 k3 k4 pv pp t"])
        (simp add: fila_mes_f_val_def calc_total_mes_f_def)
    show ?thesis using an me by (rule conjI)
  qed
  show ?thesis using first second by blast
qed

theorem cost_shares_sum_near_100_witness:
  "no_negativo (coste_energia_mes_f fila_tercios) \<and>
   no_negativo (coste_potencia_mes_f fila_tercios) \<and>
   coste_total_mes_f fila_tercios
     = fadd (coste_energia_mes_f fila_tercios) (coste_potencia_mes_f fila_tercios) \<and>
   coste_total_mes_f fila_tercios \<noteq> Val 0 \<and>
   no_negativo (Val 1) \<and> no_negativo (Val 0) \<and> no_negativo (Val 2) \<and>
   tarifa_no_negativa tarifa_tercios \<and>
   (\<exists>a b. anadir_pct_energia_potencia_f [fila_tercios]
              coste_energia_mes_f coste_potencia_mes_f coste_total_mes_f
            = Inr [(fila_tercios, \<lparr>pct_coste_energia_f = Val a, pct_coste_potencia_f = Val b\<rparr>)] \<and>
      \<bar>a + b - 100\<bar> \<le> 100 / 2 ^ 51 \<and> a + b \<noteq> 100) \<and>
   (\<exists>c. paso_tarifa_mes_f 2025 1 (Val 1) (Val 0) (Val 0) (Val 0) (Val 1) (Val 2) (Val 0)
           tarifa_tercios (None, []) = (Some fila_tercios, [c]))"
proof -
  have e: "no_negativo (coste_energia_mes_f fila_tercios)"
    and p: "no_negativo (coste_potencia_mes_f fila_tercios)"
    and n: "coste_total_mes_f fila_tercios \<noteq> Val 0"
    and v: "no_negativo (Val 1)" "no_negativo (Val 0)" "no_negativo (Val 2)"
    by (simp_all add: fila_tercios_def no_negativo_def)
  have t: "coste_total_mes_f fila_tercios
     = fadd (coste_energia_mes_f fila_tercios) (coste_potencia_mes_f fila_tercios)"
    by (simp add: fila_tercios_def rnd_ejemplos)
  have tn: "tarifa_no_negativa tarifa_tercios"
    by (simp add: tarifa_no_negativa_def tarifa_tercios_def no_negativo_def)
  have ev: "anadir_pct_energia_potencia_f [fila_tercios]
       coste_energia_mes_f coste_potencia_mes_f coste_total_mes_f
     = Inr [(fila_tercios,
             \<lparr>pct_coste_energia_f = Val (2345624805922133 / 70368744177664),
              pct_coste_potencia_f = Val (2345624805922133 / 35184372088832)\<rparr>)]"
    by (simp add: anadir_pct_energia_potencia_f_def safe_pct_f_def fila_tercios_def rnd_ejemplos)
  note inst = cost_shares_sum_near_100 [of "[fila_tercios]" coste_energia_mes_f
    coste_potencia_mes_f coste_total_mes_f "Val 1" "Val 0" "Val 0" "Val 0" "Val 2" "Val 0"
    tarifa_tercios "Val 1" 2025 1]
  have "\<exists>a b. Val (2345624805922133 / 70368744177664) = Val a \<and>
      Val (2345624805922133 / 35184372088832) = Val b \<and> \<bar>a + b - 100\<bar> \<le> 100 / 2 ^ 51"
    using inst [THEN conjunct1] e p t n unfolding ev by auto
  then have bound: "\<bar>2345624805922133 / 70368744177664 + 2345624805922133 / 35184372088832
      - 100\<bar> \<le> (100 / 2 ^ 51 :: real)" by blast
  have shares: "\<exists>a b. anadir_pct_energia_potencia_f [fila_tercios]
              coste_energia_mes_f coste_potencia_mes_f coste_total_mes_f
            = Inr [(fila_tercios, \<lparr>pct_coste_energia_f = Val a, pct_coste_potencia_f = Val b\<rparr>)] \<and>
      \<bar>a + b - 100\<bar> \<le> 100 / 2 ^ 51 \<and> a + b \<noteq> 100"
    unfolding ev using bound
    by (intro exI [of _ "2345624805922133 / 70368744177664"]
        exI [of _ "2345624805922133 / 35184372088832"]) simp
  have st: "\<exists>c. paso_tarifa_mes_f 2025 1 (Val 1) (Val 0) (Val 0) (Val 0) (Val 1) (Val 2) (Val 0)
           tarifa_tercios (None, []) = (Some fila_tercios, [c])"
    by (simp add: paso_tarifa_mes_f_def Let_def calc_energia_f_def
        calc_potencia_mes_f_def tarifa_tercios_def fila_tercios_def rnd_0 rnd_ejemplos)
  show ?thesis using e p t n v tn shares st by (intro conjI)
qed

subsection \<open>Period totals\<close>

text \<open>
  Claim C8. In every row of the annual table the four kWh columns by period add up to
  \<open>kwh_anuales\<close>, which is the sum of the kWh of all the records; each column is the sum
  over the records of its period, and each percentage is taken over that total. In every
  row of the monthly table the same holds for the records of the row's year and month and
  \<open>kwh_mes\<close>.
\<close>

theorem period_sums_add_up:
  "(sort_values_ok srt \<longrightarrow>
    calcular_costes_anuales_por_tarifa srt df tarifas pv pp = Inr tabla \<longrightarrow>
    row \<in> set tabla \<longrightarrow>
      kwh_punta_LV (fila_dist row) + kwh_llano_LV (fila_dist row)
        + kwh_valle_LV (fila_dist row) + kwh_valle_SD (fila_dist row)
        = kwh_anuales (fila_base row) \<and>
      kwh_anuales (fila_base row) = sum_list (map kwh df) \<and>
      kwh_punta_LV (fila_dist row) = kwh_by_period df ''punta_LV'' \<and>
      kwh_llano_LV (fila_dist row) = kwh_by_period df ''llano_LV'' \<and>
      kwh_valle_LV (fila_dist row) = kwh_by_period df ''valle_LV'' \<and>
      kwh_valle_SD (fila_dist row) = kwh_by_period df ''valle_SD'' \<and>
      pct_kwh_punta_LV (fila_dist row) = pct (kwh_punta_LV (fila_dist row)) (sum_list (map kwh df)) \<and>
      pct_kwh_llano_LV (fila_dist row) = pct (kwh_llano_LV (fila_dist row)) (sum_list (map kwh df)) \<and>
      pct_kwh_valle_LV (fila_dist row) = pct (kwh_valle_LV (fila_dist row)) (sum_list (map kwh df)) \<and>
      pct_kwh_valle_SD (fila_dist row) = pct (kwh_valle_SD (fila_dist row)) (sum_list (map kwh df))) \<and>
   (calcular_mejor_tarifa_por_mes df tarifas pv pp = Inr tabla_mes \<longrightarrow>
    row_mes \<in> set tabla_mes \<longrightarrow>
      kwh_punta_LV (fila_dist row_mes) + kwh_llano_LV (fila_dist row_mes)
        + kwh_valle_LV (fila_dist row_mes) + kwh_valle_SD (fila_dist row_mes)
        = kwh_mes (fila_base row_mes) \<and>
      kwh_mes (fila_base row_mes) =
        sum_list (map kwh (registros_mes df (anio (fila_base row_mes), mes (fila_base row_mes)))) \<and>
      kwh_punta_LV (fila_dist row_mes) =
        kwh_by_period (registros_mes df (anio (fila_base row_mes), mes (fila_base row_mes))) ''punta_LV'' \<and>
      kwh_llano_LV (fila_dist row_mes) =
        kwh_by_period (registros_mes df (anio (fila_base row_mes), mes (fila_base row_mes))) ''llano_LV'' \<and>
      kwh_valle_LV (fila_dist row_mes) =
        kwh_by_period (registros_mes df (anio (fila_base row_mes), mes (fila_base row_mes))) ''valle_LV'' \<and>
      kwh_valle_SD (fila_dist row_mes) =
        kwh_by_period (registros_mes df (anio (fila_base row_mes), mes (fila_base row_mes))) ''valle_SD'' \<and>
      pct_kwh_punta_LV (fila_dist row_mes) = pct (kwh_punta_LV (fila_dist row_mes)) (kwh_mes (fila_base row_mes)) \<and>
      pct_kwh_llano_LV (fila_dist row_mes) = pct (kwh_llano_LV (fila_dist row_mes)) (kwh_mes (fila_base row_mes)) \<and>
      pct_kwh_valle_LV (fila_dist row_mes) = pct (kwh_valle_LV (fila_dist row_mes)) (kwh_mes (fila_base row_mes)) \<and>
      pct_kwh_valle_SD (fila_dist row_mes) = pct (kwh_valle_SD (fila_dist row_mes)) (kwh_mes (fila_base row_mes)))"
proof (intro conjI impI)
  assume ok: "sort_values_ok srt"
    and eq: "calcular_costes_anuales_por_tarifa srt df tarifas pv pp = Inr tabla"
    and row: "row \<in> set tabla"
  obtain t where b: "fila_base row = fila_anual_val df pv pp t"
    using annual_base_in(2) [OF ok eq row] by blast
  have d: "fila_dist row = dist_val (kwh_by_period df ''punta_LV'') (kwh_by_period df ''llano_LV'')
                           (kwh_by_period df ''valle_LV'') (kwh_by_period df ''valle_SD'')"
    using annual_Inr(3) [OF eq row] by simp
  show "kwh_anuales (fila_base row) = sum_list (map kwh df)" by (simp add: b)
  show "kwh_punta_LV (fila_dist row) + kwh_llano_LV (fila_dist row)
        + kwh_valle_LV (fila_dist row) + kwh_valle_SD (fila_dist row)
        = kwh_anuales (fila_base row)"
    by (simp add: b d kwh_by_period_total)
  show "kwh_punta_LV (fila_dist row) = kwh_by_period df ''punta_LV''"
    "kwh_llano_LV (fila_dist row) = kwh_by_period df ''llano_LV''"
    "kwh_valle_LV (fila_dist row) = kwh_by_period df ''valle_LV''"
    "kwh_valle_SD (fila_dist row) = kwh_by_period df ''valle_SD''"
    by (simp_all add: d)
  show "pct_kwh_punta_LV (fila_dist row) = pct (kwh_punta_LV (fila_dist row)) (sum_list (map kwh df))"
    "pct_kwh_llano_LV (fila_dist row) = pct (kwh_llano_LV (fila_dist row)) (sum_list (map kwh df))"
    "pct_kwh_valle_LV (fila_dist row) = pct (kwh_valle_LV (fila_dist row)) (sum_list (map kwh df))"
    "pct_kwh_valle_SD (fila_dist row) = pct (kwh_valle_SD (fila_dist row)) (sum_list (map kwh df))"
    unfolding d kwh_by_period_total [of df, symmetric] by simp_all
next
  assume eq: "calcular_mejor_tarifa_por_mes df tarifas pv pp = Inr tabla_mes"
    and row: "row_mes \<in> set tabla_mes"
  define g where "g = registros_mes df (anio (fila_base row_mes), mes (fila_base row_mes))"
  define best where "best = arg_min_list (\<lambda>t. energy_cost g t + power_cost t pv pp 1) tarifas"
  have b: "fila_base row_mes = fila_mes_val g pv pp (anio (fila_base row_mes), mes (fila_base row_mes)) best"
    and d: "fila_dist row_mes = dist_val (kwh_by_period g ''punta_LV'') (kwh_by_period g ''llano_LV'')
                           (kwh_by_period g ''valle_LV'') (kwh_by_period g ''valle_SD'')"
    using monthly_Inr(4) [OF eq row] unfolding Let_def g_def best_def by simp_all
  have km: "kwh_mes (fila_base row_mes) = sum_list (map kwh g)"
    by (subst b) simp
  show "kwh_mes (fila_base row_mes) =
        sum_list (map kwh (registros_mes df (anio (fila_base row_mes), mes (fila_base row_mes))))"
    using km by (simp add: g_def)
  show "kwh_punta_LV (fila_dist row_mes) + kwh_llano_LV (fila_dist row_mes)
        + kwh_valle_LV (fila_dist row_mes) + kwh_valle_SD (fila_dist row_mes)
        = kwh_mes (fila_base row_mes)"
    unfolding km by (simp add: d kwh_by_period_total)
  show "kwh_punta_LV (fila_dist row_mes) =
        kwh_by_period (registros_mes df (anio (fila_base row_mes), mes (fila_base row_mes))) ''punta_LV''"
    "kwh_llano_LV (fila_dist row_mes) =
        kwh_by_period (registros_mes df (anio (fila_base row_mes), mes (fila_base row_mes))) ''llano_LV''"
    "kwh_valle_LV (fila_dist row_mes) =
        kwh_by_period (registros_mes df (anio (fila_base row_mes), mes (fila_base row_mes))) ''valle_LV''"
    "kwh_valle_SD (fila_dist row_mes) =
        kwh_by_period (registros_mes df (anio (fila_base row_mes), mes (fila_base row_mes))) ''valle_SD''"
    by (simp_all add: d g_def)
  show "pct_kwh_punta_LV (fila_dist row_mes) = pct (kwh_punta_LV (fila_dist row_mes)) (kwh_mes (fila_base row_mes))"
    "pct_kwh_llano_LV (fila_dist row_mes) = pct (kwh_llano_LV (fila_dist row_mes)) (kwh_mes (fila_base row_mes))"
    "pct_kwh_valle_LV (fila_dist row_mes) = pct (kwh_valle_LV (fila_dist row_mes)) (kwh_mes (fila_base row_mes))"
    "pct_kwh_valle_SD (fila_dist row_mes) = pct (kwh_valle_SD (fila_dist row_mes)) (kwh_mes (fila_base row_mes))"
    unfolding km d kwh_by_period_total [of g, symmetric] by simp_all
qed

theorem period_sums_add_up_witness:
  "sort_values_ok (sort_key :: (fila_anual \<Rightarrow> real) \<Rightarrow> fila_anual list \<Rightarrow> fila_anual list) \<and>
   calcular_costes_anuales_por_tarifa sort_key consumo_ej [tarifa_a, tarifa_b] 3 4 = Inr ranking_ej \<and>
   ranking_ej ! 1 \<in> set ranking_ej \<and>
   kwh_punta_LV (fila_dist (ranking_ej ! 1)) + kwh_llano_LV (fila_dist (ranking_ej ! 1))
     + kwh_valle_LV (fila_dist (ranking_ej ! 1)) + kwh_valle_SD (fila_dist (ranking_ej ! 1)) = 180 \<and>
   kwh_anuales (fila_base (ranking_ej ! 1)) = 180 \<and>
   sum_list (map kwh consumo_ej) = 180 \<and>
   calcular_mejor_tarifa_por_mes consumo_ej [tarifa_a, tarifa_b] 3 4 = Inr mejor_mes_ej \<and>
   mejor_mes_ej ! 0 \<in> set mejor_mes_ej \<and>
   kwh_punta_LV (fila_dist (mejor_mes_ej ! 0)) + kwh_llano_LV (fila_dist (mejor_mes_ej ! 0))
     + kwh_valle_LV (fila_dist (mejor_mes_ej ! 0)) + kwh_valle_SD (fila_dist (mejor_mes_ej ! 0)) = 150 \<and>
   kwh_mes (fila_base (mejor_mes_ej ! 0)) = 150 \<and>
   sum_list (map kwh (registros_mes consumo_ej (2025, 1))) = 150"
proof -
  have ok: "sort_values_ok (sort_key :: (fila_anual \<Rightarrow> real) \<Rightarrow> fila_anual list \<Rightarrow> fila_anual list)"
    by (rule sort_key_ok)
  have r: "ranking_ej ! 1 \<in> set ranking_ej" by (simp add: ranking_ej_def)
  have m: "mejor_mes_ej ! 0 \<in> set mejor_mes_ej" by (simp add: mejor_mes_ej_def)
  have a: "kwh_anuales (fila_base (ranking_ej ! 1)) = 180" by (simp add: ranking_ej_def)
  have k: "kwh_mes (fila_base (mejor_mes_ej ! 0)) = 150"
    "(anio (fila_base (mejor_mes_ej ! 0)), mes (fila_base (mejor_mes_ej ! 0))) = (2025, 1)"
    by (simp_all add: mejor_mes_ej_def)
  show ?thesis
    using period_sums_add_up [of sort_key consumo_ej "[tarifa_a, tarifa_b]" 3 4 ranking_ej
        "ranking_ej ! 1" mejor_mes_ej "mejor_mes_ej ! 0"]
      ok ranking_ej_eq mejor_mes_ej_eq r m a k
    by simp
qed

subsection \<open>Selection of the best tariff of a month\<close>




subsection \<open>Cost breakdown\<close>

text \<open>
  Claim C3. The kWh that the code reads from the dictionary of group sums, with default
  0, are the kWh of the window by period, and a period without records contributes 0. The
  annual table holds, for every tariff of the catalog, one row with the energy cost of the
  specification (the sum over the four periods of kWh times unit price), the power cost
  (the two monthly charges times the contracted powers) times 12, and their sum as total.
  Every row of the monthly table is that of a tariff of the catalog, with the energy cost
  of the records of the month, the power cost times 1, and their sum as total; the worst
  cost of the month is the maximum of those totals over all the tariffs.
\<close>

theorem cost_breakdown_per_tariff:
  "dict_get (groupby_sum (zip (map periodo_registro df) (map kwh df))) p 0 = kwh_by_period df p \<and>
   ((\<forall>c \<in> set df. periodo_registro c \<noteq> p) \<longrightarrow> kwh_by_period df p = 0) \<and>
   (sort_values_ok srt \<longrightarrow>
    calcular_costes_anuales_por_tarifa srt df tarifas pv pp = Inr tabla \<longrightarrow>
      mset (map (\<lambda>row. (fila_anual.comercializadora (fila_base row),
                          fila_anual.tarifa (fila_base row),
                          coste_energia_anual (fila_base row),
                          coste_potencia_anual (fila_base row),
                          coste_total_anual (fila_base row))) tabla) =
      mset (map (\<lambda>t. (tarifa_row.comercializadora t, tarifa_row.tarifa t,
                        energy_cost df t,
                        (potencia_mes_valle t * pv + potencia_mes_punta_llano t * pp) * 12,
                        energy_cost df t
                          + (potencia_mes_valle t * pv + potencia_mes_punta_llano t * pp) * 12))
                tarifas)) \<and>
   (calcular_mejor_tarifa_por_mes df tarifas pv pp = Inr tabla_mes \<longrightarrow>
    row_mes \<in> set tabla_mes \<longrightarrow>
      (let g = registros_mes df (anio (fila_base row_mes), mes (fila_base row_mes))
       in (\<exists>t \<in> set tarifas.
             fila_mes.comercializadora (fila_base row_mes) = tarifa_row.comercializadora t \<and>
             fila_mes.tarifa (fila_base row_mes) = tarifa_row.tarifa t \<and>
             coste_energia_mes (fila_base row_mes) = energy_cost g t \<and>
             coste_potencia_mes (fila_base row_mes) =
               (potencia_mes_valle t * pv + potencia_mes_punta_llano t * pp) * 1 \<and>
             coste_total_mes (fila_base row_mes) =
               coste_energia_mes (fila_base row_mes) + coste_potencia_mes (fila_base row_mes)) \<and>
          ref_peor_coste_total (fila_kpis row_mes) =
            Max (set (map (\<lambda>t. energy_cost g t
                   + (potencia_mes_valle t * pv + potencia_mes_punta_llano t * pp) * 1) tarifas))))"
proof (intro conjI impI)
  show "dict_get (groupby_sum (zip (map periodo_registro df) (map kwh df))) p 0 = kwh_by_period df p"
    by (rule kwh_by_period_get)
next
  assume "\<forall>c \<in> set df. periodo_registro c \<noteq> p"
  then have "filter (\<lambda>c. periodo_registro c = p) df = []"
    by (simp add: filter_empty_conv)
  then show "kwh_by_period df p = 0" by (simp add: kwh_by_period_def)
next
  assume ok: "sort_values_ok srt"
    and eq: "calcular_costes_anuales_por_tarifa srt df tarifas pv pp = Inr tabla"
  let ?f = "\<lambda>r. (fila_anual.comercializadora r, fila_anual.tarifa r,
                 coste_energia_anual r, coste_potencia_anual r, coste_total_anual r)"
  have "mset (map ?f (map fila_base tabla)) = mset (map ?f (map (fila_anual_val df pv pp) tarifas))"
    using annual_base_in(1) [OF ok eq] by (simp only: mset_map)
  then show "mset (map (\<lambda>row. (fila_anual.comercializadora (fila_base row),
                          fila_anual.tarifa (fila_base row),
                          coste_energia_anual (fila_base row),
                          coste_potencia_anual (fila_base row),
                          coste_total_anual (fila_base row))) tabla) =
      mset (map (\<lambda>t. (tarifa_row.comercializadora t, tarifa_row.tarifa t,
                        energy_cost df t,
                        (potencia_mes_valle t * pv + potencia_mes_punta_llano t * pp) * 12,
                        energy_cost df t
                          + (potencia_mes_valle t * pv + potencia_mes_punta_llano t * pp) * 12))
                tarifas)"
    by (simp add: comp_def power_cost_def)
next
  assume eq: "calcular_mejor_tarifa_por_mes df tarifas pv pp = Inr tabla_mes"
    and row: "row_mes \<in> set tabla_mes"
  define g where "g = registros_mes df (anio (fila_base row_mes), mes (fila_base row_mes))"
  define tot where "tot = (\<lambda>t. energy_cost g t + power_cost t pv pp 1)"
  define best where "best = arg_min_list tot tarifas"
  have ne: "tarifas \<noteq> []" using eq by (rule monthly_Inr(2))
  have b: "fila_base row_mes = fila_mes_val g pv pp (anio (fila_base row_mes), mes (fila_base row_mes)) best"
    and kp: "fila_kpis row_mes = kpis_val (map tot tarifas) (tot best)"
    using monthly_Inr(4) [OF eq row] unfolding Let_def g_def best_def tot_def by simp_all
  have bin: "best \<in> set tarifas"
    unfolding best_def using ne by (rule arg_min_list_in)
  have fields: "fila_mes.comercializadora (fila_base row_mes) = tarifa_row.comercializadora best"
      "fila_mes.tarifa (fila_base row_mes) = tarifa_row.tarifa best"
      "coste_energia_mes (fila_base row_mes) = energy_cost g best"
      "coste_potencia_mes (fila_base row_mes) =
         (potencia_mes_valle best * pv + potencia_mes_punta_llano best * pp) * 1"
      "coste_total_mes (fila_base row_mes) =
         coste_energia_mes (fila_base row_mes) + coste_potencia_mes (fila_base row_mes)"
    by (subst b, simp add: power_cost_def)+
  have peor: "ref_peor_coste_total (fila_kpis row_mes) =
      Max (set (map (\<lambda>t. energy_cost g t
                   + (potencia_mes_valle t * pv + potencia_mes_punta_llano t * pp) * 1) tarifas))"
    unfolding kp tot_def power_cost_def by simp
  show "let g = registros_mes df (anio (fila_base row_mes), mes (fila_base row_mes))
       in (\<exists>t \<in> set tarifas.
             fila_mes.comercializadora (fila_base row_mes) = tarifa_row.comercializadora t \<and>
             fila_mes.tarifa (fila_base row_mes) = tarifa_row.tarifa t \<and>
             coste_energia_mes (fila_base row_mes) = energy_cost g t \<and>
             coste_potencia_mes (fila_base row_mes) =
               (potencia_mes_valle t * pv + potencia_mes_punta_llano t * pp) * 1 \<and>
             coste_total_mes (fila_base row_mes) =
               coste_energia_mes (fila_base row_mes) + coste_potencia_mes (fila_base row_mes)) \<and>
          ref_peor_coste_total (fila_kpis row_mes) =
            Max (set (map (\<lambda>t. energy_cost g t
                   + (potencia_mes_valle t * pv + potencia_mes_punta_llano t * pp) * 1) tarifas))"
    unfolding Let_def g_def [symmetric]
    using bin fields peor by blast
qed

theorem cost_breakdown_per_tariff_witness:
  "sort_values_ok (sort_key :: (fila_anual \<Rightarrow> real) \<Rightarrow> fila_anual list \<Rightarrow> fila_anual list) \<and>
   calcular_costes_anuales_por_tarifa sort_key consumo_ej [tarifa_a, tarifa_b] 3 4 = Inr ranking_ej \<and>
   mset (map (\<lambda>row. (fila_anual.comercializadora (fila_base row),
                       fila_anual.tarifa (fila_base row),
                       coste_energia_anual (fila_base row),
                       coste_potencia_anual (fila_base row),
                       coste_total_anual (fila_base row))) ranking_ej) =
   mset (map (\<lambda>t. (tarifa_row.comercializadora t, tarifa_row.tarifa t,
                     energy_cost consumo_ej t,
                     (potencia_mes_valle t * 3 + potencia_mes_punta_llano t * 4) * 12,
                     energy_cost consumo_ej t
                       + (potencia_mes_valle t * 3 + potencia_mes_punta_llano t * 4) * 12))
             [tarifa_a, tarifa_b]) \<and>
   map (\<lambda>row. (fila_anual.tarifa (fila_base row),
                coste_energia_anual (fila_base row),
                coste_potencia_anual (fila_base row),
                coste_total_anual (fila_base row))) ranking_ej =
     [(''dos'', 22, 132, 154), (''uno'', 27, 132, 159)] \<and>
   kwh_by_period consumo_ej ''llano_LV'' = 0 \<and>
   calcular_mejor_tarifa_por_mes consumo_ej [tarifa_a, tarifa_b] 3 4 = Inr mejor_mes_ej \<and>
   mejor_mes_ej ! 0 \<in> set mejor_mes_ej \<and>
   coste_energia_mes (fila_base (mejor_mes_ej ! 0)) = 19 \<and>
   coste_potencia_mes (fila_base (mejor_mes_ej ! 0)) = 11 \<and>
   coste_total_mes (fila_base (mejor_mes_ej ! 0)) = 30 \<and>
   ref_peor_coste_total (fila_kpis (mejor_mes_ej ! 0)) =
     Max (set (map (\<lambda>t. energy_cost (registros_mes consumo_ej (2025, 1)) t
            + (potencia_mes_valle t * 3 + potencia_mes_punta_llano t * 4) * 1) [tarifa_a, tarifa_b]))"
proof -
  have ok: "sort_values_ok (sort_key :: (fila_anual \<Rightarrow> real) \<Rightarrow> fila_anual list \<Rightarrow> fila_anual list)"
    by (rule sort_key_ok)
  have m: "mejor_mes_ej ! 0 \<in> set mejor_mes_ej" by (simp add: mejor_mes_ej_def)
  have k: "(anio (fila_base (mejor_mes_ej ! 0)), mes (fila_base (mejor_mes_ej ! 0))) = (2025, 1)"
    by (simp add: mejor_mes_ej_def)
  have none: "\<forall>c \<in> set consumo_ej. periodo_registro c \<noteq> ''llano_LV''"
    by (simp add: consumo_ej_def periodo_registro_def classify_def)
  note inst = cost_breakdown_per_tariff [of consumo_ej "''llano_LV''" sort_key "[tarifa_a, tarifa_b]" 3 4
      ranking_ej mejor_mes_ej "mejor_mes_ej ! 0"]
  have a: "mset (map (\<lambda>row. (fila_anual.comercializadora (fila_base row),
                       fila_anual.tarifa (fila_base row),
                       coste_energia_anual (fila_base row),
                       coste_potencia_anual (fila_base row),
                       coste_total_anual (fila_base row))) ranking_ej) =
   mset (map (\<lambda>t. (tarifa_row.comercializadora t, tarifa_row.tarifa t,
                     energy_cost consumo_ej t,
                     (potencia_mes_valle t * 3 + potencia_mes_punta_llano t * 4) * 12,
                     energy_cost consumo_ej t
                       + (potencia_mes_valle t * 3 + potencia_mes_punta_llano t * 4) * 12))
             [tarifa_a, tarifa_b])"
    using inst ok ranking_ej_eq by blast
  have z: "kwh_by_period consumo_ej ''llano_LV'' = 0"
    using inst none by blast
  have p: "ref_peor_coste_total (fila_kpis (mejor_mes_ej ! 0)) =
     Max (set (map (\<lambda>t. energy_cost (registros_mes consumo_ej (2025, 1)) t
            + (potencia_mes_valle t * 3 + potencia_mes_punta_llano t * 4) * 1) [tarifa_a, tarifa_b]))"
    using inst mejor_mes_ej_eq m unfolding Let_def k by blast
  have ev: "map (\<lambda>row. (fila_anual.tarifa (fila_base row),
                coste_energia_anual (fila_base row),
                coste_potencia_anual (fila_base row),
                coste_total_anual (fila_base row))) ranking_ej =
     [(''dos'', 22, 132, 154), (''uno'', 27, 132, 159)]"
    "coste_energia_mes (fila_base (mejor_mes_ej ! 0)) = 19"
    "coste_potencia_mes (fila_base (mejor_mes_ej ! 0)) = 11"
    "coste_total_mes (fila_base (mejor_mes_ej ! 0)) = 30"
    by (simp_all add: ranking_ej_def mejor_mes_ej_def)
  show ?thesis
    using ok ranking_ej_eq mejor_mes_ej_eq a z m p ev by (intro conjI)
qed

subsection \<open>Annual and monthly costs of a single month\<close>

text \<open>
  Claim C5, as stated, fails in its power half. Tariff \<open>decimos\<close> charges 0.1 per kW and
  month for each power, and the contracted powers are 1 kW and 4 kW. The annual loop body
  computes \<open>0.1 * 1 * 12 + 0.1 * 4 * 12\<close>, which is the double 6.000000000000001, and the
  monthly loop computes \<open>0.1 * 1 + 0.1 * 4\<close>, which is the double 0.5: 12 times 0.5 is 6.
  The energy cost is 1 in both.
\<close>

theorem annual_power_cost_counterexample:
  "fila_anual_tarifa_f (Val 4) (Val 0) (Val 0) (Val 0) (Val 4) (Val 1) (Val 4) tarifa_decimos
     = Inr \<lparr>fila_anual_f.comercializadora_f = ''D'', fila_anual_f.tarifa_f = ''decimos'',
            kwh_anuales_f = Val 4, coste_energia_anual_f = Val 1,
            coste_potencia_anual_f = Val (6755399441055745 / 1125899906842624),
            coste_total_anual_f = Val (7881299347898369 / 1125899906842624),
            coste_medio_eur_kwh_f = Val (7881299347898369 / 4503599627370496)\<rparr> \<and>
   bucle_tarifas_mes_f 2025 1 (Val 4) (Val 0) (Val 0) (Val 0) (Val 4) (Val 1) (Val 4)
       [tarifa_decimos]
     = (Some \<lparr>anio_f = 2025, mes_f = 1,
              fila_mes_f.comercializadora_f = ''D'', fila_mes_f.tarifa_f = ''decimos'',
              kwh_mes_f = Val 4, coste_energia_mes_f = Val 1,
              coste_potencia_mes_f = Val (1 / 2), coste_total_mes_f = Val (3 / 2)\<rparr>,
        [Val (3 / 2)]) \<and>
   fmul (Val 12) (Val (1 / 2)) = Val 6 \<and>
   Val (6755399441055745 / 1125899906842624) \<noteq> fmul (Val 12) (Val (1 / 2)) \<and>
   (6755399441055745 / 1125899906842624 :: real) \<noteq> 12 * (1 / 2)"
proof -
  have a: "fila_anual_tarifa_f (Val 4) (Val 0) (Val 0) (Val 0) (Val 4) (Val 1) (Val 4) tarifa_decimos
     = Inr \<lparr>fila_anual_f.comercializadora_f = ''D'', fila_anual_f.tarifa_f = ''decimos'',
            kwh_anuales_f = Val 4, coste_energia_anual_f = Val 1,
            coste_potencia_anual_f = Val (6755399441055745 / 1125899906842624),
            coste_total_anual_f = Val (7881299347898369 / 1125899906842624),
            coste_medio_eur_kwh_f = Val (7881299347898369 / 4503599627370496)\<rparr>"
    by (simp add: fila_anual_tarifa_f_def Let_def calc_energia_f_def calc_potencia_anual_f_def
        tarifa_decimos_def rnd_0 rnd_ejemplos)
  have m: "bucle_tarifas_mes_f 2025 1 (Val 4) (Val 0) (Val 0) (Val 0) (Val 4) (Val 1) (Val 4)
       [tarifa_decimos]
     = (Some \<lparr>anio_f = 2025, mes_f = 1,
              fila_mes_f.comercializadora_f = ''D'', fila_mes_f.tarifa_f = ''decimos'',
              kwh_mes_f = Val 4, coste_energia_mes_f = Val 1,
              coste_potencia_mes_f = Val (1 / 2), coste_total_mes_f = Val (3 / 2)\<rparr>,
        [Val (3 / 2)])"
    by (simp add: bucle_tarifas_mes_f_def paso_tarifa_mes_f_def Let_def calc_energia_f_def
        calc_potencia_mes_f_def tarifa_decimos_def rnd_0 rnd_ejemplos)
  have t: "fmul (Val 12) (Val (1 / 2)) = Val 6" by (simp add: rnd_ejemplos)
  have n: "Val (6755399441055745 / 1125899906842624) \<noteq> fmul (Val 12) (Val (1 / 2))"
    unfolding t by simp
  have r: "(6755399441055745 / 1125899906842624 :: real) \<noteq> 12 * (1 / 2)" by simp
  show ?thesis using a m t n r by (intro conjI)
qed

text \<open>
  Claim C5, amended. Let all the records of a table that is not empty fall in one
  (year, month). The classifier returns, and the monthly pipeline has a single group, the
  whole table with its labels, so that the sums of the group are the sums of the table
  whatever the rounding of the library's sum. On those sums the annual loop body and the
  turn of the monthly loop for a tariff compute the same energy cost. If the contracted
  powers and the two power charges of the tariff are numbers that are not negative, the two
  power costs are numbers and the annual one is within \<open>12 * M / 2 ^ 51\<close> of 12 times the monthly
  one, \<open>M\<close>. The costs are the doubles that the loops compute.
\<close>

theorem annual_monthly_consistency_doubles:
  assumes ne: "df \<noteq> []"
    and one: "\<forall>c \<in> set df. anio_mes c = am"
  shows "\<exists>periodo g ra m.
     clasificar_periodo (map timestamp df) (map es_fin_semana df) = Inr periodo \<and>
     grupos_anio_mes (zip df periodo) = [(am, g)] \<and>
     sumas_f suma g = sumas_f suma (zip df periodo) \<and>
     (case sumas_f suma (zip df periodo) of
        (kwh_punta, kwh_llano, kwh_valle_lv, kwh_valle_sd, total_kwh) \<Rightarrow>
          fila_anual_tarifa_f kwh_punta kwh_llano kwh_valle_lv kwh_valle_sd total_kwh pv pp t)
       = Inr ra \<and>
     (case sumas_f suma g of
        (kwh_punta, kwh_llano, kwh_valle_lv, kwh_valle_sd, total_kwh_mes) \<Rightarrow>
          paso_tarifa_mes_f (fst am) (snd am) kwh_punta kwh_llano kwh_valle_lv kwh_valle_sd
            total_kwh_mes pv pp t (None, []))
       = (Some m, [coste_total_mes_f m]) \<and>
     fila_anual_f.comercializadora_f ra = fila_mes_f.comercializadora_f m \<and>
     fila_anual_f.tarifa_f ra = fila_mes_f.tarifa_f m \<and>
     kwh_anuales_f ra = kwh_mes_f m \<and>
     coste_energia_anual_f ra = coste_energia_mes_f m \<and>
     (no_negativo pv \<and> no_negativo pp \<and>
      no_negativo (potencia_mes_valle_f t) \<and> no_negativo (potencia_mes_punta_llano_f t) \<longrightarrow>
        (\<exists>A M. coste_potencia_anual_f ra = Val A \<and> coste_potencia_mes_f m = Val M \<and>
           \<bar>A - 12 * M\<bar> \<le> 12 * M / 2 ^ 51))"
proof -
  define periodo where "periodo = map periodo_registro df"
  have cl: "clasificar_periodo (map timestamp df) (map es_fin_semana df) = Inr periodo"
    unfolding periodo_def by (rule clasificar_periodo_df)
  have z: "zip df periodo = map (\<lambda>c. (c, periodo_registro c)) df"
    unfolding periodo_def by (rule zip_map_same)
  have keys: "sort (remdups (map anio_mes df)) = [am]" and reg: "registros_mes df am = df"
    using ne one by (rule single_month)+
  have gr: "grupos_anio_mes (zip df periodo) = [(am, zip df periodo)]"
    unfolding z grupos_anio_mes_eq keys by (simp add: reg)
  obtain k1 k2 k3 k4 tk where s: "sumas_f suma (zip df periodo) = (k1, k2, k3, k4, tk)"
    by (metis prod_cases5)
  obtain ra where ra: "fila_anual_tarifa_f k1 k2 k3 k4 tk pv pp t = Inr ra"
    and ra_n: "fila_anual_f.comercializadora_f ra = tarifa_row_f.comercializadora_f t"
      "fila_anual_f.tarifa_f ra = tarifa_row_f.tarifa_f t"
    and ra_k: "kwh_anuales_f ra = tk"
    and ra_e: "coste_energia_anual_f ra = calc_energia_f k1 k2 k3 k4 t"
    and ra_p: "coste_potencia_anual_f ra = calc_potencia_anual_f pv pp t"
    using fila_anual_tarifa_f_Inr [of k1 k2 k3 k4 tk pv pp t] by force
  define m where "m = fila_mes_f_val (fst am) (snd am) k1 k2 k3 k4 tk pv pp t"
  have st: "paso_tarifa_mes_f (fst am) (snd am) k1 k2 k3 k4 tk pv pp t (None, [])
       = (Some m, [coste_total_mes_f m])"
    by (simp add: paso_tarifa_mes_f_eq m_def fila_mes_f_val_total)
  have m_n: "fila_mes_f.comercializadora_f m = tarifa_row_f.comercializadora_f t"
      "fila_mes_f.tarifa_f m = tarifa_row_f.tarifa_f t"
    and m_k: "kwh_mes_f m = tk"
    and m_e: "coste_energia_mes_f m = calc_energia_f k1 k2 k3 k4 t"
    and m_p: "coste_potencia_mes_f m = calc_potencia_mes_f pv pp t"
    by (simp_all add: m_def fila_mes_f_val_def)
  have pw: "no_negativo pv \<and> no_negativo pp \<and>
      no_negativo (potencia_mes_valle_f t) \<and> no_negativo (potencia_mes_punta_llano_f t) \<longrightarrow>
        (\<exists>A M. coste_potencia_anual_f ra = Val A \<and> coste_potencia_mes_f m = Val M \<and>
           \<bar>A - 12 * M\<bar> \<le> 12 * M / 2 ^ 51)"
    unfolding ra_p m_p using calc_potencia_f_bound [of pv pp t] by blast
  have n1: "fila_anual_f.comercializadora_f ra = fila_mes_f.comercializadora_f m"
    and n2: "fila_anual_f.tarifa_f ra = fila_mes_f.tarifa_f m"
    and k: "kwh_anuales_f ra = kwh_mes_f m"
    and e: "coste_energia_anual_f ra = coste_energia_mes_f m"
    by (simp_all add: ra_n m_n ra_k m_k ra_e m_e)
  have an: "(case sumas_f suma (zip df periodo) of
        (kwh_punta, kwh_llano, kwh_valle_lv, kwh_valle_sd, total_kwh) \<Rightarrow>
          fila_anual_tarifa_f kwh_punta kwh_llano kwh_valle_lv kwh_valle_sd total_kwh pv pp t)
       = Inr ra"
    unfolding s using ra by simp
  have me: "(case sumas_f suma (zip df periodo) of
        (kwh_punta, kwh_llano, kwh_valle_lv, kwh_valle_sd, total_kwh_mes) \<Rightarrow>
          paso_tarifa_mes_f (fst am) (snd am) kwh_punta kwh_llano kwh_valle_lv kwh_valle_sd
            total_kwh_mes pv pp t (None, []))
       = (Some m, [coste_total_mes_f m])"
    unfolding s using st by simp
  show ?thesis
    using cl gr an me n1 n2 k e pw
    by (intro exI [of _ periodo] exI [of _ "zip df periodo"] exI [of _ ra] exI [of _ m]
        conjI refl)
qed

theorem annual_monthly_consistency_doubles_witness:
  "consumo_enero \<noteq> [] \<and>
   map anio_mes consumo_enero = [(2025, 1), (2025, 1)] \<and>
   no_negativo (Val 1) \<and> no_negativo (Val 4) \<and>
   no_negativo (potencia_mes_valle_f tarifa_decimos) \<and>
   no_negativo (potencia_mes_punta_llano_f tarifa_decimos) \<and>
   (\<exists>periodo g ra m.
      clasificar_periodo (map timestamp consumo_enero) (map es_fin_semana consumo_enero)
        = Inr periodo \<and>
      grupos_anio_mes (zip consumo_enero periodo) = [((2025, 1), g)] \<and>
      sumas_f suma_exacta g = (Val 100, Val 0, Val 0, Val 50, Val 150) \<and>
      sumas_f suma_exacta (zip consumo_enero periodo) = (Val 100, Val 0, Val 0, Val 50, Val 150) \<and>
      fila_anual_tarifa_f (Val 100) (Val 0) (Val 0) (Val 50) (Val 150) (Val 1) (Val 4)
          tarifa_decimos = Inr ra \<and>
      paso_tarifa_mes_f 2025 1 (Val 100) (Val 0) (Val 0) (Val 50) (Val 150) (Val 1) (Val 4)
          tarifa_decimos (None, []) = (Some m, [coste_total_mes_f m]) \<and>
      coste_energia_anual_f ra = Val 25 \<and> coste_energia_mes_f m = Val 25 \<and>
      coste_potencia_anual_f ra = Val (6755399441055745 / 1125899906842624) \<and>
      coste_potencia_mes_f m = Val (1 / 2) \<and>
      \<bar>6755399441055745 / 1125899906842624 - 12 * (1 / 2)\<bar> \<le> (12 * (1 / 2) / 2 ^ 51 :: real))"
proof -
  have ne: "consumo_enero \<noteq> []" by (simp add: consumo_enero_def consumo_ej_def)
  have ks: "map anio_mes consumo_enero = [(2025, 1), (2025, 1)]"
    by (simp add: consumo_enero_def consumo_ej_def anio_mes_def)
  have one: "\<forall>c \<in> set consumo_enero. anio_mes c = (2025, 1)"
  proof
    fix c assume "c \<in> set consumo_enero"
    then have "anio_mes c \<in> set (map anio_mes consumo_enero)" by simp
    then show "anio_mes c = (2025, 1)" unfolding ks by simp
  qed
  have v: "no_negativo (Val 1)" "no_negativo (Val 4)" by (simp_all add: no_negativo_def)
  have tn: "no_negativo (potencia_mes_valle_f tarifa_decimos)"
    "no_negativo (potencia_mes_punta_llano_f tarifa_decimos)"
    by (simp_all add: tarifa_decimos_def no_negativo_def rnd_ejemplos)
  have su: "sumas_f suma_exacta (zip consumo_enero (map periodo_registro consumo_enero))
      = (Val 100, Val 0, Val 0, Val 50, Val 150)"
    by (simp add: sumas_f_def Let_def zip_map_same suma_exacta_eq kwh_enero rnd_ejemplos)
  obtain periodo g ra m where
    cl: "clasificar_periodo (map timestamp consumo_enero) (map es_fin_semana consumo_enero)
        = Inr periodo"
    and gr: "grupos_anio_mes (zip consumo_enero periodo) = [((2025, 1), g)]"
    and sg: "sumas_f suma_exacta g = sumas_f suma_exacta (zip consumo_enero periodo)"
    and an: "(case sumas_f suma_exacta (zip consumo_enero periodo) of
        (kwh_punta, kwh_llano, kwh_valle_lv, kwh_valle_sd, total_kwh) \<Rightarrow>
          fila_anual_tarifa_f kwh_punta kwh_llano kwh_valle_lv kwh_valle_sd total_kwh
            (Val 1) (Val 4) tarifa_decimos) = Inr ra"
    and me: "(case sumas_f suma_exacta g of
        (kwh_punta, kwh_llano, kwh_valle_lv, kwh_valle_sd, total_kwh_mes) \<Rightarrow>
          paso_tarifa_mes_f (fst (2025 :: int, 1 :: nat)) (snd (2025 :: int, 1 :: nat))
            kwh_punta kwh_llano kwh_valle_lv kwh_valle_sd
            total_kwh_mes (Val 1) (Val 4) tarifa_decimos (None, []))
       = (Some m, [coste_total_mes_f m])"
    and en: "coste_energia_anual_f ra = coste_energia_mes_f m"
    and pw: "\<exists>A M. coste_potencia_anual_f ra = Val A \<and> coste_potencia_mes_f m = Val M \<and>
           \<bar>A - 12 * M\<bar> \<le> 12 * M / 2 ^ 51"
    using annual_monthly_consistency_doubles [OF ne one, of suma_exacta "Val 1" "Val 4"
        tarifa_decimos] v tn
    by blast
  have p: "periodo = map periodo_registro consumo_enero"
    using cl unfolding clasificar_periodo_df by simp
  have s1: "sumas_f suma_exacta (zip consumo_enero periodo)
      = (Val 100, Val 0, Val 0, Val 50, Val 150)"
    unfolding p by (rule su)
  have s2: "sumas_f suma_exacta g = (Val 100, Val 0, Val 0, Val 50, Val 150)"
    unfolding sg by (rule s1)
  have ra: "fila_anual_tarifa_f (Val 100) (Val 0) (Val 0) (Val 50) (Val 150) (Val 1) (Val 4)
          tarifa_decimos = Inr ra"
    using an unfolding s1 by simp
  have st: "paso_tarifa_mes_f 2025 1 (Val 100) (Val 0) (Val 0) (Val 50) (Val 150) (Val 1) (Val 4)
          tarifa_decimos (None, []) = (Some m, [coste_total_mes_f m])"
    using me unfolding s2 by simp
  have pa: "coste_potencia_anual_f ra = Val (6755399441055745 / 1125899906842624)"
    and ea: "coste_energia_anual_f ra = Val 25"
    using ra
    by (auto simp: fila_anual_tarifa_f_def Let_def calc_energia_f_def calc_potencia_anual_f_def
        tarifa_decimos_def rnd_0 rnd_ejemplos)
  have pm: "coste_potencia_mes_f m = Val (1 / 2)"
    using st
    by (auto simp: paso_tarifa_mes_f_def Let_def calc_energia_f_def calc_potencia_mes_f_def
        tarifa_decimos_def rnd_0 rnd_ejemplos)
  have bound: "\<bar>6755399441055745 / 1125899906842624 - 12 * (1 / 2)\<bar>
      \<le> (12 * (1 / 2) / 2 ^ 51 :: real)"
    using pw unfolding pa pm by blast
  have em: "coste_energia_mes_f m = Val 25"
    using en ea by simp
  show ?thesis
    using ne ks v tn cl gr s2 s1 ra st ea em pa pm bound
    by (intro conjI exI [of _ periodo] exI [of _ g] exI [of _ ra] exI [of _ m])
qed

end
